theory Spec2Isabelle
  imports Main "HOL-Library.AList"
begin

section \<open>Data model\<close>

text \<open>
  The server keeps all of its state in JavaScript \<^verbatim>\<open>Map\<close>s that live for the whole process:
  \<^verbatim>\<open>teachingSessions\<close> and \<^verbatim>\<open>gamingRooms\<close> (server.js), \<^verbatim>\<open>events\<close> and \<^verbatim>\<open>eventPolls\<close>
  (the event controller) and \<^verbatim>\<open>rooms\<close> (the \<^verbatim>\<open>WebRTCHandler\<close> object).  A \<^verbatim>\<open>Map\<close> iterates in
  insertion order, \<^verbatim>\<open>set\<close> on a present key keeps the key's position, so a \<^verbatim>\<open>Map\<close> is an association
  list read with \<^const>\<open>map_of\<close> and written with \<^const>\<open>AList.update\<close> and \<^const>\<open>AList.delete\<close>.

  Socket ids, room ids, event ids and poll ids are JavaScript strings.  Socket.IO names its
  broadcast groups by strings too and puts every socket into the group named by its own id.
\<close>

type_synonym sid = string

subsection \<open>Profiles sent by clients\<close>

text \<open>
  The \<^verbatim>\<open>student\<close> object of \<^verbatim>\<open>join-room-old\<close> and \<^verbatim>\<open>confirm-join\<close>.  The handlers read
  \<^verbatim>\<open>id\<close>, \<^verbatim>\<open>name\<close>, \<^verbatim>\<open>email\<close> and \<^verbatim>\<open>avatar\<close>; a field the client left out is \<^verbatim>\<open>undefined\<close>,
  here \<^const>\<open>None\<close>.  The name is always read as a string.
\<close>

record profile =
  pr_id :: "string option"
  pr_name :: string
  pr_email :: "string option"
  pr_avatar :: "string option"

text \<open>\<^verbatim>\<open>{ ...student, socketId: socket.id }\<close>: an entry of \<^verbatim>\<open>session.students\<close>.\<close>

record student =
  st_profile :: profile
  st_socketId :: sid

text \<open>
  An entry of \<^verbatim>\<open>event.attendees\<close> (server.js, lines 191-200).  A JavaScript string is a
  sequence of UTF-16 code units, and a \<^typ>\<open>char\<close> stands for the code unit of the same number
  (\<^verbatim>\<open>0\<close> to \<^verbatim>\<open>255\<close>).  The avatar can be the upper case of a letter of the name, which for two
  of these letters is a code unit above \<^verbatim>\<open>255\<close>, so the avatar is kept as code units.
\<close>

record attendee =
  at_id :: sid
  at_name :: string
  at_email :: string
  at_avatar :: "nat list"
  at_socketId :: sid
  at_handRaised :: bool
  at_status :: string
  at_joinTime :: nat

text \<open>An entry of \<^verbatim>\<open>gamingRoom.participants\<close> (server.js, lines 233-242).\<close>

record participant =
  pa_id :: sid
  pa_name :: string
  pa_avatar :: "string option"
  pa_socketId :: sid
  pa_audio :: bool
  pa_video :: bool
  pa_screenshare :: bool
  pa_joinTime :: nat

subsection \<open>Rooms\<close>

datatype room_type = Teaching | Gaming

text \<open>
  A teaching session (server.js, lines 110-120).  \<^verbatim>\<open>hostActive\<close> is not a field of a fresh
  session: it is \<^verbatim>\<open>undefined\<close> (\<^const>\<open>None\<close>) until the disconnect handler writes \<^verbatim>\<open>false\<close>.
\<close>

record session =
  ts_host :: string
  ts_hostSocketId :: sid
  ts_students :: "student list"
  ts_messages :: "string list"
  ts_notes :: "string list"
  ts_attendance :: "string list"
  ts_feedback :: "string list"
  ts_createdAt :: nat
  ts_type :: room_type
  ts_hostActive :: "bool option"

text \<open>A gaming room (server.js, lines 87-94).\<close>

record gaming_room =
  gr_host :: string
  gr_hostSocketId :: sid
  gr_participants :: "participant list"
  gr_messages :: "string list"
  gr_createdAt :: nat
  gr_type :: room_type

text \<open>A room of the \<^verbatim>\<open>WebRTCHandler\<close> (lines 47-52 of the handler).\<close>

record wroom =
  wr_hostId :: sid
  wr_hostName :: string
  wr_students :: "(sid \<times> profile) list"
  wr_connections :: "(sid \<times> string) list"

subsection \<open>Events and polls\<close>

datatype event_status = Ev_created | Ev_active | Ev_ended

record event_host =
  eh_name :: string
  eh_email :: string
  eh_socketId :: "sid option"

record event_settings =
  chatEnabled :: bool
  handsEnabled :: bool
  documentsEnabled :: bool
  pollsEnabled :: bool

text \<open>
  An event (controller, lines 39-61).  \<^verbatim>\<open>event.polls\<close> holds references to the poll objects
  that \<^verbatim>\<open>eventPolls\<close> holds too; a reference is the object's address in the poll store below.
\<close>

record event =
  ev_id :: string
  ev_title :: string
  ev_description :: string
  ev_host :: event_host
  ev_attendees :: "attendee list"
  ev_messages :: "string list"
  ev_documents :: "string list"
  ev_polls :: "nat list"
  ev_settings :: event_settings
  ev_status :: event_status
  ev_createdAt :: nat
  ev_startedAt :: "nat option"
  ev_endedAt :: "nat option"

text \<open>An option of a poll (controller, lines 139-144).\<close>

record poll_option =
  opt_id :: nat
  opt_text :: string
  opt_votes :: nat
  opt_voters :: "string list"

datatype poll_status = Active | Closed

text \<open>
  A poll object.  \<^verbatim>\<open>createPoll\<close> builds it with every field but \<^verbatim>\<open>votes\<close>;
  \<^verbatim>\<open>event-start-poll\<close> copies the client's poll object and sets \<^verbatim>\<open>id\<close>, \<^verbatim>\<open>eventId\<close>,
  \<^verbatim>\<open>status\<close> and \<^verbatim>\<open>votes\<close>.  \<^verbatim>\<open>votes\<close> is the object \<^verbatim>\<open>{ userId: optionId }\<close> of the socket
  path, \<^verbatim>\<open>undefined\<close> (\<^const>\<open>None\<close>) on a poll of \<^verbatim>\<open>createPoll\<close>.  \<^verbatim>\<open>duration\<close> is in seconds.
\<close>

record poll =
  poll_id :: string
  poll_eventId :: string
  poll_question :: string
  poll_options :: "poll_option list"
  poll_duration :: "int option"
  poll_createdAt :: "nat option"
  poll_expiresAt :: "int option"
  poll_status :: poll_status
  poll_totalVotes :: nat
  poll_votes :: "(string \<times> nat) list option"

subsection \<open>Messages to clients\<close>

text \<open>The \<^verbatim>\<open>event\<close> object inside \<^verbatim>\<open>event-joined\<close> (server.js, lines 211-218).\<close>

record event_snapshot =
  sn_title :: string
  sn_description :: string
  sn_host :: string
  sn_attendees :: "attendee list"
  sn_documents :: "string list"
  sn_settings :: event_settings

text \<open>The payload of an emitted Socket.IO event, one constructor per payload shape.\<close>

datatype payload =
    P_none
  | P_room_created_by string sid
  | P_room_created string
  | P_room string
  | P_socket sid
  | P_attendee attendee
  | P_event_joined string event_snapshot
  | P_room_joined_gaming string sid "participant list"
  | P_join_request sid student string nat
  | P_join_pending string string
  | P_join_approved string sid
  | P_join_rejected string string
  | P_room_joined_teaching string sid "student list"
  | P_student student
  | P_student_id "string option"
  | P_user_left sid
  | P_enabled bool
  | P_message string
  | P_poll poll
  | P_poll_id string
  | P_poll_vote string nat string

text \<open>An emitted event: its name and its payload.\<close>

type_synonym msg = "string \<times> payload"

text \<open>The JSON body of an HTTP response of the event controller.\<close>

datatype http_response =
    Json_failure nat string
  | Json_event_created string
  | Json_poll poll

subsection \<open>Timers\<close>

text \<open>
  The callback handed to \<^verbatim>\<open>setTimeout\<close>: \<^verbatim>\<open>createPoll\<close> closes the poll registered under the
  poll id; \<^verbatim>\<open>event-start-poll\<close> does the same and then emits \<^verbatim>\<open>event-poll-ended\<close> from the
  socket that started the poll to the event's group.
\<close>

datatype timer_task =
    Close_poll string
  | Close_event_poll sid string string

text \<open>A pending timer: when \<^verbatim>\<open>setTimeout\<close> was called, the delay it was given (ms), the task.\<close>

record timer =
  tm_armedAt :: nat
  tm_delay :: int
  tm_task :: timer_task

subsection \<open>The state of the process\<close>

text \<open>
  \<^verbatim>\<open>sids\<close> is Socket.IO's adapter: every connected socket with \<^verbatim>\<open>socket.rooms\<close>, the groups it
  has joined in the order it joined them (its own id first).  \<^verbatim>\<open>inbox\<close> collects, per socket,
  the events delivered to it.  \<^verbatim>\<open>pollObjs\<close> is the store of poll objects: \<^verbatim>\<open>eventPolls\<close> and
  \<^verbatim>\<open>event.polls\<close> hold addresses into it, as the JavaScript holds one object in both.
\<close>

record state =
  sids :: "(sid \<times> string list) list"
  inbox :: "sid \<Rightarrow> msg list"
  teachingSessions :: "(string \<times> session) list"
  gamingRooms :: "(string \<times> gaming_room) list"
  rooms :: "(string \<times> wroom) list"
  events :: "(string \<times> event) list"
  eventPolls :: "(string \<times> nat) list"
  pollObjs :: "poll list"
  timers :: "timer list"

definition init :: state where
  "init = \<lparr> sids = [], inbox = (\<lambda>_. []), teachingSessions = [], gamingRooms = [], rooms = [],
            events = [], eventPolls = [], pollObjs = [], timers = [] \<rparr>"

section \<open>JavaScript and Socket.IO primitives\<close>

text \<open>\<^verbatim>\<open>s.startsWith(p)\<close>.\<close>

definition startsWith :: "string \<Rightarrow> string \<Rightarrow> bool" where
  "startsWith s p = (take (length p) s = p)"

text \<open>\<^verbatim>\<open>xs.findIndex(P)\<close>: the first index whose element satisfies \<open>P\<close>; \<^const>\<open>None\<close> is \<^verbatim>\<open>-1\<close>.\<close>

fun findIndex :: "('a \<Rightarrow> bool) \<Rightarrow> 'a list \<Rightarrow> nat option" where
  "findIndex P [] = None"
| "findIndex P (x # xs) = (if P x then Some 0 else map_option Suc (findIndex P xs))"

text \<open>\<^verbatim>\<open>xs.splice(i, 1)\<close>.\<close>

definition splice1 :: "nat \<Rightarrow> 'a list \<Rightarrow> 'a list" where
  "splice1 i xs = take i xs @ drop (Suc i) xs"

text \<open>\<^verbatim>\<open>x || d\<close> for a string or \<^verbatim>\<open>undefined\<close>: the empty string is falsy too.\<close>

definition or_string :: "string option \<Rightarrow> string \<Rightarrow> string" where
  "or_string x d = (case x of None \<Rightarrow> d | Some s \<Rightarrow> if s = [] then d else s)"

text \<open>\<^verbatim>\<open>duration || 60\<close> for a number or \<^verbatim>\<open>undefined\<close>: \<^verbatim>\<open>0\<close> is falsy too.\<close>

definition or_60 :: "int option \<Rightarrow> int" where
  "or_60 d = (case d of None \<Rightarrow> 60 | Some n \<Rightarrow> if n = 0 then 60 else n)"

text \<open>The UTF-16 code units of a string.\<close>

definition units :: "string \<Rightarrow> nat list" where
  "units s = map of_char s"

text \<open>
  \<^verbatim>\<open>c.toUpperCase()\<close> for a string of one code unit below \<^verbatim>\<open>256\<close>, as code units: the letters
  \<^verbatim>\<open>a\<close> to \<^verbatim>\<open>z\<close> and the lower-case letters of Latin-1 (\<^verbatim>\<open>U+00E0\<close> to \<^verbatim>\<open>U+00FE\<close> without the division
  sign \<^verbatim>\<open>U+00F7\<close>) go \<^verbatim>\<open>32\<close> down; the micro sign \<^verbatim>\<open>U+00B5\<close> becomes \<^verbatim>\<open>U+039C\<close>, the sharp s
  \<^verbatim>\<open>U+00DF\<close> becomes \<^verbatim>\<open>SS\<close>, and \<^verbatim>\<open>U+00FF\<close> becomes \<^verbatim>\<open>U+0178\<close>; every other code unit stays.
\<close>

definition toUpperCase :: "char \<Rightarrow> nat list" where
  "toUpperCase c =
     (let n = (of_char c :: nat)
      in if (97 \<le> n \<and> n \<le> 122) \<or> (224 \<le> n \<and> n \<le> 254 \<and> n \<noteq> 247) then [n - 32]
         else if n = 181 then [924]
         else if n = 223 then [83, 83]
         else if n = 255 then [376]
         else [n])"

text \<open>
  The names that a plain object inherits from \<^verbatim>\<open>Object.prototype\<close>: reading one of them from
  \<^verbatim>\<open>{}\<close> gives a function (for \<^verbatim>\<open>__proto__\<close> the prototype object), which is truthy.
\<close>

definition inherited_keys :: "string list" where
  "inherited_keys =
     [''constructor'', ''__defineGetter__'', ''__defineSetter__'', ''hasOwnProperty'',
      ''__lookupGetter__'', ''__lookupSetter__'', ''isPrototypeOf'', ''propertyIsEnumerable'',
      ''toString'', ''valueOf'', ''__proto__'', ''toLocaleString'']"

text \<open>The decimal digits of \<^verbatim>\<open>Date.now()\<close> inside a template literal.\<close>

definition digit :: "nat \<Rightarrow> char" where
  "digit n = ''0123456789'' ! n"

fun showNat :: "nat \<Rightarrow> string" where
  "showNat n = (if n < 10 then [digit n] else showNat (n div 10) @ [digit (n mod 10)])"

declare showNat.simps [simp del]

text \<open>A socket is in a group when the group is one of its \<^verbatim>\<open>socket.rooms\<close>.\<close>

definition in_group :: "state \<Rightarrow> string \<Rightarrow> sid \<Rightarrow> bool" where
  "in_group st g s = (case map_of (sids st) s of None \<Rightarrow> False | Some gs \<Rightarrow> g \<in> set gs)"

text \<open>One event delivered once to every socket of a set of recipients.\<close>

definition deliver :: "(sid \<Rightarrow> bool) \<Rightarrow> msg \<Rightarrow> state \<Rightarrow> state" where
  "deliver dest m st = st\<lparr>inbox := (\<lambda>s. if dest s then inbox st s @ [m] else inbox st s)\<rparr>"

text \<open>\<^verbatim>\<open>io.to(g).emit(...)\<close>: to every socket of the group.\<close>

definition io_to :: "string \<Rightarrow> msg \<Rightarrow> state \<Rightarrow> state" where
  "io_to g m st = deliver (in_group st g) m st"

text \<open>\<^verbatim>\<open>socket.to(g).emit(...)\<close>: to every socket of the group but the sender.\<close>

definition socket_to :: "sid \<Rightarrow> string \<Rightarrow> msg \<Rightarrow> state \<Rightarrow> state" where
  "socket_to s g m st = deliver (\<lambda>r. r \<noteq> s \<and> in_group st g r) m st"

text \<open>\<^verbatim>\<open>socket.emit(...)\<close>: to the handler's own socket.\<close>

definition socket_emit :: "sid \<Rightarrow> msg \<Rightarrow> state \<Rightarrow> state" where
  "socket_emit s m st = deliver (\<lambda>r. r = s) m st"

text \<open>\<^verbatim>\<open>socket.join(g)\<close>: \<^verbatim>\<open>socket.rooms\<close> is a \<^verbatim>\<open>Set\<close>, a second join changes nothing.\<close>

definition socket_join :: "sid \<Rightarrow> string \<Rightarrow> state \<Rightarrow> state" where
  "socket_join s g st =
     (case map_of (sids st) s of
        None \<Rightarrow> st
      | Some gs \<Rightarrow> st\<lparr>sids := AList.update s (if g \<in> set gs then gs else gs @ [g]) (sids st)\<rparr>)"

section \<open>The event controller (HTTP)\<close>

text \<open>
  \<^verbatim>\<open>createEvent\<close> (lines 34-74).  \<open>rnd\<close> is
  \<^verbatim>\<open>Math.random().toString(36).substr(2, 9).toUpperCase()\<close>, \<open>now\<close> the clock.
\<close>

definition createEvent ::
  "string option \<Rightarrow> string option \<Rightarrow> string \<Rightarrow> string \<Rightarrow> string \<Rightarrow> nat \<Rightarrow> state
     \<Rightarrow> http_response \<times> state" where
  "createEvent title description hostName hostEmail rnd now st =
     (let eventId = ''EVENT-'' @ rnd;
          ev = \<lparr> ev_id = eventId,
                 ev_title = or_string title ''Untitled Event'',
                 ev_description = or_string description '''',
                 ev_host = \<lparr> eh_name = hostName, eh_email = hostEmail, eh_socketId = None \<rparr>,
                 ev_attendees = [], ev_messages = [], ev_documents = [], ev_polls = [],
                 ev_settings = \<lparr> chatEnabled = True, handsEnabled = True,
                                 documentsEnabled = True, pollsEnabled = True \<rparr>,
                 ev_status = Ev_created, ev_createdAt = now, ev_startedAt = None,
                 ev_endedAt = None \<rparr>
      in (Json_event_created eventId, st\<lparr>events := AList.update eventId ev (events st)\<rparr>))"

text \<open>\<^verbatim>\<open>options.map((option, index) => ({ id: index, text: option, votes: 0, voters: [] }))\<close>.\<close>

definition fresh_options :: "string list \<Rightarrow> poll_option list" where
  "fresh_options options =
     map (\<lambda>(index, option). \<lparr> opt_id = index, opt_text = option, opt_votes = 0, opt_voters = [] \<rparr>)
       (enumerate 0 options)"

text \<open>
  \<^verbatim>\<open>createPoll\<close> (lines 124-168).  The new object is stored at the next free address; the map
  entry, the event's list and the timer refer to it as the JavaScript does: by reference from
  \<^verbatim>\<open>eventPolls\<close> and \<^verbatim>\<open>event.polls\<close>, by poll id from the timer's callback.
\<close>

definition createPoll ::
  "string \<Rightarrow> string \<Rightarrow> string list \<Rightarrow> int option \<Rightarrow> nat \<Rightarrow> state \<Rightarrow> http_response \<times> state" where
  "createPoll eventId question options duration now st =
     (case map_of (events st) eventId of
        None \<Rightarrow> (Json_failure 404 ''Event not found'', st)
      | Some ev \<Rightarrow>
          (let pollId = ''POLL-'' @ showNat now;
               p = \<lparr> poll_id = pollId, poll_eventId = eventId, poll_question = question,
                     poll_options = fresh_options options,
                     poll_duration = Some (or_60 duration),
                     poll_createdAt = Some now,
                     poll_expiresAt = Some (int now + or_60 duration * 1000),
                     poll_status = Active, poll_totalVotes = 0, poll_votes = None \<rparr>;
               a = length (pollObjs st)
           in (Json_poll p,
               st\<lparr> pollObjs := pollObjs st @ [p],
                   eventPolls := AList.update pollId a (eventPolls st),
                   events := AList.update eventId (ev\<lparr>ev_polls := ev_polls ev @ [a]\<rparr>) (events st),
                   timers := timers st @ [\<lparr> tm_armedAt = now, tm_delay = or_60 duration * 1000,
                                             tm_task = Close_poll pollId \<rparr>] \<rparr>)))"

text \<open>\<^verbatim>\<open>eventPolls.get(pollId)\<close>: the object's address and the object.\<close>

definition get_poll :: "state \<Rightarrow> string \<Rightarrow> (nat \<times> poll) option" where
  "get_poll st pollId =
     (case map_of (eventPolls st) pollId of
        None \<Rightarrow> None
      | Some a \<Rightarrow> if a < length (pollObjs st) then Some (a, pollObjs st ! a) else None)"

text \<open>
  \<^verbatim>\<open>option.votes++; option.voters.push(userId)\<close> on the option that
  \<^verbatim>\<open>poll.options.find(opt => opt.id === optionId)\<close> returns: the first one with that id.
\<close>

fun add_vote :: "nat \<Rightarrow> string \<Rightarrow> poll_option list \<Rightarrow> poll_option list" where
  "add_vote optionId userId [] = []"
| "add_vote optionId userId (opt # opts) =
     (if opt_id opt = optionId
      then opt\<lparr>opt_votes := opt_votes opt + 1, opt_voters := opt_voters opt @ [userId]\<rparr> # opts
      else opt # add_vote optionId userId opts)"

text \<open>\<^verbatim>\<open>votePoll\<close> (lines 170-205): the response and the state after it.\<close>

definition votePoll :: "string \<Rightarrow> nat \<Rightarrow> string \<Rightarrow> state \<Rightarrow> http_response \<times> state" where
  "votePoll pollId optionId userId st =
     (case get_poll st pollId of
        None \<Rightarrow> (Json_failure 404 ''Poll not found'', st)
      | Some (a, p) \<Rightarrow>
          if poll_status p \<noteq> Active then (Json_failure 400 ''Poll is not active'', st)
          else if list_ex (\<lambda>option. userId \<in> set (opt_voters option)) (poll_options p)
          then (Json_failure 400 ''User already voted'', st)
          else (case find (\<lambda>opt. opt_id opt = optionId) (poll_options p) of
                  None \<Rightarrow> (Json_failure 400 ''Invalid option'', st)
                | Some option \<Rightarrow>
                    (let p' = p\<lparr> poll_options := add_vote optionId userId (poll_options p),
                                 poll_totalVotes := poll_totalVotes p + 1 \<rparr>
                     in (Json_poll p', st\<lparr>pollObjs := (pollObjs st)[a := p']\<rparr>))))"

section \<open>Timers\<close>

text \<open>
  The body of both timer callbacks (controller lines 157-160, server.js lines 593-597):
  \<^verbatim>\<open>eventPolls.get(pollId)\<close>, and if the poll is there and active, \<^verbatim>\<open>status = 'closed'\<close>.
\<close>

definition run_task :: "timer_task \<Rightarrow> state \<Rightarrow> state" where
  "run_task task st =
     (case task of
        Close_poll pollId \<Rightarrow>
          (case get_poll st pollId of
             None \<Rightarrow> st
           | Some (a, p) \<Rightarrow>
               if poll_status p = Active
               then st\<lparr>pollObjs := (pollObjs st)[a := p\<lparr>poll_status := Closed\<rparr>]\<rparr>
               else st)
      | Close_event_poll s eventId pollId \<Rightarrow>
          (case get_poll st pollId of
             None \<Rightarrow> st
           | Some (a, p) \<Rightarrow>
               if poll_status p = Active
               then socket_to s eventId (''event-poll-ended'', P_poll_id pollId)
                      (st\<lparr>pollObjs := (pollObjs st)[a := p\<lparr>poll_status := Closed\<rparr>]\<rparr>)
               else st))"

text \<open>The runtime fires the \<open>k\<close>-th pending timer: it runs once and is gone.\<close>

definition fire :: "nat \<Rightarrow> state \<Rightarrow> state" where
  "fire k st =
     (if k < length (timers st)
      then run_task (tm_task (timers st ! k)) (st\<lparr>timers := splice1 k (timers st)\<rparr>)
      else st)"

section \<open>The signaling handler (\<^verbatim>\<open>WebRTCHandler\<close>)\<close>

text \<open>
  The handler is constructed before server.js registers its own connection listener, so for
  every socket its listeners run first.  \<^verbatim>\<open>create-room\<close> (lines 43-56).
\<close>

definition w_create_room :: "sid \<Rightarrow> string \<Rightarrow> string \<Rightarrow> state \<Rightarrow> state" where
  "w_create_room s roomId host st =
     socket_emit s (''room-created'', P_room_created_by roomId s)
       (socket_join s roomId
          (st\<lparr>rooms := AList.update roomId
                  \<lparr> wr_hostId = s, wr_hostName = host, wr_students = [], wr_connections = [] \<rparr>
                  (rooms st)\<rparr>))"

text \<open>
  One turn of the loop of \<^verbatim>\<open>handleUserDisconnect\<close> (lines 131-149), for the entry
  \<^verbatim>\<open>[roomId, room]\<close>.
\<close>

definition w_disconnect_room :: "sid \<Rightarrow> string \<times> wroom \<Rightarrow> state \<Rightarrow> state" where
  "w_disconnect_room socketId entry st =
     (case entry of (roomId, room) \<Rightarrow>
        if wr_hostId room = socketId
        then (io_to roomId (''host-disconnected'', P_none) st)
               \<lparr>rooms := AList.delete roomId (rooms st)\<rparr>
        else if map_of (wr_students room) socketId \<noteq> None
        then io_to (wr_hostId room) (''student-left'', P_socket socketId)
               (io_to roomId (''user-left-webrtc'', P_user_left socketId)
                  (st\<lparr>rooms := AList.update roomId
                          (room\<lparr>wr_students := AList.delete socketId (wr_students room)\<rparr>)
                          (rooms st)\<rparr>))
        else st)"

text \<open>
  \<^verbatim>\<open>for (const [roomId, room] of this.rooms.entries())\<close>: a turn deletes or rewrites only its
  own entry, so the loop visits the entries the map had when it started.
\<close>

definition handleUserDisconnect :: "sid \<Rightarrow> state \<Rightarrow> state" where
  "handleUserDisconnect socketId st = fold (w_disconnect_room socketId) (rooms st) st"

section \<open>The handlers of server.js\<close>

text \<open>\<^verbatim>\<open>create-room\<close> (lines 74-127).\<close>

definition s_create_room :: "sid \<Rightarrow> string \<Rightarrow> string \<Rightarrow> nat \<Rightarrow> state \<Rightarrow> state" where
  "s_create_room s roomId host now st0 =
     (let st = socket_join s roomId st0;
          st' =
            (if startsWith roomId ''GAME-'' then
               (case map_of (gamingRooms st) roomId of
                  Some existingRoom \<Rightarrow>
                    st\<lparr>gamingRooms := AList.update roomId
                          (existingRoom\<lparr>gr_hostSocketId := s\<rparr>) (gamingRooms st)\<rparr>
                | None \<Rightarrow>
                    st\<lparr>gamingRooms := AList.update roomId
                          \<lparr> gr_host = host, gr_hostSocketId = s, gr_participants = [],
                            gr_messages = [], gr_createdAt = now, gr_type = Gaming \<rparr>
                          (gamingRooms st)\<rparr>)
             else if startsWith roomId ''EVENT-'' then
               (case map_of (events st) roomId of
                  Some ev \<Rightarrow>
                    st\<lparr>events := AList.update roomId
                          (ev\<lparr> ev_host := (ev_host ev)\<lparr>eh_socketId := Some s\<rparr>,
                               ev_status := Ev_active, ev_startedAt := Some now \<rparr>)
                          (events st)\<rparr>
                | None \<Rightarrow> st)
             else
               st\<lparr>teachingSessions := AList.update roomId
                     \<lparr> ts_host = host, ts_hostSocketId = s, ts_students = [], ts_messages = [],
                       ts_notes = [], ts_attendance = [], ts_feedback = [], ts_createdAt = now,
                       ts_type = Teaching, ts_hostActive = None \<rparr>
                     (teachingSessions st)\<rparr>)
      in socket_emit s (''room-created'', P_room_created roomId) st')"

text \<open>
  The argument of \<^verbatim>\<open>join-room-old\<close>: a bare room id, for which the handler makes up the
  student \<^verbatim>\<open>{ name: 'User', avatar: 'U' }\<close>, or \<^verbatim>\<open>{ roomId, student }\<close>.
\<close>

datatype join_data = Join_id string | Join_object string profile

definition join_roomId :: "join_data \<Rightarrow> string" where
  "join_roomId data = (case data of Join_id r \<Rightarrow> r | Join_object r _ \<Rightarrow> r)"

definition join_student :: "join_data \<Rightarrow> profile" where
  "join_student data =
     (case data of
        Join_id _ \<Rightarrow> \<lparr> pr_id = None, pr_name = ''User'', pr_email = None, pr_avatar = Some ''U'' \<rparr>
      | Join_object _ student \<Rightarrow> student)"

text \<open>
  The \<^verbatim>\<open>attendee\<close> object of the event branch (lines 191-200).  Its avatar is
  \<^verbatim>\<open>student.avatar || student.name.charAt(0).toUpperCase()\<close>: \<^verbatim>\<open>charAt(0)\<close> of the empty name
  is the empty string.
\<close>

definition new_attendee :: "sid \<Rightarrow> profile \<Rightarrow> nat \<Rightarrow> attendee" where
  "new_attendee s student now =
     \<lparr> at_id = s, at_name = pr_name student,
       at_email = or_string (pr_email student) '''',
       at_avatar =
         (case pr_avatar student of
            None \<Rightarrow> concat (map toUpperCase (take 1 (pr_name student)))
          | Some avatar \<Rightarrow>
              if avatar = [] then concat (map toUpperCase (take 1 (pr_name student)))
              else units avatar),
       at_socketId = s, at_handRaised = False, at_status = ''online'', at_joinTime = now \<rparr>"

text \<open>The \<^verbatim>\<open>participant\<close> object of the gaming branch (lines 233-242).\<close>

definition new_participant :: "sid \<Rightarrow> profile \<Rightarrow> nat \<Rightarrow> participant" where
  "new_participant s student now =
     \<lparr> pa_id = s, pa_name = pr_name student, pa_avatar = pr_avatar student,
       pa_socketId = s, pa_audio = True, pa_video = True, pa_screenshare = False,
       pa_joinTime = now \<rparr>"

text \<open>The event branch of \<^verbatim>\<open>join-room-old\<close> (lines 185-226).\<close>

definition join_event :: "sid \<Rightarrow> string \<Rightarrow> profile \<Rightarrow> nat \<Rightarrow> state \<Rightarrow> state" where
  "join_event s roomId student now st0 =
     (case map_of (events st0) roomId of
        None \<Rightarrow> socket_emit s (''event-not-found'', P_room roomId) st0
      | Some ev \<Rightarrow>
          if ev_status ev = Ev_active then
            (let st = socket_join s roomId st0;
                 attendee = new_attendee s student now;
                 ev' = ev\<lparr>ev_attendees := ev_attendees ev @ [attendee]\<rparr>;
                 st1 = st\<lparr>events := AList.update roomId ev' (events st)\<rparr>;
                 st2 = io_to roomId (''attendee-joined'', P_attendee attendee) st1
             in socket_emit s
                  (''event-joined'',
                   P_event_joined roomId
                     \<lparr> sn_title = ev_title ev', sn_description = ev_description ev',
                       sn_host = eh_name (ev_host ev'), sn_attendees = ev_attendees ev',
                       sn_documents = ev_documents ev', sn_settings = ev_settings ev' \<rparr>)
                  st2)
          else socket_emit s (''event-not-found'', P_room roomId) st0)"

text \<open>
  Lines 245-250: \<^verbatim>\<open>findIndex(p => p.name === student.name)\<close>, then the entry at that index is
  overwritten, or the participant is pushed when there is none.
\<close>

definition put_participant :: "string \<Rightarrow> participant \<Rightarrow> participant list \<Rightarrow> participant list" where
  "put_participant name participant participants =
     (case findIndex (\<lambda>p. pa_name p = name) participants of
        Some existingIndex \<Rightarrow> participants[existingIndex := participant]
      | None \<Rightarrow> participants @ [participant])"

text \<open>The gaming branch of \<^verbatim>\<open>join-room-old\<close> (lines 227-267).\<close>

definition join_gaming :: "sid \<Rightarrow> string \<Rightarrow> profile \<Rightarrow> nat \<Rightarrow> state \<Rightarrow> state" where
  "join_gaming s roomId student now st0 =
     (case map_of (gamingRooms st0) roomId of
        None \<Rightarrow> socket_emit s (''room-not-found'', P_room roomId) st0
      | Some gamingRoom \<Rightarrow>
          (let st = socket_join s roomId st0;
               participant = new_participant s student now;
               participants =
                 put_participant (pr_name student) participant (gr_participants gamingRoom);
               gamingRoom' = gamingRoom\<lparr>gr_participants := participants\<rparr>;
               st1 = st\<lparr>gamingRooms := AList.update roomId gamingRoom' (gamingRooms st)\<rparr>;
               st2 = socket_to s roomId (''user-connected'', P_socket s) st1
           in socket_emit s
                (''room-joined'',
                 P_room_joined_gaming roomId (gr_hostSocketId gamingRoom')
                   (filter (\<lambda>p. pa_id p \<noteq> s) (gr_participants gamingRoom')))
                st2))"

text \<open>The teaching branch of \<^verbatim>\<open>join-room-old\<close> (lines 268-292).\<close>

definition join_teaching :: "sid \<Rightarrow> string \<Rightarrow> profile \<Rightarrow> nat \<Rightarrow> state \<Rightarrow> state" where
  "join_teaching s roomId student now st =
     (case map_of (teachingSessions st) roomId of
        None \<Rightarrow> socket_emit s (''room-not-found'', P_room roomId) st
      | Some session \<Rightarrow>
          socket_emit s (''join-pending'', P_join_pending roomId ''Waiting for teacher approval...'')
            (io_to (ts_hostSocketId session)
               (''join-request'',
                P_join_request s \<lparr> st_profile = student, st_socketId = s \<rparr> roomId now)
               st))"

definition join_room_old :: "sid \<Rightarrow> join_data \<Rightarrow> nat \<Rightarrow> state \<Rightarrow> state" where
  "join_room_old s data now st =
     (let roomId = join_roomId data; student = join_student data
      in if startsWith roomId ''EVENT-'' then join_event s roomId student now st
         else if startsWith roomId ''GAME-'' then join_gaming s roomId student now st
         else join_teaching s roomId student now st)"

text \<open>\<^verbatim>\<open>approve-join\<close> (lines 295-305) and \<^verbatim>\<open>reject-join\<close> (lines 307-310).\<close>

definition approve_join :: "sid \<Rightarrow> string \<Rightarrow> string \<Rightarrow> state \<Rightarrow> state" where
  "approve_join s requestId roomId st =
     (case map_of (teachingSessions st) roomId of
        None \<Rightarrow> st
      | Some session \<Rightarrow>
          io_to requestId (''join-approved'', P_join_approved roomId (ts_hostSocketId session)) st)"

definition reject_join :: "sid \<Rightarrow> string \<Rightarrow> string \<Rightarrow> state \<Rightarrow> state" where
  "reject_join s requestId roomId st =
     io_to requestId (''join-rejected'', P_join_rejected roomId ''Teacher declined your request'') st"

text \<open>\<^verbatim>\<open>confirm-join\<close> (lines 312-348).\<close>

definition confirm_join :: "sid \<Rightarrow> string \<Rightarrow> profile \<Rightarrow> state \<Rightarrow> state" where
  "confirm_join s roomId student st0 =
     (case map_of (teachingSessions st0) roomId of
        None \<Rightarrow> st0
      | Some session \<Rightarrow>
          (case findIndex (\<lambda>x. pr_id (st_profile x) = pr_id student \<or> st_socketId x = s)
                  (ts_students session) of
             Some existingIndex \<Rightarrow>
               (let students = (ts_students session)
                      [existingIndex := (ts_students session ! existingIndex)\<lparr>st_socketId := s\<rparr>];
                    session' = session\<lparr>ts_students := students\<rparr>;
                    st = st0\<lparr>teachingSessions := AList.update roomId session' (teachingSessions st0)\<rparr>;
                    st1 = socket_join s roomId st
                in socket_emit s
                     (''room-joined'',
                      P_room_joined_teaching roomId (ts_hostSocketId session') (ts_students session'))
                     st1)
           | None \<Rightarrow>
               (let st = socket_join s roomId st0;
                    studentWithSocket = \<lparr> st_profile = student, st_socketId = s \<rparr>;
                    session' = session\<lparr>ts_students := ts_students session @ [studentWithSocket]\<rparr>;
                    st1 = st\<lparr>teachingSessions := AList.update roomId session' (teachingSessions st)\<rparr>;
                    st2 = socket_to s roomId (''student-joined'', P_student studentWithSocket) st1
                in socket_emit s
                     (''room-joined'',
                      P_room_joined_teaching roomId (ts_hostSocketId session') (ts_students session'))
                     st2)))"

text \<open>
  \<^verbatim>\<open>disconnecting\<close> (lines 378-389): \<^verbatim>\<open>rooms[1]\<close> is the first group the socket joined after
  its own.
\<close>

definition s_disconnecting :: "sid \<Rightarrow> state \<Rightarrow> state" where
  "s_disconnecting s st =
     (case map_of (sids st) s of
        None \<Rightarrow> st
      | Some rs \<Rightarrow>
          if length rs > 1 then socket_to s (rs ! 1) (''user-disconnected'', P_socket s) st
          else st)"

text \<open>
  The first loop of \<^verbatim>\<open>disconnect\<close> (lines 395-400): every hosted session overwrites
  \<^verbatim>\<open>hostRoomId\<close>, the last one in the map's order stays.
\<close>

definition hostRoomId :: "sid \<Rightarrow> state \<Rightarrow> string option" where
  "hostRoomId s st =
     fold (\<lambda>(roomId, session) found. if ts_hostSocketId session = s then Some roomId else found)
       (teachingSessions st) None"

text \<open>One turn of the second loop (lines 410-420), for the entry \<^verbatim>\<open>(session, roomId)\<close>.\<close>

definition student_left :: "sid \<Rightarrow> string \<times> session \<Rightarrow> state \<Rightarrow> state" where
  "student_left s entry st =
     (case entry of (roomId, session) \<Rightarrow>
        (case findIndex (\<lambda>x. st_socketId x = s) (ts_students session) of
           None \<Rightarrow> st
         | Some studentIndex \<Rightarrow>
             socket_to s roomId
               (''student-left'', P_student_id (pr_id (st_profile (ts_students session ! studentIndex))))
               (st\<lparr>teachingSessions := AList.update roomId
                       (session\<lparr>ts_students := splice1 studentIndex (ts_students session)\<rparr>)
                       (teachingSessions st)\<rparr>)))"

text \<open>
  \<^verbatim>\<open>disconnect\<close> (lines 391-422).  \<^verbatim>\<open>if (hostRoomId)\<close> is false for \<^verbatim>\<open>null\<close> and for the empty
  string.
\<close>

definition s_disconnect :: "sid \<Rightarrow> state \<Rightarrow> state" where
  "s_disconnect s st =
     (case hostRoomId s st of
        Some roomId \<Rightarrow>
          if roomId \<noteq> [] then
            (case map_of (teachingSessions st) roomId of
               Some session \<Rightarrow>
                 st\<lparr>teachingSessions := AList.update roomId
                       (session\<lparr>ts_hostActive := Some False\<rparr>) (teachingSessions st)\<rparr>
             | None \<Rightarrow> st)
          else fold (student_left s) (teachingSessions st) st
      | None \<Rightarrow> fold (student_left s) (teachingSessions st) st)"

text \<open>\<^verbatim>\<open>event-toggle-chat\<close> (lines 567-573).\<close>

definition event_toggle_chat :: "sid \<Rightarrow> string \<Rightarrow> bool \<Rightarrow> state \<Rightarrow> state" where
  "event_toggle_chat s eventId enabled st =
     (case map_of (events st) eventId of
        None \<Rightarrow> st
      | Some ev \<Rightarrow>
          socket_to s eventId (''event-chat-toggled'', P_enabled enabled)
            (st\<lparr>events := AList.update eventId
                    (ev\<lparr>ev_settings := (ev_settings ev)\<lparr>chatEnabled := enabled\<rparr>\<rparr>) (events st)\<rparr>))"

text \<open>\<^verbatim>\<open>event-send-message\<close> (lines 575-581).\<close>

definition event_send_message :: "sid \<Rightarrow> string \<Rightarrow> string \<Rightarrow> state \<Rightarrow> state" where
  "event_send_message s eventId message st =
     (case map_of (events st) eventId of
        None \<Rightarrow> st
      | Some ev \<Rightarrow>
          if chatEnabled (ev_settings ev) then
            io_to eventId (''event-message'', P_message message)
              (st\<lparr>events := AList.update eventId
                      (ev\<lparr>ev_messages := ev_messages ev @ [message]\<rparr>) (events st)\<rparr>)
          else st)"

text \<open>
  \<^verbatim>\<open>send-message\<close> (lines 469-483), the chat of the gaming rooms and teaching sessions.  It
  reads neither \<^verbatim>\<open>events\<close> nor any setting, and emits to the group of whatever room id it is
  given.
\<close>

definition send_message :: "sid \<Rightarrow> string \<Rightarrow> string \<Rightarrow> state \<Rightarrow> state" where
  "send_message s roomId message st =
     io_to roomId (''message'', P_message message)
       (case map_of (gamingRooms st) roomId of
          Some gamingRoom \<Rightarrow>
            st\<lparr>gamingRooms := AList.update roomId
                  (gamingRoom\<lparr>gr_messages := gr_messages gamingRoom @ [message]\<rparr>)
                  (gamingRooms st)\<rparr>
        | None \<Rightarrow>
            (case map_of (teachingSessions st) roomId of
               Some session \<Rightarrow>
                 st\<lparr>teachingSessions := AList.update roomId
                       (session\<lparr>ts_messages := ts_messages session @ [message]\<rparr>)
                       (teachingSessions st)\<rparr>
             | None \<Rightarrow> st))"

text \<open>
  \<^verbatim>\<open>event-start-poll\<close> (lines 583-600): \<^verbatim>\<open>{ ...poll, id, eventId, status: 'active', votes: {} }\<close>
  and a timer of \<^verbatim>\<open>(poll.duration || 60) * 1000\<close> ms.
\<close>

definition event_start_poll :: "sid \<Rightarrow> string \<Rightarrow> poll \<Rightarrow> nat \<Rightarrow> state \<Rightarrow> state" where
  "event_start_poll s eventId p now st =
     (case map_of (events st) eventId of
        None \<Rightarrow> st
      | Some ev \<Rightarrow>
          (let pollId = ''POLL-'' @ showNat now;
               pollWithId = p\<lparr> poll_id := pollId, poll_eventId := eventId, poll_status := Active,
                               poll_votes := Some [] \<rparr>;
               a = length (pollObjs st);
               st1 = st\<lparr> pollObjs := pollObjs st @ [pollWithId],
                         eventPolls := AList.update pollId a (eventPolls st),
                         events := AList.update eventId (ev\<lparr>ev_polls := ev_polls ev @ [a]\<rparr>)
                                     (events st) \<rparr>;
               st2 = socket_to s eventId (''event-poll-started'', P_poll pollWithId) st1
           in st2\<lparr>timers := timers st2 @ [\<lparr> tm_armedAt = now,
                                             tm_delay = or_60 (poll_duration p) * 1000,
                                             tm_task = Close_event_poll s eventId pollId \<rparr>]\<rparr>))"

text \<open>
  \<^verbatim>\<open>event-vote-poll\<close> (lines 602-613).  \<^verbatim>\<open>poll.votes\<close> is a plain object: \<^verbatim>\<open>!poll.votes[userId]\<close>
  holds for a user whose recorded option id is \<^verbatim>\<open>0\<close>, and for a user without a vote unless the
  user id is a name that the object inherits (\<^const>\<open>inherited_keys\<close>).  On a poll of \<^verbatim>\<open>createPoll\<close>,
  \<^verbatim>\<open>poll.votes\<close> is \<^verbatim>\<open>undefined\<close> and reading \<^verbatim>\<open>poll.votes[userId]\<close> throws a \<^verbatim>\<open>TypeError\<close> that
  nothing catches: the process ends (\<^const>\<open>None\<close>).
\<close>

definition event_vote_poll :: "sid \<Rightarrow> string \<Rightarrow> nat \<Rightarrow> string \<Rightarrow> state \<Rightarrow> state option" where
  "event_vote_poll s pollId optionId userId st =
     (case get_poll st pollId of
        None \<Rightarrow> Some st
      | Some (a, p) \<Rightarrow>
          if poll_status p = Active then
            (case poll_votes p of
               None \<Rightarrow> None
             | Some votes \<Rightarrow>
                 if (case map_of votes userId of
                       None \<Rightarrow> userId \<notin> set inherited_keys
                     | Some v \<Rightarrow> v = 0) then
                   (let st1 = st\<lparr>pollObjs := (pollObjs st)
                                   [a := p\<lparr>poll_votes := Some (AList.update userId optionId votes)\<rparr>]\<rparr>
                    in case map_of (events st1) (poll_eventId p) of
                         Some ev \<Rightarrow>
                           Some (socket_to s (poll_eventId p)
                                   (''event-poll-vote'', P_poll_vote pollId optionId userId) st1)
                       | None \<Rightarrow> Some st1)
                 else Some st)
          else Some st)"

text \<open>\<^verbatim>\<open>event-end\<close> (lines 623-630).\<close>

definition event_end :: "sid \<Rightarrow> string \<Rightarrow> nat \<Rightarrow> state \<Rightarrow> state" where
  "event_end s eventId now st =
     (case map_of (events st) eventId of
        None \<Rightarrow> st
      | Some ev \<Rightarrow>
          socket_to s eventId (''event-ended'', P_none)
            (st\<lparr>events := AList.update eventId
                    (ev\<lparr>ev_status := Ev_ended, ev_endedAt := Some now\<rparr>) (events st)\<rparr>))"

section \<open>Connections and the event loop\<close>

text \<open>A new connection: Socket.IO puts the socket into the group named by its id.\<close>

definition connect :: "sid \<Rightarrow> state \<Rightarrow> state" where
  "connect s st = (if map_of (sids st) s = None then st\<lparr>sids := sids st @ [(s, [s])]\<rparr> else st)"

text \<open>
  A connection is lost.  Socket.IO emits \<^verbatim>\<open>disconnecting\<close> while the socket is still in its
  groups, takes it out of all of them, then emits \<^verbatim>\<open>disconnect\<close>; for that event the listener
  of the signaling handler runs before the one of server.js.
\<close>

definition disconnect :: "sid \<Rightarrow> state \<Rightarrow> state" where
  "disconnect s st0 =
     (let st1 = s_disconnecting s st0;
          st2 = st1\<lparr>sids := AList.delete s (sids st1)\<rparr>;
          st3 = handleUserDisconnect s st2
      in s_disconnect s st3)"

text \<open>\<^verbatim>\<open>create-room\<close> has a listener in both files.\<close>

definition create_room :: "sid \<Rightarrow> string \<Rightarrow> string \<Rightarrow> nat \<Rightarrow> state \<Rightarrow> state" where
  "create_room s roomId host now st = s_create_room s roomId host now (w_create_room s roomId host st)"

text \<open>
  What the process reacts to: connections, the Socket.IO events above (with the socket they
  arrive on), the HTTP requests of the event controller, and a timer that fires.
\<close>

datatype action =
    Connect sid
  | Disconnect sid
  | Create_room sid string string nat
  | Join_room_old sid join_data nat
  | Approve_join sid string string
  | Reject_join sid string string
  | Confirm_join sid string profile
  | Send_message sid string string
  | Event_toggle_chat sid string bool
  | Event_send_message sid string string
  | Event_start_poll sid string poll nat
  | Event_vote_poll sid string nat string
  | Event_end sid string nat
  | Post_event "string option" "string option" string string string nat
  | Post_poll string string "string list" "int option" nat
  | Post_vote string nat string
  | Timer nat

text \<open>The socket an action arrives on, if it is a Socket.IO event.\<close>

fun socket_of :: "action \<Rightarrow> sid option" where
  "socket_of (Disconnect s) = Some s"
| "socket_of (Create_room s _ _ _) = Some s"
| "socket_of (Join_room_old s _ _) = Some s"
| "socket_of (Approve_join s _ _) = Some s"
| "socket_of (Reject_join s _ _) = Some s"
| "socket_of (Confirm_join s _ _) = Some s"
| "socket_of (Send_message s _ _) = Some s"
| "socket_of (Event_toggle_chat s _ _) = Some s"
| "socket_of (Event_send_message s _ _) = Some s"
| "socket_of (Event_start_poll s _ _ _) = Some s"
| "socket_of (Event_vote_poll s _ _ _) = Some s"
| "socket_of (Event_end s _ _) = Some s"
| "socket_of _ = None"

fun handle :: "action \<Rightarrow> state \<Rightarrow> state option" where
  "handle (Connect s) st = Some (connect s st)"
| "handle (Disconnect s) st = Some (disconnect s st)"
| "handle (Create_room s roomId host now) st = Some (create_room s roomId host now st)"
| "handle (Join_room_old s data now) st = Some (join_room_old s data now st)"
| "handle (Approve_join s requestId roomId) st = Some (approve_join s requestId roomId st)"
| "handle (Reject_join s requestId roomId) st = Some (reject_join s requestId roomId st)"
| "handle (Confirm_join s roomId student) st = Some (confirm_join s roomId student st)"
| "handle (Send_message s roomId message) st = Some (send_message s roomId message st)"
| "handle (Event_toggle_chat s eventId enabled) st = Some (event_toggle_chat s eventId enabled st)"
| "handle (Event_send_message s eventId message) st = Some (event_send_message s eventId message st)"
| "handle (Event_start_poll s eventId p now) st = Some (event_start_poll s eventId p now st)"
| "handle (Event_vote_poll s pollId optionId userId) st = event_vote_poll s pollId optionId userId st"
| "handle (Event_end s eventId now) st = Some (event_end s eventId now st)"
| "handle (Post_event title description hostName hostEmail rnd now) st =
     Some (snd (createEvent title description hostName hostEmail rnd now st))"
| "handle (Post_poll eventId question options duration now) st =
     Some (snd (createPoll eventId question options duration now st))"
| "handle (Post_vote pollId optionId userId) st = Some (snd (votePoll pollId optionId userId st))"
| "handle (Timer k) st = Some (fire k st)"

text \<open>
  One step of the process.  A Socket.IO event only arrives on a connected socket; the result
  \<^const>\<open>None\<close> is the end of the process by an uncaught exception.
\<close>

definition step :: "action \<Rightarrow> state \<Rightarrow> state option" where
  "step act st =
     (case socket_of act of
        Some s \<Rightarrow> if map_of (sids st) s = None then Some st else handle act st
      | None \<Rightarrow> handle act st)"

fun run :: "action list \<Rightarrow> state \<Rightarrow> state option" where
  "run [] st = Some st"
| "run (act # acts) st = (case step act st of None \<Rightarrow> None | Some st' \<Rightarrow> run acts st')"

section \<open>Properties of polls: the notions the theorems use\<close>

text \<open>The per-option counts of a poll add up to its \<^verbatim>\<open>totalVotes\<close>.\<close>

definition counts_add_up :: "poll \<Rightarrow> bool" where
  "counts_add_up p = (sum_list (map opt_votes (poll_options p)) = poll_totalVotes p)"

text \<open>The options of a poll whose voter list holds the user.\<close>

definition voted_options :: "string \<Rightarrow> poll \<Rightarrow> poll_option list" where
  "voted_options userId p = filter (\<lambda>option. userId \<in> set (opt_voters option)) (poll_options p)"

text \<open>Every user that some voter list holds is held by the voter list of one option only.\<close>

definition one_option_per_voter :: "poll \<Rightarrow> bool" where
  "one_option_per_voter p =
     list_all (\<lambda>userId. length (voted_options userId p) \<le> 1)
       (concat (map opt_voters (poll_options p)))"

definition poll_inv :: "poll \<Rightarrow> bool" where
  "poll_inv p = (counts_add_up p \<and> one_option_per_voter p)"

text \<open>A poll as \<^verbatim>\<open>createPoll\<close> makes it: no votes, no voters, a total of zero.\<close>

definition fresh_poll :: "poll \<Rightarrow> bool" where
  "fresh_poll p =
     (list_all (\<lambda>option. opt_votes option = 0 \<and> opt_voters option = []) (poll_options p)
      \<and> poll_totalVotes p = 0 \<and> poll_status p = Active)"

section \<open>Example states\<close>

text \<open>An event, a poll on it with two options, one vote, and the poll closed by its timer.\<close>

definition ex_event_state :: state where
  "ex_event_state = snd (createEvent (Some ''Launch'') None ''Ada'' ''ada@example.org'' ''ABC'' 1 init)"

definition ex_poll_state :: state where
  "ex_poll_state = snd (createPoll ''EVENT-ABC'' ''Tea?'' [''yes'', ''no''] (Some 30) 5 ex_event_state)"

definition ex_voted_state :: state where
  "ex_voted_state = snd (votePoll ''POLL-5'' 1 ''u1'' ex_poll_state)"

definition ex_closed_state :: state where
  "ex_closed_state = fire 0 ex_voted_state"

text \<open>A poll object as a client sends it with \<^verbatim>\<open>event-start-poll\<close>, its duration \<^verbatim>\<open>0\<close>.\<close>

definition ex_zero_poll :: poll where
  "ex_zero_poll = \<lparr> poll_id = '''', poll_eventId = '''', poll_question = ''Quick?'',
                    poll_options = [], poll_duration = Some 0, poll_createdAt = None,
                    poll_expiresAt = None, poll_status = Active, poll_totalVotes = 0,
                    poll_votes = None \<rparr>"

definition ex_zero_state :: state where
  "ex_zero_state = event_start_poll ''h'' ''EVENT-ABC'' ex_zero_poll 7 (connect ''h'' ex_event_state)"

text \<open>
  A poll object as a client can send it with \<^verbatim>\<open>event-start-poll\<close>: the counts of its options
  do not add up to its \<^verbatim>\<open>totalVotes\<close>, and the user \<^verbatim>\<open>u1\<close> is in the voter list of both
  options.  The requests below store it under the id \<^verbatim>\<open>POLL-7\<close>.
\<close>

definition ex_client_poll :: poll where
  "ex_client_poll =
     \<lparr> poll_id = '''', poll_eventId = '''', poll_question = ''Tea?'',
       poll_options = [\<lparr> opt_id = 0, opt_text = ''yes'', opt_votes = 5, opt_voters = [''u1''] \<rparr>,
                       \<lparr> opt_id = 1, opt_text = ''no'', opt_votes = 0, opt_voters = [''u1''] \<rparr>],
       poll_duration = Some 30, poll_createdAt = None, poll_expiresAt = None,
       poll_status = Active, poll_totalVotes = 0, poll_votes = None \<rparr>"

definition ex_client_actions :: "action list" where
  "ex_client_actions =
     [Post_event (Some ''Launch'') None ''Ada'' ''ada@example.org'' ''ABC'' 1,
      Connect ''h'',
      Event_start_poll ''h'' ''EVENT-ABC'' ex_client_poll 7]"

definition ex_client_state :: state where
  "ex_client_state =
     event_start_poll ''h'' ''EVENT-ABC'' ex_client_poll 7 (connect ''h'' ex_event_state)"

text \<open>
  A teaching room \<^verbatim>\<open>T1\<close> created by the socket \<^verbatim>\<open>h\<close>, then joined by the socket \<^verbatim>\<open>s\<close> with
  \<^verbatim>\<open>confirm-join\<close>.
\<close>

definition ex_student :: profile where
  "ex_student = \<lparr> pr_id = Some ''stu-1'', pr_name = ''Sam'', pr_email = None, pr_avatar = Some ''S'' \<rparr>"

definition ex_class_created :: state where
  "ex_class_created = create_room ''h'' ''T1'' ''Ms Hopper'' 1 (connect ''h'' init)"

definition ex_class_joined :: state where
  "ex_class_joined = confirm_join ''s'' ''T1'' ex_student (connect ''s'' ex_class_created)"

text \<open>
  After that class, the socket \<^verbatim>\<open>h\<close> creates a second teaching room \<^verbatim>\<open>T2\<close>; and a teaching room
  whose id is the empty string.
\<close>

definition ex_class_two :: state where
  "ex_class_two = create_room ''h'' ''T2'' ''Ms Hopper'' 4 ex_class_joined"

definition ex_class_empty :: state where
  "ex_class_empty = create_room ''h'' [] ''Ms Hopper'' 1 (connect ''h'' init)"

text \<open>
  The event of \<^const>\<open>ex_event_state\<close> activated by its host on the socket \<^verbatim>\<open>h\<close>, joined by the
  socket \<^verbatim>\<open>a\<close>, and then with its chat switched off.
\<close>

definition ex_live_state :: state where
  "ex_live_state = create_room ''h'' ''EVENT-ABC'' ''Ada'' 2 (connect ''h'' ex_event_state)"

definition ex_attended_state :: state where
  "ex_attended_state =
     join_room_old ''a'' (Join_object ''EVENT-ABC'' ex_student) 3 (connect ''a'' ex_live_state)"

definition ex_muted_state :: state where
  "ex_muted_state = event_toggle_chat ''h'' ''EVENT-ABC'' False ex_attended_state"

text \<open>
  A gaming room \<^verbatim>\<open>GAME-1\<close> created by the socket \<^verbatim>\<open>h\<close> and joined by the socket \<^verbatim>\<open>b\<close> under the
  name \<^verbatim>\<open>Bo\<close>.
\<close>

definition ex_player :: profile where
  "ex_player = \<lparr> pr_id = None, pr_name = ''Bo'', pr_email = None, pr_avatar = None \<rparr>"

definition ex_game_created :: state where
  "ex_game_created = create_room ''h'' ''GAME-1'' ''Hal'' 1 (connect ''h'' init)"

definition ex_game_joined :: state where
  "ex_game_joined =
     join_room_old ''b'' (Join_object ''GAME-1'' ex_player) 2 (connect ''b'' ex_game_created)"


definition ex_class_actions :: "action list" where
  "ex_class_actions =
     [Connect ''h'', Create_room ''h'' ''T1'' ''Ms Hopper'' 1,
      Connect ''s'', Confirm_join ''s'' ''T1'' ex_student]"

definition ex_game_actions :: "action list" where
  "ex_game_actions =
     [Connect ''h'', Create_room ''h'' ''GAME-1'' ''Hal'' 1,
      Connect ''b'', Join_room_old ''b'' (Join_object ''GAME-1'' ex_player) 2]"

section \<open>Properties of member lists: the notions the theorems use\<close>

text \<open>No two participants of a gaming room have the same display name.\<close>

definition names_distinct :: "state \<Rightarrow> bool" where
  "names_distinct st =
     list_all (\<lambda>(roomId, room). distinct (map pa_name (gr_participants room))) (gamingRooms st)"

text \<open>No two students of a teaching session have the same \<^verbatim>\<open>id\<close>.\<close>

definition ids_distinct :: "state \<Rightarrow> bool" where
  "ids_distinct st =
     list_all (\<lambda>(roomId, session). distinct (map (\<lambda>x. pr_id (st_profile x)) (ts_students session)))
       (teachingSessions st)"

text \<open>How many \<^verbatim>\<open>host-disconnected\<close> events a socket has received.\<close>

definition host_disconnected_count :: "state \<Rightarrow> sid \<Rightarrow> nat" where
  "host_disconnected_count st r = length (filter (\<lambda>m. fst m = ''host-disconnected'') (inbox st r))"

section \<open>Well-formed states\<close>

text \<open>The keys of a \<^verbatim>\<open>Map\<close> are distinct.\<close>

definition keys_distinct :: "state \<Rightarrow> bool" where
  "keys_distinct st =
     (distinct (map fst (sids st)) \<and> distinct (map fst (teachingSessions st))
      \<and> distinct (map fst (gamingRooms st)) \<and> distinct (map fst (rooms st))
      \<and> distinct (map fst (events st)) \<and> distinct (map fst (eventPolls st)))"

text \<open>Every reference in \<^verbatim>\<open>eventPolls\<close> is the address of a poll object.\<close>

definition polls_stored :: "state \<Rightarrow> bool" where
  "polls_stored st = list_all (\<lambda>(pollId, a). a < length (pollObjs st)) (eventPolls st)"

definition consistent :: "state \<Rightarrow> bool" where
  "consistent st = (keys_distinct st \<and> names_distinct st \<and> ids_distinct st \<and> polls_stored st)"

section \<open>Lemmas about polls\<close>

lemma one_option_per_voter_iff:
  "one_option_per_voter p \<longleftrightarrow> (\<forall>u. length (voted_options u p) \<le> 1)"
proof
  assume a: "one_option_per_voter p"
  show "\<forall>u. length (voted_options u p) \<le> 1"
  proof
    fix u
    show "length (voted_options u p) \<le> 1"
    proof (cases "u \<in> set (concat (map opt_voters (poll_options p)))")
      case True
      with a show ?thesis by (auto simp: one_option_per_voter_def list_all_iff)
    next
      case False
      then have "voted_options u p = []"
        by (auto simp: voted_options_def filter_empty_conv)
      then show ?thesis by simp
    qed
  qed
next
  assume "\<forall>u. length (voted_options u p) \<le> 1"
  then show "one_option_per_voter p"
    by (simp add: one_option_per_voter_def list_all_iff)
qed

lemma sum_add_vote:
  "find (\<lambda>opt. opt_id opt = i) os \<noteq> None \<Longrightarrow>
   sum_list (map opt_votes (add_vote i u os)) = Suc (sum_list (map opt_votes os))"
  by (induction os) auto

lemma length_add_vote [simp]: "length (add_vote i u os) = length os"
  by (induction os) auto

lemma filter_add_vote_other:
  "v \<noteq> u \<Longrightarrow>
   length (filter (\<lambda>option. v \<in> set (opt_voters option)) (add_vote i u os))
   = length (filter (\<lambda>option. v \<in> set (opt_voters option)) os)"
  by (induction os) auto

lemma filter_add_vote_new:
  "\<not> list_ex (\<lambda>option. u \<in> set (opt_voters option)) os \<Longrightarrow>
   length (filter (\<lambda>option. u \<in> set (opt_voters option)) (add_vote i u os)) \<le> 1"
  by (induction os) (auto simp: list_ex_iff filter_empty_conv)

lemma poll_inv_vote:
  assumes "poll_inv p"
    and "\<not> list_ex (\<lambda>option. u \<in> set (opt_voters option)) (poll_options p)"
    and "find (\<lambda>opt. opt_id opt = i) (poll_options p) \<noteq> None"
  shows "poll_inv (p\<lparr> poll_options := add_vote i u (poll_options p),
                      poll_totalVotes := Suc (poll_totalVotes p) \<rparr>)"
proof -
  let ?p' = "p\<lparr> poll_options := add_vote i u (poll_options p),
                poll_totalVotes := Suc (poll_totalVotes p) \<rparr>"
  have "counts_add_up ?p'"
    using assms(1,3) by (simp add: poll_inv_def counts_add_up_def sum_add_vote)
  moreover have "length (voted_options v ?p') \<le> 1" for v
  proof (cases "v = u")
    case True
    then show ?thesis using filter_add_vote_new [OF assms(2)] by (simp add: voted_options_def)
  next
    case False
    have "length (voted_options v p) \<le> 1"
      using assms(1) by (simp add: poll_inv_def one_option_per_voter_iff)
    then show ?thesis using filter_add_vote_other [OF False] by (simp add: voted_options_def)
  qed
  ultimately show ?thesis by (simp add: poll_inv_def one_option_per_voter_iff)
qed

lemma fresh_options_fresh:
  "list_all (\<lambda>option. opt_votes option = 0 \<and> opt_voters option = []) (fresh_options xs)"
  by (auto simp: fresh_options_def list_all_iff)

lemma fresh_poll_inv: "fresh_poll p \<Longrightarrow> poll_inv p"
proof -
  assume f: "fresh_poll p"
  then have z: "\<forall>option \<in> set (poll_options p). opt_votes option = 0 \<and> opt_voters option = []"
    by (simp add: fresh_poll_def list_all_iff)
  then have "sum_list (map opt_votes (poll_options p)) = 0" by simp
  moreover have "one_option_per_voter p"
    using z by (auto simp: one_option_per_voter_def list_all_iff)
  ultimately show ?thesis using f
    by (simp add: poll_inv_def counts_add_up_def fresh_poll_def)
qed

section \<open>Lemmas: what each handler leaves unchanged\<close>

lemma deliver_frame [simp]:
  "sids (deliver d m st) = sids st"
  "teachingSessions (deliver d m st) = teachingSessions st"
  "gamingRooms (deliver d m st) = gamingRooms st"
  "rooms (deliver d m st) = rooms st"
  "events (deliver d m st) = events st"
  "eventPolls (deliver d m st) = eventPolls st"
  "pollObjs (deliver d m st) = pollObjs st"
  "timers (deliver d m st) = timers st"
  by (simp_all add: deliver_def)

lemma io_to_frame [simp]:
  "sids (io_to g m st) = sids st"
  "teachingSessions (io_to g m st) = teachingSessions st"
  "gamingRooms (io_to g m st) = gamingRooms st"
  "rooms (io_to g m st) = rooms st"
  "events (io_to g m st) = events st"
  "eventPolls (io_to g m st) = eventPolls st"
  "pollObjs (io_to g m st) = pollObjs st"
  "timers (io_to g m st) = timers st"
  by (simp_all add: io_to_def)

lemma socket_to_frame [simp]:
  "sids (socket_to s g m st) = sids st"
  "teachingSessions (socket_to s g m st) = teachingSessions st"
  "gamingRooms (socket_to s g m st) = gamingRooms st"
  "rooms (socket_to s g m st) = rooms st"
  "events (socket_to s g m st) = events st"
  "eventPolls (socket_to s g m st) = eventPolls st"
  "pollObjs (socket_to s g m st) = pollObjs st"
  "timers (socket_to s g m st) = timers st"
  by (simp_all add: socket_to_def)

lemma socket_emit_frame [simp]:
  "sids (socket_emit s m st) = sids st"
  "teachingSessions (socket_emit s m st) = teachingSessions st"
  "gamingRooms (socket_emit s m st) = gamingRooms st"
  "rooms (socket_emit s m st) = rooms st"
  "events (socket_emit s m st) = events st"
  "eventPolls (socket_emit s m st) = eventPolls st"
  "pollObjs (socket_emit s m st) = pollObjs st"
  "timers (socket_emit s m st) = timers st"
  by (simp_all add: socket_emit_def)

lemma socket_join_frame [simp]:
  "inbox (socket_join s g st) = inbox st"
  "teachingSessions (socket_join s g st) = teachingSessions st"
  "gamingRooms (socket_join s g st) = gamingRooms st"
  "rooms (socket_join s g st) = rooms st"
  "events (socket_join s g st) = events st"
  "eventPolls (socket_join s g st) = eventPolls st"
  "pollObjs (socket_join s g st) = pollObjs st"
  "timers (socket_join s g st) = timers st"
  by (simp_all add: socket_join_def split: option.splits)

text \<open>The poll store: which handlers leave it alone.\<close>

lemma fold_w_disconnect_room_polls:
  "pollObjs (fold (w_disconnect_room s) xs st) = pollObjs st
   \<and> eventPolls (fold (w_disconnect_room s) xs st) = eventPolls st
   \<and> timers (fold (w_disconnect_room s) xs st) = timers st"
  by (induction xs arbitrary: st) (auto simp: w_disconnect_room_def split: prod.splits)

lemma fold_student_left_polls:
  "pollObjs (fold (student_left s) xs st) = pollObjs st
   \<and> eventPolls (fold (student_left s) xs st) = eventPolls st
   \<and> timers (fold (student_left s) xs st) = timers st"
  by (induction xs arbitrary: st) (auto simp: student_left_def split: prod.splits option.splits)

lemma s_disconnect_polls:
  "pollObjs (s_disconnect s st) = pollObjs st \<and> eventPolls (s_disconnect s st) = eventPolls st
   \<and> timers (s_disconnect s st) = timers st"
  by (simp add: s_disconnect_def fold_student_left_polls split: option.splits)

lemma s_disconnecting_polls:
  "pollObjs (s_disconnecting s st) = pollObjs st \<and> eventPolls (s_disconnecting s st) = eventPolls st
   \<and> timers (s_disconnecting s st) = timers st"
  by (simp add: s_disconnecting_def split: option.splits)

lemma disconnect_polls:
  "pollObjs (disconnect s st) = pollObjs st \<and> eventPolls (disconnect s st) = eventPolls st
   \<and> timers (disconnect s st) = timers st"
  by (simp add: disconnect_def Let_def handleUserDisconnect_def s_disconnect_polls
      fold_w_disconnect_room_polls s_disconnecting_polls)

lemma connect_polls:
  "pollObjs (connect s st) = pollObjs st \<and> eventPolls (connect s st) = eventPolls st
   \<and> timers (connect s st) = timers st"
  by (simp add: connect_def)

lemma create_room_polls:
  "pollObjs (create_room s r h now st) = pollObjs st
   \<and> eventPolls (create_room s r h now st) = eventPolls st
   \<and> timers (create_room s r h now st) = timers st"
  by (simp add: create_room_def s_create_room_def w_create_room_def Let_def split: option.splits)

lemma join_room_old_polls:
  "pollObjs (join_room_old s d now st) = pollObjs st
   \<and> eventPolls (join_room_old s d now st) = eventPolls st
   \<and> timers (join_room_old s d now st) = timers st"
  by (simp add: join_room_old_def join_event_def join_gaming_def join_teaching_def Let_def
      split: option.splits)

lemma approve_join_polls:
  "pollObjs (approve_join s q r st) = pollObjs st
   \<and> eventPolls (approve_join s q r st) = eventPolls st
   \<and> timers (approve_join s q r st) = timers st"
  by (simp add: approve_join_def split: option.splits)

lemma reject_join_polls:
  "pollObjs (reject_join s q r st) = pollObjs st
   \<and> eventPolls (reject_join s q r st) = eventPolls st
   \<and> timers (reject_join s q r st) = timers st"
  by (simp add: reject_join_def)

lemma confirm_join_polls:
  "pollObjs (confirm_join s r p st) = pollObjs st
   \<and> eventPolls (confirm_join s r p st) = eventPolls st
   \<and> timers (confirm_join s r p st) = timers st"
  by (simp add: confirm_join_def Let_def split: option.splits)

lemma event_toggle_chat_polls:
  "pollObjs (event_toggle_chat s e b st) = pollObjs st
   \<and> eventPolls (event_toggle_chat s e b st) = eventPolls st
   \<and> timers (event_toggle_chat s e b st) = timers st"
  by (simp add: event_toggle_chat_def split: option.splits)

lemma send_message_polls:
  "pollObjs (send_message s r m st) = pollObjs st
   \<and> eventPolls (send_message s r m st) = eventPolls st
   \<and> timers (send_message s r m st) = timers st"
  by (simp add: send_message_def split: option.splits)

lemma event_send_message_polls:
  "pollObjs (event_send_message s e m st) = pollObjs st
   \<and> eventPolls (event_send_message s e m st) = eventPolls st
   \<and> timers (event_send_message s e m st) = timers st"
  by (simp add: event_send_message_def split: option.splits)

lemma event_end_polls:
  "pollObjs (event_end s e now st) = pollObjs st
   \<and> eventPolls (event_end s e now st) = eventPolls st
   \<and> timers (event_end s e now st) = timers st"
  by (simp add: event_end_def split: option.splits)

lemma createEvent_polls:
  "pollObjs (snd (createEvent t d hn he rnd now st)) = pollObjs st
   \<and> eventPolls (snd (createEvent t d hn he rnd now st)) = eventPolls st
   \<and> timers (snd (createEvent t d hn he rnd now st)) = timers st"
  by (simp add: createEvent_def Let_def)

section \<open>Lemmas: what the poll handlers do to a poll object\<close>

lemma get_poll_SomeD:
  "get_poll st pid = Some (a, p) \<Longrightarrow>
   map_of (eventPolls st) pid = Some a \<and> a < length (pollObjs st) \<and> p = pollObjs st ! a"
  by (auto simp: get_poll_def split: option.splits if_splits)

lemma votePoll_objs:
  assumes "a < length (pollObjs st)"
  shows "length (pollObjs (snd (votePoll pid i u st))) = length (pollObjs st)
     \<and> (poll_inv (pollObjs st ! a) \<longrightarrow> poll_inv (pollObjs (snd (votePoll pid i u st)) ! a))
     \<and> (poll_status (pollObjs st ! a) = Closed \<longrightarrow>
          pollObjs (snd (votePoll pid i u st)) ! a = pollObjs st ! a)"
proof (cases "get_poll st pid")
  case None
  then show ?thesis by (simp add: votePoll_def)
next
  case (Some ap)
  obtain b p where ap: "ap = (b, p)" by (cases ap)
  from Some ap have g: "b < length (pollObjs st)" "p = pollObjs st ! b"
    using get_poll_SomeD by blast+
  show ?thesis
  proof (cases "a = b")
    case True
    with Some ap g assms show ?thesis
      by (auto simp: votePoll_def Let_def poll_inv_vote split: option.splits)
  next
    case False
    with Some ap g assms show ?thesis
      by (auto simp: votePoll_def Let_def split: option.splits)
  qed
qed

lemma votePoll_frame:
  "eventPolls (snd (votePoll pid i u st)) = eventPolls st
   \<and> timers (snd (votePoll pid i u st)) = timers st
   \<and> events (snd (votePoll pid i u st)) = events st"
  by (auto simp: votePoll_def Let_def split: option.splits)

lemma poll_inv_votes_upd [simp]: "poll_inv (p\<lparr>poll_votes := v\<rparr>) = poll_inv p"
  by (simp add: poll_inv_def counts_add_up_def one_option_per_voter_def voted_options_def)

lemma poll_inv_status_upd [simp]: "poll_inv (p\<lparr>poll_status := v\<rparr>) = poll_inv p"
  by (simp add: poll_inv_def counts_add_up_def one_option_per_voter_def voted_options_def)

lemma event_vote_poll_objs:
  assumes "a < length (pollObjs st)" and "event_vote_poll s pid i u st = Some st'"
  shows "length (pollObjs st') = length (pollObjs st)
     \<and> (poll_inv (pollObjs st ! a) \<longrightarrow> poll_inv (pollObjs st' ! a))
     \<and> (poll_status (pollObjs st ! a) = Closed \<longrightarrow> pollObjs st' ! a = pollObjs st ! a)"
proof (cases "get_poll st pid")
  case None
  with assms show ?thesis by (simp add: event_vote_poll_def)
next
  case (Some ap)
  obtain b p where ap: "ap = (b, p)" by (cases ap)
  from Some ap have g: "b < length (pollObjs st)" "p = pollObjs st ! b"
    using get_poll_SomeD by blast+
  show ?thesis
  proof (cases "a = b")
    case True
    with Some ap g assms show ?thesis
      by (auto simp: event_vote_poll_def Let_def split: option.splits if_splits)
  next
    case False
    with Some ap g assms show ?thesis
      by (auto simp: event_vote_poll_def Let_def split: option.splits if_splits)
  qed
qed

lemma event_vote_poll_frame:
  "event_vote_poll s pid i u st = Some st' \<Longrightarrow>
   eventPolls st' = eventPolls st \<and> timers st' = timers st \<and> events st' = events st"
  by (auto simp: event_vote_poll_def Let_def split: option.splits if_splits)

lemma run_task_objs:
  assumes "a < length (pollObjs st)"
  shows "length (pollObjs (run_task t st)) = length (pollObjs st)
     \<and> (poll_inv (pollObjs st ! a) \<longrightarrow> poll_inv (pollObjs (run_task t st) ! a))
     \<and> (poll_status (pollObjs st ! a) = Closed \<longrightarrow> pollObjs (run_task t st) ! a = pollObjs st ! a)"
proof -
  have *: "\<And>pid. get_poll st pid = None \<or>
    (\<exists>b. get_poll st pid = Some (b, pollObjs st ! b) \<and> b < length (pollObjs st))"
    by (auto simp: get_poll_def split: option.splits)
  show ?thesis
  proof (cases t)
    case (Close_poll pid)
    with * [of pid] assms show ?thesis
      by (cases "map_of (eventPolls st) pid = Some a")
         (auto simp: run_task_def nth_list_update get_poll_def split: option.splits if_splits)
  next
    case (Close_event_poll s e pid)
    with * [of pid] assms show ?thesis
      by (cases "map_of (eventPolls st) pid = Some a")
         (auto simp: run_task_def nth_list_update get_poll_def split: option.splits if_splits)
  qed
qed

lemma run_task_frame:
  "eventPolls (run_task t st) = eventPolls st \<and> timers (run_task t st) = timers st
   \<and> events (run_task t st) = events st"
  by (auto simp: run_task_def split: timer_task.splits option.splits)

lemma fire_objs:
  assumes "a < length (pollObjs st)"
  shows "length (pollObjs (fire k st)) = length (pollObjs st)
     \<and> (poll_inv (pollObjs st ! a) \<longrightarrow> poll_inv (pollObjs (fire k st) ! a))
     \<and> (poll_status (pollObjs st ! a) = Closed \<longrightarrow> pollObjs (fire k st) ! a = pollObjs st ! a)"
proof (cases "k < length (timers st)")
  case True
  let ?st = "st\<lparr>timers := splice1 k (timers st)\<rparr>"
  have "a < length (pollObjs ?st)" using assms by simp
  from run_task_objs [OF this, of "tm_task (timers st ! k)"] True show ?thesis
    by (simp add: fire_def)
next
  case False
  then show ?thesis by (simp add: fire_def)
qed

lemma createPoll_objs:
  assumes "a < length (pollObjs st)"
  shows "a < length (pollObjs (snd (createPoll e q os d now st)))
     \<and> pollObjs (snd (createPoll e q os d now st)) ! a = pollObjs st ! a"
  using assms by (auto simp: createPoll_def Let_def nth_append split: option.splits)

lemma event_start_poll_objs:
  assumes "a < length (pollObjs st)"
  shows "a < length (pollObjs (event_start_poll s e p now st))
     \<and> pollObjs (event_start_poll s e p now st) ! a = pollObjs st ! a"
  using assms by (auto simp: event_start_poll_def Let_def nth_append split: option.splits)

section \<open>Lemmas: poll objects along a run\<close>

lemma handle_objs:
  assumes "handle act st = Some st'" and "a < length (pollObjs st)"
  shows "a < length (pollObjs st')
     \<and> (poll_inv (pollObjs st ! a) \<longrightarrow> poll_inv (pollObjs st' ! a))
     \<and> (poll_status (pollObjs st ! a) = Closed \<longrightarrow> pollObjs st' ! a = pollObjs st ! a)"
proof (cases act)
  case (Connect s)
  with assms show ?thesis by (auto simp: connect_polls)
next
  case (Disconnect s)
  with assms show ?thesis by (auto simp: disconnect_polls)
next
  case (Create_room s r h n)
  with assms show ?thesis by (auto simp: create_room_polls)
next
  case (Join_room_old s d n)
  with assms show ?thesis by (auto simp: join_room_old_polls)
next
  case (Approve_join s q r)
  with assms show ?thesis by (auto simp: approve_join_polls)
next
  case (Reject_join s q r)
  with assms show ?thesis by (auto simp: reject_join_polls)
next
  case (Confirm_join s r p)
  with assms show ?thesis by (auto simp: confirm_join_polls)
next
  case (Event_toggle_chat s e b)
  with assms show ?thesis by (auto simp: event_toggle_chat_polls)
next
  case (Event_send_message s e m)
  with assms show ?thesis by (auto simp: event_send_message_polls)
next
  case (Send_message s r m)
  with assms show ?thesis by (auto simp: send_message_polls)
next
  case (Event_start_poll s e p n)
  with assms event_start_poll_objs [OF assms(2), of s e p n] show ?thesis by auto
next
  case (Event_vote_poll s pid i u)
  with assms event_vote_poll_objs [OF assms(2), of s pid i u st'] show ?thesis by auto
next
  case (Event_end s e n)
  with assms show ?thesis by (auto simp: event_end_polls)
next
  case (Post_event t d hn he rnd n)
  with assms show ?thesis by (auto simp: createEvent_polls)
next
  case (Post_poll e q os d n)
  with assms createPoll_objs [OF assms(2), of e q os d n] show ?thesis by auto
next
  case (Post_vote pid i u)
  with assms votePoll_objs [OF assms(2), of pid i u] show ?thesis by auto
next
  case (Timer k)
  with assms fire_objs [OF assms(2), of k] show ?thesis by auto
qed

lemma step_objs:
  assumes "step act st = Some st'" and "a < length (pollObjs st)"
  shows "a < length (pollObjs st')
     \<and> (poll_inv (pollObjs st ! a) \<longrightarrow> poll_inv (pollObjs st' ! a))
     \<and> (poll_status (pollObjs st ! a) = Closed \<longrightarrow> pollObjs st' ! a = pollObjs st ! a)"
proof (cases "handle act st = Some st'")
  case True
  then show ?thesis using handle_objs assms(2) by blast
next
  case False
  with assms(1) have "st' = st"
    by (auto simp: step_def split: option.splits if_splits)
  with assms(2) show ?thesis by simp
qed

lemma run_objs:
  "run acts st = Some st' \<Longrightarrow> a < length (pollObjs st) \<Longrightarrow>
   a < length (pollObjs st')
   \<and> (poll_inv (pollObjs st ! a) \<longrightarrow> poll_inv (pollObjs st' ! a))
   \<and> (poll_status (pollObjs st ! a) = Closed \<longrightarrow> pollObjs st' ! a = pollObjs st ! a)"
proof (induction acts arbitrary: st)
  case Nil
  then show ?case by simp
next
  case (Cons act acts)
  from Cons.prems(1) obtain st1 where s1: "step act st = Some st1" and r: "run acts st1 = Some st'"
    by (auto split: option.splits)
  from step_objs [OF s1 Cons.prems(2)] have 1: "a < length (pollObjs st1)"
    and 2: "poll_inv (pollObjs st ! a) \<longrightarrow> poll_inv (pollObjs st1 ! a)"
    and 3: "poll_status (pollObjs st ! a) = Closed \<longrightarrow> pollObjs st1 ! a = pollObjs st ! a"
    by blast+
  from Cons.IH [OF r 1] 2 3 show ?case by auto
qed

lemma createPoll_new:
  assumes "map_of (events st) eventId = Some ev"
  shows "get_poll (snd (createPoll eventId q os d now st)) (''POLL-'' @ showNat now)
           = Some (length (pollObjs st), pollObjs (snd (createPoll eventId q os d now st)) ! length (pollObjs st))
     \<and> length (pollObjs (snd (createPoll eventId q os d now st))) = Suc (length (pollObjs st))
     \<and> fresh_poll (pollObjs (snd (createPoll eventId q os d now st)) ! length (pollObjs st))
     \<and> timers (snd (createPoll eventId q os d now st)) =
         timers st @ [\<lparr> tm_armedAt = now, tm_delay = or_60 d * 1000,
                         tm_task = Close_poll (''POLL-'' @ showNat now) \<rparr>]"
  using assms
  by (simp add: createPoll_def Let_def get_poll_def update_conv' fresh_poll_def fresh_options_fresh)

lemma event_start_poll_new:
  assumes "map_of (events st) eventId = Some ev"
  shows "get_poll (event_start_poll s eventId p now st) (''POLL-'' @ showNat now)
           = Some (length (pollObjs st), pollObjs (event_start_poll s eventId p now st) ! length (pollObjs st))
     \<and> length (pollObjs (event_start_poll s eventId p now st)) = Suc (length (pollObjs st))
     \<and> pollObjs (event_start_poll s eventId p now st) ! length (pollObjs st)
         = p\<lparr> poll_id := ''POLL-'' @ showNat now, poll_eventId := eventId, poll_status := Active,
               poll_votes := Some [] \<rparr>
     \<and> timers (event_start_poll s eventId p now st) =
         timers st @ [\<lparr> tm_armedAt = now, tm_delay = or_60 (poll_duration p) * 1000,
                         tm_task = Close_event_poll s eventId (''POLL-'' @ showNat now) \<rparr>]"
  using assms
  by (simp add: event_start_poll_def Let_def get_poll_def update_conv')

lemma run_task_closes:
  assumes "get_poll st pid = Some (a, p)" and "poll_status p = Active"
    and "t = Close_poll pid \<or> t = Close_event_poll s e pid"
  shows "get_poll (run_task t st) pid = Some (a, p\<lparr>poll_status := Closed\<rparr>)"
  using assms
  by (auto simp: run_task_def get_poll_def split: option.splits if_splits)

lemma votePoll_closed:
  assumes "get_poll st pid = Some (a, p)" and "poll_status p \<noteq> Active"
  shows "votePoll pid i u st = (Json_failure 400 ''Poll is not active'', st)"
  using assms by (simp add: votePoll_def)

lemma event_vote_poll_closed:
  assumes "get_poll st pid = Some (a, p)" and "poll_status p \<noteq> Active"
  shows "event_vote_poll s pid i u st = Some st"
  using assms by (simp add: event_vote_poll_def)

section \<open>Lemmas: the example states\<close>

lemma showNat_5: "showNat 5 = ''5''"
  by (simp add: showNat.simps digit_def)

lemma showNat_7: "showNat 7 = ''7''"
  by (simp add: showNat.simps digit_def)

lemma ex_event_lookup: "map_of (events ex_event_state) ''EVENT-ABC'' \<noteq> None"
  by (simp add: ex_event_state_def createEvent_def init_def Let_def)

lemma ex_poll_objs:
  "pollObjs ex_poll_state =
     [\<lparr> poll_id = ''POLL-5'', poll_eventId = ''EVENT-ABC'', poll_question = ''Tea?'',
       poll_options = [\<lparr> opt_id = 0, opt_text = ''yes'', opt_votes = 0, opt_voters = [] \<rparr>,
                       \<lparr> opt_id = 1, opt_text = ''no'', opt_votes = 0, opt_voters = [] \<rparr>],
       poll_duration = Some 30, poll_createdAt = Some 5, poll_expiresAt = Some 30005,
       poll_status = Active, poll_totalVotes = 0, poll_votes = None \<rparr>]
   \<and> eventPolls ex_poll_state = [(''POLL-5'', 0)]
   \<and> timers ex_poll_state = [\<lparr> tm_armedAt = 5, tm_delay = 30000, tm_task = Close_poll ''POLL-5'' \<rparr>]"
  by (simp add: ex_poll_state_def ex_event_state_def createPoll_def
      createEvent_def init_def Let_def showNat_5 fresh_options_def enumerate_eq_zip or_60_def
      upt_rec)

lemma ex_voted_objs:
  "pollObjs ex_voted_state =
     [\<lparr> poll_id = ''POLL-5'', poll_eventId = ''EVENT-ABC'', poll_question = ''Tea?'',
       poll_options = [\<lparr> opt_id = 0, opt_text = ''yes'', opt_votes = 0, opt_voters = [] \<rparr>,
                       \<lparr> opt_id = 1, opt_text = ''no'', opt_votes = 1, opt_voters = [''u1''] \<rparr>],
       poll_duration = Some 30, poll_createdAt = Some 5, poll_expiresAt = Some 30005,
       poll_status = Active, poll_totalVotes = 1, poll_votes = None \<rparr>]
   \<and> eventPolls ex_voted_state = [(''POLL-5'', 0)]
   \<and> timers ex_voted_state = [\<lparr> tm_armedAt = 5, tm_delay = 30000, tm_task = Close_poll ''POLL-5'' \<rparr>]"
  by (simp add: ex_voted_state_def votePoll_def get_poll_def ex_poll_objs Let_def)

lemma ex_closed_objs:
  "pollObjs ex_closed_state =
     [\<lparr> poll_id = ''POLL-5'', poll_eventId = ''EVENT-ABC'', poll_question = ''Tea?'',
       poll_options = [\<lparr> opt_id = 0, opt_text = ''yes'', opt_votes = 0, opt_voters = [] \<rparr>,
                       \<lparr> opt_id = 1, opt_text = ''no'', opt_votes = 1, opt_voters = [''u1''] \<rparr>],
       poll_duration = Some 30, poll_createdAt = Some 5, poll_expiresAt = Some 30005,
       poll_status = Closed, poll_totalVotes = 1, poll_votes = None \<rparr>]
   \<and> eventPolls ex_closed_state = [(''POLL-5'', 0)]
   \<and> timers ex_closed_state = []"
  by (simp add: ex_closed_state_def fire_def run_task_def get_poll_def ex_voted_objs splice1_def)

lemma ex_event_fields:
  "pollObjs ex_event_state = [] \<and> timers ex_event_state = [] \<and> eventPolls ex_event_state = []
   \<and> pollObjs (connect ''h'' ex_event_state) = [] \<and> timers (connect ''h'' ex_event_state) = []
   \<and> map_of (events (connect ''h'' ex_event_state)) ''EVENT-ABC''
       = map_of (events ex_event_state) ''EVENT-ABC''"
  by (simp add: ex_event_state_def createEvent_def init_def Let_def connect_def)

lemmas prims = connect_def create_room_def w_create_room_def s_create_room_def socket_join_def
  socket_emit_def socket_to_def io_to_def deliver_def in_group_def startsWith_def Let_def

lemma ex_class_created_fields:
  "sids ex_class_created = [(''h'', [''h'', ''T1''])]
   \<and> teachingSessions ex_class_created =
       [(''T1'', \<lparr> ts_host = ''Ms Hopper'', ts_hostSocketId = ''h'', ts_students = [],
                   ts_messages = [], ts_notes = [], ts_attendance = [], ts_feedback = [],
                   ts_createdAt = 1, ts_type = Teaching, ts_hostActive = None \<rparr>)]
   \<and> rooms ex_class_created =
       [(''T1'', \<lparr> wr_hostId = ''h'', wr_hostName = ''Ms Hopper'', wr_students = [],
                   wr_connections = [] \<rparr>)]
   \<and> gamingRooms ex_class_created = [] \<and> events ex_class_created = []
   \<and> inbox ex_class_created ''h'' = [(''room-created'', P_room_created_by ''T1'' ''h''),
                                       (''room-created'', P_room_created ''T1'')]
   \<and> inbox ex_class_created ''s'' = []"
  by (simp add: ex_class_created_def init_def prims)

lemma ex_class_joined_fields:
  "sids ex_class_joined = [(''h'', [''h'', ''T1'']), (''s'', [''s'', ''T1''])]
   \<and> teachingSessions ex_class_joined =
       [(''T1'', \<lparr> ts_host = ''Ms Hopper'', ts_hostSocketId = ''h'',
                   ts_students = [\<lparr> st_profile = ex_student, st_socketId = ''s'' \<rparr>],
                   ts_messages = [], ts_notes = [], ts_attendance = [], ts_feedback = [],
                   ts_createdAt = 1, ts_type = Teaching, ts_hostActive = None \<rparr>)]
   \<and> rooms ex_class_joined =
       [(''T1'', \<lparr> wr_hostId = ''h'', wr_hostName = ''Ms Hopper'', wr_students = [],
                   wr_connections = [] \<rparr>)]
   \<and> inbox ex_class_joined ''s'' =
       [(''room-joined'', P_room_joined_teaching ''T1'' ''h''
           [\<lparr> st_profile = ex_student, st_socketId = ''s'' \<rparr>])]"
  by (simp add: ex_class_joined_def confirm_join_def ex_class_created_fields prims)

lemma ex_live_fields:
  "sids ex_live_state = [(''h'', [''h'', ''EVENT-ABC''])]
   \<and> events ex_live_state =
       [(''EVENT-ABC'',
         \<lparr> ev_id = ''EVENT-ABC'', ev_title = ''Launch'', ev_description = '''',
           ev_host = \<lparr> eh_name = ''Ada'', eh_email = ''ada@example.org'', eh_socketId = Some ''h'' \<rparr>,
           ev_attendees = [], ev_messages = [], ev_documents = [], ev_polls = [],
           ev_settings = \<lparr> chatEnabled = True, handsEnabled = True, documentsEnabled = True,
                           pollsEnabled = True \<rparr>,
           ev_status = Ev_active, ev_createdAt = 1, ev_startedAt = Some 2, ev_endedAt = None \<rparr>)]
   \<and> inbox ex_live_state ''a'' = []"
  by (simp add: ex_live_state_def ex_event_state_def createEvent_def or_string_def init_def prims)


lemma ex_attended_fields:
  "sids ex_attended_state = [(''h'', [''h'', ''EVENT-ABC'']), (''a'', [''a'', ''EVENT-ABC''])]
   \<and> map_of (events ex_attended_state) ''EVENT-ABC'' =
       Some \<lparr> ev_id = ''EVENT-ABC'', ev_title = ''Launch'', ev_description = '''',
           ev_host = \<lparr> eh_name = ''Ada'', eh_email = ''ada@example.org'', eh_socketId = Some ''h'' \<rparr>,
           ev_attendees = [new_attendee ''a'' ex_student 3], ev_messages = [], ev_documents = [],
           ev_polls = [],
           ev_settings = \<lparr> chatEnabled = True, handsEnabled = True, documentsEnabled = True,
                           pollsEnabled = True \<rparr>,
           ev_status = Ev_active, ev_createdAt = 1, ev_startedAt = Some 2, ev_endedAt = None \<rparr>
   \<and> inbox ex_attended_state ''h'' = inbox ex_live_state ''h''
         @ [(''attendee-joined'', P_attendee (new_attendee ''a'' ex_student 3))]"
  by (simp add: ex_attended_state_def join_room_old_def join_event_def join_roomId_def
      join_student_def ex_live_fields prims)

lemma ex_muted_fields:
  "sids ex_muted_state = sids ex_attended_state
   \<and> map_of (events ex_muted_state) ''EVENT-ABC'' =
       Some \<lparr> ev_id = ''EVENT-ABC'', ev_title = ''Launch'', ev_description = '''',
           ev_host = \<lparr> eh_name = ''Ada'', eh_email = ''ada@example.org'', eh_socketId = Some ''h'' \<rparr>,
           ev_attendees = [new_attendee ''a'' ex_student 3], ev_messages = [], ev_documents = [],
           ev_polls = [],
           ev_settings = \<lparr> chatEnabled = False, handsEnabled = True, documentsEnabled = True,
                           pollsEnabled = True \<rparr>,
           ev_status = Ev_active, ev_createdAt = 1, ev_startedAt = Some 2, ev_endedAt = None \<rparr>"
  by (simp add: ex_muted_state_def event_toggle_chat_def ex_attended_fields update_conv')

lemma ex_game_created_fields:
  "sids ex_game_created = [(''h'', [''h'', ''GAME-1''])]
   \<and> gamingRooms ex_game_created =
       [(''GAME-1'', \<lparr> gr_host = ''Hal'', gr_hostSocketId = ''h'', gr_participants = [],
                       gr_messages = [], gr_createdAt = 1, gr_type = Gaming \<rparr>)]
   \<and> rooms ex_game_created =
       [(''GAME-1'', \<lparr> wr_hostId = ''h'', wr_hostName = ''Hal'', wr_students = [],
                       wr_connections = [] \<rparr>)]
   \<and> teachingSessions ex_game_created = []
   \<and> inbox ex_game_created ''b'' = [] \<and> inbox ex_game_created ''c'' = []"
  by (simp add: ex_game_created_def init_def prims)

lemma ex_game_joined_fields:
  "sids ex_game_joined = [(''h'', [''h'', ''GAME-1'']), (''b'', [''b'', ''GAME-1''])]
   \<and> gamingRooms ex_game_joined =
       [(''GAME-1'', \<lparr> gr_host = ''Hal'', gr_hostSocketId = ''h'',
                       gr_participants = [new_participant ''b'' ex_player 2],
                       gr_messages = [], gr_createdAt = 1, gr_type = Gaming \<rparr>)]
   \<and> rooms ex_game_joined =
       [(''GAME-1'', \<lparr> wr_hostId = ''h'', wr_hostName = ''Hal'', wr_students = [],
                       wr_connections = [] \<rparr>)]
   \<and> teachingSessions ex_game_joined = []
   \<and> inbox ex_game_joined ''b'' = [(''room-joined'', P_room_joined_gaming ''GAME-1'' ''h'' [])]
   \<and> inbox ex_game_joined ''c'' = []"
  by (simp add: ex_game_joined_def join_room_old_def join_gaming_def join_roomId_def
      join_student_def put_participant_def new_participant_def ex_game_created_fields prims)

lemma ex_client_objs:
  "pollObjs ex_client_state =
     [\<lparr> poll_id = ''POLL-7'', poll_eventId = ''EVENT-ABC'', poll_question = ''Tea?'',
       poll_options = [\<lparr> opt_id = 0, opt_text = ''yes'', opt_votes = 5, opt_voters = [''u1''] \<rparr>,
                       \<lparr> opt_id = 1, opt_text = ''no'', opt_votes = 0, opt_voters = [''u1''] \<rparr>],
       poll_duration = Some 30, poll_createdAt = None, poll_expiresAt = None,
       poll_status = Active, poll_totalVotes = 0, poll_votes = Some [] \<rparr>]
   \<and> eventPolls ex_client_state = [(''POLL-7'', 0)]"
  using ex_event_lookup
  by (auto simp: ex_client_state_def ex_client_poll_def event_start_poll_def Let_def
      ex_event_fields connect_polls showNat_7 split: option.splits)

lemma ex_client_voted_objs:
  "votePoll ''POLL-7'' 0 ''u2'' ex_client_state =
     (Json_poll (pollObjs (snd (votePoll ''POLL-7'' 0 ''u2'' ex_client_state)) ! 0),
      snd (votePoll ''POLL-7'' 0 ''u2'' ex_client_state))
   \<and> pollObjs (snd (votePoll ''POLL-7'' 0 ''u2'' ex_client_state)) =
     [\<lparr> poll_id = ''POLL-7'', poll_eventId = ''EVENT-ABC'', poll_question = ''Tea?'',
       poll_options = [\<lparr> opt_id = 0, opt_text = ''yes'', opt_votes = 6,
                         opt_voters = [''u1'', ''u2''] \<rparr>,
                       \<lparr> opt_id = 1, opt_text = ''no'', opt_votes = 0, opt_voters = [''u1''] \<rparr>],
       poll_duration = Some 30, poll_createdAt = None, poll_expiresAt = None,
       poll_status = Active, poll_totalVotes = 1, poll_votes = Some [] \<rparr>]"
  by (simp add: votePoll_def get_poll_def ex_client_objs Let_def)

section \<open>Lemmas: timers\<close>

lemma or_60_cases:
  "(D \<noteq> 0 \<longrightarrow> or_60 (Some D) = D) \<and> or_60 None = 60 \<and> or_60 (Some 0) = 60"
  by (simp add: or_60_def)

lemma fire_closes:
  assumes "k < length (timers st)"
    and "tm_task (timers st ! k) = Close_poll pid \<or> tm_task (timers st ! k) = Close_event_poll s e pid"
    and "get_poll st pid = Some (a, p)" and "poll_status p = Active"
  shows "get_poll (fire k st) pid = Some (a, p\<lparr>poll_status := Closed\<rparr>)"
proof -
  let ?st = "st\<lparr>timers := splice1 k (timers st)\<rparr>"
  have "get_poll ?st pid = get_poll st pid" by (simp add: get_poll_def split: option.splits)
  with assms(3) have "get_poll ?st pid = Some (a, p)" by simp
  from run_task_closes [OF this assms(4), of "tm_task (timers st ! k)" s e] assms(1,2)
  show ?thesis by (simp add: fire_def)
qed

section \<open>Lemmas: Socket.IO groups and deliveries\<close>

lemma inbox_deliver: "inbox (deliver d m st) r = (if d r then inbox st r @ [m] else inbox st r)"
  by (simp add: deliver_def)

lemma in_group_socket_join:
  "map_of (sids st) s = Some gs \<Longrightarrow>
   in_group (socket_join s g st) g' r = (in_group st g' r \<or> (r = s \<and> g' = g))"
  by (auto simp: in_group_def socket_join_def update_conv')

lemma socket_join_not_connected: "map_of (sids st) s = None \<Longrightarrow> socket_join s g st = st"
  by (simp add: socket_join_def)

lemma sids_socket_join_other:
  "r \<noteq> s \<Longrightarrow> map_of (sids (socket_join s g st)) r = map_of (sids st) r"
  by (simp add: socket_join_def update_conv' split: option.splits)

lemma in_group_frame [simp]:
  "in_group (deliver d m st) = in_group st"
  "in_group (io_to g m st) = in_group st"
  "in_group (socket_to s g m st) = in_group st"
  "in_group (socket_emit s m st) = in_group st"
  "in_group (st\<lparr>inbox := i\<rparr>) = in_group st"
  "in_group (st\<lparr>teachingSessions := t\<rparr>) = in_group st"
  "in_group (st\<lparr>gamingRooms := gr\<rparr>) = in_group st"
  "in_group (st\<lparr>rooms := w\<rparr>) = in_group st"
  "in_group (st\<lparr>events := e\<rparr>) = in_group st"
  "in_group (st\<lparr>eventPolls := ep\<rparr>) = in_group st"
  "in_group (st\<lparr>pollObjs := po\<rparr>) = in_group st"
  "in_group (st\<lparr>timers := tm\<rparr>) = in_group st"
  by (simp_all add: in_group_def fun_eq_iff)

section \<open>Lemmas: joining an event\<close>



section \<open>Lemmas: joining a gaming room\<close>

lemma findIndex_None: "findIndex P xs = None \<longleftrightarrow> (\<forall>x \<in> set xs. \<not> P x)"
  by (induction xs) auto

lemma findIndex_Some:
  "findIndex P xs = Some i \<Longrightarrow> i < length xs \<and> P (xs ! i) \<and> (\<forall>j < i. \<not> P (xs ! j))"
proof (induction xs arbitrary: i)
  case Nil
  then show ?case by simp
next
  case (Cons x xs)
  show ?case
  proof (cases "P x")
    case True
    with Cons.prems show ?thesis by simp
  next
    case False
    with Cons.prems obtain k where k: "findIndex P xs = Some k" "i = Suc k" by auto
    from Cons.IH [OF k(1)] False k(2) show ?thesis
      by (auto simp: nth_Cons split: nat.splits)
  qed
qed

lemma map_update_same: "i < length xs \<Longrightarrow> f y = f (xs ! i) \<Longrightarrow> map f (xs[i := y]) = map f xs"
  by (simp add: map_update list_update_same_conv)

lemma count_distinct_key:
  "distinct (map f xs) \<Longrightarrow> y \<in> f ` set xs \<Longrightarrow> length (filter (\<lambda>x. f x = y) xs) = 1"
proof (induction xs)
  case Nil
  then show ?case by simp
next
  case (Cons x xs)
  show ?case
  proof (cases "f x = y")
    case True
    with Cons.prems(1) have "\<forall>z \<in> set xs. f z \<noteq> y" by (auto simp: image_iff)
    then have "filter (\<lambda>x. f x = y) xs = []" by (simp add: filter_empty_conv)
    with True show ?thesis by simp
  next
    case False
    with Cons show ?thesis by auto
  qed
qed


lemma put_participant_cases:
  "(n \<in> pa_name ` set ps \<longrightarrow>
      (\<exists>i < length ps. pa_name (ps ! i) = n \<and> put_participant n p ps = ps[i := p])
      \<and> length (put_participant n p ps) = length ps)
   \<and> (n \<notin> pa_name ` set ps \<longrightarrow> put_participant n p ps = ps @ [p])"
proof (cases "findIndex (\<lambda>q. pa_name q = n) ps")
  case None
  then have "n \<notin> pa_name ` set ps" by (auto simp: findIndex_None)
  with None show ?thesis by (simp add: put_participant_def)
next
  case (Some i)
  from findIndex_Some [OF Some] have i: "i < length ps" "pa_name (ps ! i) = n" by blast+
  then have "n \<in> pa_name ` set ps" by (metis imageI nth_mem)
  with Some i show ?thesis by (auto simp: put_participant_def)
qed

lemma put_participant_names:
  assumes "pa_name p = n"
  shows "map pa_name (put_participant n p ps)
         = (if n \<in> pa_name ` set ps then map pa_name ps else map pa_name ps @ [n])"
proof (cases "n \<in> pa_name ` set ps")
  case True
  with put_participant_cases [of n ps p] obtain i where
    "i < length ps" "pa_name (ps ! i) = n" "put_participant n p ps = ps[i := p]" by blast
  with True assms show ?thesis by (simp add: map_update_same)
next
  case False
  with put_participant_cases [of n ps p] assms show ?thesis by simp
qed

lemma put_participant_distinct:
  assumes "pa_name p = n" and "distinct (map pa_name ps)"
  shows "distinct (map pa_name (put_participant n p ps))
     \<and> length (filter (\<lambda>q. pa_name q = n) (put_participant n p ps)) = 1"
proof -
  have d: "distinct (map pa_name (put_participant n p ps))"
    using assms by (simp add: put_participant_names)
  have "n \<in> set (map pa_name (put_participant n p ps))"
    using assms(1) by (simp add: put_participant_names)
  then have "n \<in> pa_name ` set (put_participant n p ps)" by simp
  from count_distinct_key [OF d this] d show ?thesis by simp
qed


section \<open>Lemmas: joining a teaching room\<close>

lemma approve_join_effect:
  assumes "map_of (teachingSessions st) roomId = Some session"
  shows "approve_join s requestId roomId st
         = st\<lparr>inbox := (\<lambda>r. if in_group st requestId r
                               then inbox st r @ [(''join-approved'',
                                      P_join_approved roomId (ts_hostSocketId session))]
                               else inbox st r)\<rparr>"
  using assms by (simp add: approve_join_def io_to_def deliver_def)

lemma confirm_join_found:
  assumes "map_of (teachingSessions st) roomId = Some session"
    and "map_of (sids st) s = Some gs"
    and "findIndex (\<lambda>x. pr_id (st_profile x) = pr_id student \<or> st_socketId x = s)
           (ts_students session) = Some i"
  shows "map_of (teachingSessions (confirm_join s roomId student st)) roomId
          = Some (session\<lparr>ts_students :=
                     (ts_students session)[i := (ts_students session ! i)\<lparr>st_socketId := s\<rparr>]\<rparr>)"
    and "inbox (confirm_join s roomId student st) s
          = inbox st s
            @ [(''room-joined'',
                P_room_joined_teaching roomId (ts_hostSocketId session)
                  ((ts_students session)[i := (ts_students session ! i)\<lparr>st_socketId := s\<rparr>]))]"
    and "r \<noteq> s \<Longrightarrow> inbox (confirm_join s roomId student st) r = inbox st r"
    and "in_group (confirm_join s roomId student st) roomId s"
  using assms in_group_socket_join [of "st\<lparr>teachingSessions := AList.update roomId
      (session\<lparr>ts_students :=
          (ts_students session)[i := (ts_students session ! i)\<lparr>st_socketId := s\<rparr>]\<rparr>)
      (teachingSessions st)\<rparr>" s gs roomId roomId s]
  by (simp_all add: confirm_join_def Let_def update_conv' socket_emit_def inbox_deliver)

lemma confirm_join_new:
  assumes "map_of (teachingSessions st) roomId = Some session"
    and "map_of (sids st) s = Some gs"
    and "findIndex (\<lambda>x. pr_id (st_profile x) = pr_id student \<or> st_socketId x = s)
           (ts_students session) = None"
  shows "map_of (teachingSessions (confirm_join s roomId student st)) roomId
          = Some (session\<lparr>ts_students :=
                     ts_students session @ [\<lparr> st_profile = student, st_socketId = s \<rparr>]\<rparr>)"
    and "inbox (confirm_join s roomId student st) s
          = inbox st s
            @ [(''room-joined'',
                P_room_joined_teaching roomId (ts_hostSocketId session)
                  (ts_students session @ [\<lparr> st_profile = student, st_socketId = s \<rparr>]))]"
    and "r \<noteq> s \<Longrightarrow> inbox (confirm_join s roomId student st) r
          = (if in_group st roomId r
             then inbox st r @ [(''student-joined'',
                                 P_student \<lparr> st_profile = student, st_socketId = s \<rparr>)]
             else inbox st r)"
    and "in_group (confirm_join s roomId student st) roomId s"
  using assms in_group_socket_join [OF assms(2), of roomId roomId]
  by (simp_all add: confirm_join_def Let_def update_conv' socket_emit_def socket_to_def
      inbox_deliver)

lemma ids_after_update:
  "i < length xs \<Longrightarrow>
   map (\<lambda>x. pr_id (st_profile x)) (xs[i := (xs ! i)\<lparr>st_socketId := s\<rparr>])
   = map (\<lambda>x. pr_id (st_profile x)) xs"
  by (simp add: map_update list_update_same_conv)

lemma confirm_join_ids:
  assumes "map_of (teachingSessions st) roomId = Some session"
    and "map_of (sids st) s = Some gs"
    and "distinct (map (\<lambda>x. pr_id (st_profile x)) (ts_students session))"
  shows "distinct (map (\<lambda>x. pr_id (st_profile x))
           (ts_students (the (map_of (teachingSessions (confirm_join s roomId student st)) roomId))))"
    and "pr_id student \<in> (\<lambda>x. pr_id (st_profile x)) ` set (ts_students session)
         \<or> findIndex (\<lambda>x. pr_id (st_profile x) = pr_id student \<or> st_socketId x = s)
              (ts_students session) = None \<Longrightarrow>
         length (filter (\<lambda>x. pr_id (st_profile x) = pr_id student)
           (ts_students (the (map_of (teachingSessions (confirm_join s roomId student st)) roomId))))
         = 1"
proof -
  let ?P = "\<lambda>x. pr_id (st_profile x) = pr_id student \<or> st_socketId x = s"
  let ?xs = "ts_students session"
  let ?ys = "ts_students (the (map_of (teachingSessions (confirm_join s roomId student st)) roomId))"
  let ?f = "\<lambda>x. pr_id (st_profile x)"
  have ids: "map ?f ?ys = (if findIndex ?P ?xs = None then map ?f ?xs @ [pr_id student]
                           else map ?f ?xs)"
  proof (cases "findIndex ?P ?xs")
    case None
    from confirm_join_new(1) [OF assms(1,2) None] None show ?thesis by simp
  next
    case (Some i)
    from findIndex_Some [OF Some] have "i < length ?xs" by blast
    with confirm_join_found(1) [OF assms(1,2) Some] Some show ?thesis
      by (simp add: ids_after_update)
  qed
  have fresh: "findIndex ?P ?xs = None \<Longrightarrow> pr_id student \<notin> set (map ?f ?xs)"
    by (auto simp: findIndex_None)
  show d: "distinct (map ?f ?ys)"
    using ids assms(3) fresh by (cases "findIndex ?P ?xs = None") simp_all
  assume "pr_id student \<in> ?f ` set ?xs \<or> findIndex ?P ?xs = None"
  then have "pr_id student \<in> set (map ?f ?ys)"
    using ids by (cases "findIndex ?P ?xs = None") auto
  then have "pr_id student \<in> ?f ` set ?ys" by simp
  from count_distinct_key [OF d this]
  show "length (filter (\<lambda>x. pr_id (st_profile x) = pr_id student) ?ys) = 1" .
qed

section \<open>Lemmas: a connection is lost\<close>

lemma hd_count_deliver:
  "host_disconnected_count (deliver d m st) r
   = host_disconnected_count st r + (if d r \<and> fst m = ''host-disconnected'' then 1 else 0)"
  by (simp add: host_disconnected_count_def deliver_def)

lemma hd_count_frame [simp]:
  "host_disconnected_count (st\<lparr>sids := x\<rparr>) = host_disconnected_count st"
  "host_disconnected_count (st\<lparr>teachingSessions := t\<rparr>) = host_disconnected_count st"
  "host_disconnected_count (st\<lparr>gamingRooms := gr\<rparr>) = host_disconnected_count st"
  "host_disconnected_count (st\<lparr>rooms := w\<rparr>) = host_disconnected_count st"
  "host_disconnected_count (st\<lparr>events := e\<rparr>) = host_disconnected_count st"
  "host_disconnected_count (st\<lparr>eventPolls := ep\<rparr>) = host_disconnected_count st"
  "host_disconnected_count (st\<lparr>pollObjs := po\<rparr>) = host_disconnected_count st"
  "host_disconnected_count (st\<lparr>timers := tm\<rparr>) = host_disconnected_count st"
  by (simp_all add: host_disconnected_count_def fun_eq_iff)

lemma w_disconnect_room_frame:
  "sids (w_disconnect_room h x st) = sids st
   \<and> teachingSessions (w_disconnect_room h x st) = teachingSessions st
   \<and> gamingRooms (w_disconnect_room h x st) = gamingRooms st
   \<and> events (w_disconnect_room h x st) = events st
   \<and> in_group (w_disconnect_room h x st) = in_group st"
  by (cases x) (simp add: w_disconnect_room_def)

lemma w_disconnect_room_count:
  "host_disconnected_count (w_disconnect_room h x st) m
   = host_disconnected_count st m
     + (if wr_hostId (snd x) = h \<and> in_group st (fst x) m then 1 else 0)"
  by (cases x)
     (simp add: w_disconnect_room_def io_to_def hd_count_deliver)

lemma fold_w_disconnect_room_frame:
  "sids (fold (w_disconnect_room h) xs st) = sids st
   \<and> teachingSessions (fold (w_disconnect_room h) xs st) = teachingSessions st
   \<and> gamingRooms (fold (w_disconnect_room h) xs st) = gamingRooms st
   \<and> events (fold (w_disconnect_room h) xs st) = events st
   \<and> in_group (fold (w_disconnect_room h) xs st) = in_group st"
  by (induction xs arbitrary: st) (simp_all add: w_disconnect_room_frame)

lemma fold_w_disconnect_room_count:
  "host_disconnected_count (fold (w_disconnect_room h) xs st) m
   = host_disconnected_count st m
     + length (filter (\<lambda>x. wr_hostId (snd x) = h \<and> in_group st (fst x) m) xs)"
  by (induction xs arbitrary: st) (simp_all add: w_disconnect_room_count w_disconnect_room_frame)

lemma w_disconnect_room_other:
  "r \<noteq> fst x \<Longrightarrow> map_of (rooms (w_disconnect_room h x st)) r = map_of (rooms st) r"
  by (cases x) (simp add: w_disconnect_room_def update_conv' delete_conv')

lemma fold_w_disconnect_room_other:
  "r \<notin> fst ` set xs \<Longrightarrow> map_of (rooms (fold (w_disconnect_room h) xs st)) r = map_of (rooms st) r"
  by (induction xs arbitrary: st) (simp_all add: w_disconnect_room_other)

lemma fold_w_disconnect_room_deleted:
  "distinct (map fst xs) \<Longrightarrow> (r, w) \<in> set xs \<Longrightarrow> wr_hostId w = h \<Longrightarrow>
   map_of (rooms (fold (w_disconnect_room h) xs st)) r = None"
proof (induction xs arbitrary: st)
  case Nil
  then show ?case by simp
next
  case (Cons x xs)
  show ?case
  proof (cases "x = (r, w)")
    case True
    with Cons.prems(1) have "r \<notin> fst ` set xs" by auto
    from fold_w_disconnect_room_other [OF this]
    have "map_of (rooms (fold (w_disconnect_room h) xs (w_disconnect_room h x st))) r
          = map_of (rooms (w_disconnect_room h x st)) r" .
    also have "\<dots> = None"
      using True Cons.prems(3) by (simp add: w_disconnect_room_def delete_conv')
    finally show ?thesis by simp
  next
    case False
    with Cons.prems have "(r, w) \<in> set xs" "distinct (map fst xs)" by auto
    from Cons.IH [OF this(2) this(1) Cons.prems(3)] show ?thesis by simp
  qed
qed

lemma student_left_frame:
  "sids (student_left s x st) = sids st \<and> rooms (student_left s x st) = rooms st
   \<and> gamingRooms (student_left s x st) = gamingRooms st
   \<and> events (student_left s x st) = events st
   \<and> host_disconnected_count (student_left s x st) m = host_disconnected_count st m"
  by (cases x)
     (simp add: student_left_def socket_to_def hd_count_deliver split: option.splits)

lemma fold_student_left_frame:
  "sids (fold (student_left s) xs st) = sids st \<and> rooms (fold (student_left s) xs st) = rooms st
   \<and> gamingRooms (fold (student_left s) xs st) = gamingRooms st
   \<and> events (fold (student_left s) xs st) = events st
   \<and> host_disconnected_count (fold (student_left s) xs st) m = host_disconnected_count st m"
  by (induction xs arbitrary: st) (simp_all add: student_left_frame)

lemma s_disconnect_frame:
  "sids (s_disconnect s st) = sids st \<and> rooms (s_disconnect s st) = rooms st
   \<and> gamingRooms (s_disconnect s st) = gamingRooms st
   \<and> events (s_disconnect s st) = events st
   \<and> host_disconnected_count (s_disconnect s st) m = host_disconnected_count st m"
  by (simp add: s_disconnect_def fold_student_left_frame split: option.splits)

lemma s_disconnecting_frame:
  "sids (s_disconnecting s st) = sids st \<and> rooms (s_disconnecting s st) = rooms st
   \<and> gamingRooms (s_disconnecting s st) = gamingRooms st
   \<and> teachingSessions (s_disconnecting s st) = teachingSessions st
   \<and> events (s_disconnecting s st) = events st
   \<and> host_disconnected_count (s_disconnecting s st) m = host_disconnected_count st m"
  by (simp add: s_disconnecting_def socket_to_def hd_count_deliver split: option.splits)

lemma in_group_left:
  "in_group (st\<lparr>sids := AList.delete h (sids st)\<rparr>) g m = (m \<noteq> h \<and> in_group st g m)"
  by (simp add: in_group_def delete_conv')

lemma disconnect_effect:
  "gamingRooms (disconnect h st) = gamingRooms st
   \<and> events (disconnect h st) = events st
   \<and> sids (disconnect h st) = AList.delete h (sids st)
   \<and> rooms (disconnect h st)
       = rooms (fold (w_disconnect_room h) (rooms st)
                  ((s_disconnecting h st)\<lparr>sids := AList.delete h (sids st)\<rparr>))
   \<and> host_disconnected_count (disconnect h st) m
       = host_disconnected_count st m
         + length (filter (\<lambda>x. wr_hostId (snd x) = h \<and> m \<noteq> h \<and> in_group st (fst x) m) (rooms st))"
proof -
  let ?st1 = "s_disconnecting h st"
  let ?st2 = "?st1\<lparr>sids := AList.delete h (sids ?st1)\<rparr>"
  let ?st3 = "handleUserDisconnect h ?st2"
  have d: "disconnect h st = s_disconnect h ?st3" by (simp add: disconnect_def Let_def)
  have s1: "sids ?st1 = sids st" "rooms ?st1 = rooms st" "gamingRooms ?st1 = gamingRooms st"
    "events ?st1 = events st"
    "host_disconnected_count ?st1 m = host_disconnected_count st m"
    using s_disconnecting_frame [of h st m] by simp_all
  have g1: "in_group ?st1 = in_group st" by (simp add: in_group_def fun_eq_iff s1)
  have g2: "in_group (?st1\<lparr>sids := AList.delete h (sids st)\<rparr>) g m
            = (m \<noteq> h \<and> in_group st g m)" for g
    using in_group_left [where st = ?st1 and h = h and g = g and m = m] by (simp add: g1 s1)
  have c3: "host_disconnected_count ?st3 m
      = host_disconnected_count st m
        + length (filter (\<lambda>x. wr_hostId (snd x) = h \<and> m \<noteq> h \<and> in_group st (fst x) m) (rooms st))"
    using fold_w_disconnect_room_count [of h "rooms st" ?st2 m]
    by (simp add: handleUserDisconnect_def s1 g2)
  have f3: "gamingRooms ?st3 = gamingRooms st" "events ?st3 = events st"
    "sids ?st3 = AList.delete h (sids st)"
    using fold_w_disconnect_room_frame [of h "rooms st" ?st2]
    by (simp_all add: handleUserDisconnect_def s1)
  have r3: "rooms ?st3 = rooms (fold (w_disconnect_room h) (rooms st)
                  ((s_disconnecting h st)\<lparr>sids := AList.delete h (sids st)\<rparr>))"
    by (simp add: handleUserDisconnect_def s1)
  from s_disconnect_frame [of h ?st3 m] c3 f3 r3 show ?thesis by (simp add: d)
qed

lemma count_unique_key:
  "distinct (map fst xs) \<Longrightarrow> (k, v) \<in> set xs \<Longrightarrow> P (k, v) \<Longrightarrow>
   \<forall>x \<in> set xs. P x \<longrightarrow> fst x = k \<Longrightarrow> length (filter P xs) = 1"
proof (induction xs)
  case Nil
  then show ?case by simp
next
  case (Cons x xs)
  show ?case
  proof (cases "x = (k, v)")
    case True
    with Cons.prems(1) have "k \<notin> fst ` set xs" by auto
    have "\<not> P y" if "y \<in> set xs" for y
    proof
      assume "P y"
      with that Cons.prems(4) have "fst y = k" by simp
      with that \<open>k \<notin> fst ` set xs\<close> show False by force
    qed
    then have "\<forall>y \<in> set xs. \<not> P y" by blast
    then have "filter P xs = []" by (simp add: filter_empty_conv)
    with True Cons.prems(3) show ?thesis by simp
  next
    case False
    with Cons.prems have in_xs: "(k, v) \<in> set xs" and d: "distinct (map fst xs)" by auto
    from in_xs have "k \<in> fst ` set xs" by force
    moreover from Cons.prems(1) have "fst x \<notin> fst ` set xs" by simp
    ultimately have "fst x \<noteq> k" by blast
    with Cons.prems(4) have "\<not> P x" by auto
    with Cons.IH [OF d in_xs Cons.prems(3)] Cons.prems(4) show ?thesis by simp
  qed
qed

lemma ex_game_left_fields:
  "gamingRooms (disconnect ''h'' ex_game_joined) = gamingRooms ex_game_joined
   \<and> rooms (disconnect ''h'' ex_game_joined) = []
   \<and> sids (disconnect ''h'' ex_game_joined) = [(''b'', [''b'', ''GAME-1''])]
   \<and> inbox (disconnect ''h'' ex_game_joined) ''b''
       = inbox ex_game_joined ''b''
         @ [(''user-disconnected'', P_socket ''h''), (''host-disconnected'', P_none)]
   \<and> inbox (disconnect ''h'' ex_game_joined) ''c'' = []"
  by (simp add: disconnect_def s_disconnecting_def handleUserDisconnect_def w_disconnect_room_def
      s_disconnect_def hostRoomId_def ex_game_joined_fields prims delete_conv')

lemma fold_last_host:
  "\<forall>x \<in> set xs. ts_hostSocketId (snd x) = h \<longrightarrow> fst x = roomId \<Longrightarrow>
   fold (\<lambda>(roomId, session) found. if ts_hostSocketId session = h then Some roomId else found)
     xs acc
   = (if \<exists>x \<in> set xs. ts_hostSocketId (snd x) = h then Some roomId else acc)"
  by (induction xs arbitrary: acc) (auto split: prod.splits)

lemma hostRoomId_only:
  assumes "(roomId, session) \<in> set (teachingSessions st)" and "ts_hostSocketId session = h"
    and "\<forall>x \<in> set (teachingSessions st). ts_hostSocketId (snd x) = h \<longrightarrow> fst x = roomId"
  shows "hostRoomId h st = Some roomId"
proof -
  from assms(1,2) have "\<exists>x \<in> set (teachingSessions st). ts_hostSocketId (snd x) = h" by force
  with fold_last_host [OF assms(3), of None] show ?thesis by (simp add: hostRoomId_def)
qed

lemma hostRoomId_sessions:
  "teachingSessions st' = teachingSessions st \<Longrightarrow> hostRoomId h st' = hostRoomId h st"
  by (simp add: hostRoomId_def)

lemma s_disconnect_host:
  assumes "hostRoomId h st = Some roomId" and "roomId \<noteq> []"
    and "map_of (teachingSessions st) roomId = Some session"
  shows "s_disconnect h st
         = st\<lparr>teachingSessions := AList.update roomId (session\<lparr>ts_hostActive := Some False\<rparr>)
                                    (teachingSessions st)\<rparr>"
  using assms by (simp add: s_disconnect_def)

lemma w_disconnect_room_inbox:
  "\<exists>rest. inbox (w_disconnect_room h x st) m = inbox st m @ rest"
  by (cases x) (simp add: w_disconnect_room_def io_to_def inbox_deliver)

lemma fold_w_disconnect_room_inbox:
  "\<exists>rest. inbox (fold (w_disconnect_room h) xs st) m = inbox st m @ rest"
proof (induction xs arbitrary: st)
  case Nil
  then show ?case by simp
next
  case (Cons x xs)
  from w_disconnect_room_inbox [of h x st m] obtain r1 where
    r1: "inbox (w_disconnect_room h x st) m = inbox st m @ r1" by blast
  from Cons.IH [of "w_disconnect_room h x st"] obtain r2 where
    "inbox (fold (w_disconnect_room h) xs (w_disconnect_room h x st)) m
       = inbox (w_disconnect_room h x st) m @ r2" by blast
  with r1 show ?case by simp
qed

lemma student_left_inbox:
  "\<exists>rest. inbox (student_left s x st) m = inbox st m @ rest"
  by (cases x) (simp add: student_left_def socket_to_def inbox_deliver split: option.splits)

lemma fold_student_left_inbox:
  "\<exists>rest. inbox (fold (student_left s) xs st) m = inbox st m @ rest"
proof (induction xs arbitrary: st)
  case Nil
  then show ?case by simp
next
  case (Cons x xs)
  from student_left_inbox [of s x st m] obtain r1 where
    r1: "inbox (student_left s x st) m = inbox st m @ r1" by blast
  from Cons.IH [of "student_left s x st"] obtain r2 where
    "inbox (fold (student_left s) xs (student_left s x st)) m
       = inbox (student_left s x st) m @ r2" by blast
  with r1 show ?case by simp
qed

lemma s_disconnect_inbox:
  "\<exists>rest. inbox (s_disconnect s st) m = inbox st m @ rest"
  using fold_student_left_inbox [of s "teachingSessions st" st m]
  by (simp add: s_disconnect_def split: option.splits)

lemma disconnect_inbox:
  "\<exists>rest. inbox (disconnect h st) m = inbox (s_disconnecting h st) m @ rest"
proof -
  let ?st2 = "(s_disconnecting h st)\<lparr>sids := AList.delete h (sids (s_disconnecting h st))\<rparr>"
  from fold_w_disconnect_room_inbox [of h "rooms ?st2" ?st2 m] obtain r1 where
    r1: "inbox (handleUserDisconnect h ?st2) m = inbox (s_disconnecting h st) m @ r1"
    by (auto simp: handleUserDisconnect_def)
  from s_disconnect_inbox [of h "handleUserDisconnect h ?st2" m] obtain r2 where
    "inbox (s_disconnect h (handleUserDisconnect h ?st2)) m
       = inbox (handleUserDisconnect h ?st2) m @ r2" by blast
  with r1 show ?thesis by (simp add: disconnect_def Let_def)
qed

lemma disconnect_host_sessions:
  assumes "hostRoomId h st = Some roomId" and "roomId \<noteq> []"
    and "map_of (teachingSessions st) roomId = Some session"
  shows "teachingSessions (disconnect h st)
         = AList.update roomId (session\<lparr>ts_hostActive := Some False\<rparr>) (teachingSessions st)"
proof -
  let ?st1 = "s_disconnecting h st"
  let ?st2 = "?st1\<lparr>sids := AList.delete h (sids ?st1)\<rparr>"
  let ?st3 = "handleUserDisconnect h ?st2"
  have t3: "teachingSessions ?st3 = teachingSessions st"
    using fold_w_disconnect_room_frame [of h "rooms ?st2" ?st2] s_disconnecting_frame [of h st]
    by (simp add: handleUserDisconnect_def)
  have h3: "hostRoomId h ?st3 = Some roomId"
    using hostRoomId_sessions [OF t3] assms(1) by simp
  have m3: "map_of (teachingSessions ?st3) roomId = Some session"
    using t3 assms(3) by simp
  from s_disconnect_host [OF h3 assms(2) m3] t3
  have "teachingSessions (s_disconnect h ?st3)
        = AList.update roomId (session\<lparr>ts_hostActive := Some False\<rparr>) (teachingSessions st)"
    by simp
  then show ?thesis by (simp add: disconnect_def Let_def)
qed

lemma s_disconnecting_inbox:
  assumes "map_of (sids st) h = Some gs" and "1 < length gs" and "m \<noteq> h"
    and "in_group st (gs ! 1) m"
  shows "inbox (s_disconnecting h st) m = inbox st m @ [(''user-disconnected'', P_socket h)]"
  using assms by (simp add: s_disconnecting_def socket_to_def inbox_deliver)

lemma ex_class_left_fields:
  "teachingSessions (disconnect ''h'' ex_class_joined)
     = [(''T1'', \<lparr> ts_host = ''Ms Hopper'', ts_hostSocketId = ''h'',
                   ts_students = [\<lparr> st_profile = ex_student, st_socketId = ''s'' \<rparr>],
                   ts_messages = [], ts_notes = [], ts_attendance = [], ts_feedback = [],
                   ts_createdAt = 1, ts_type = Teaching, ts_hostActive = Some False \<rparr>)]
   \<and> rooms (disconnect ''h'' ex_class_joined) = []
   \<and> inbox (disconnect ''h'' ex_class_joined) ''s''
       = inbox ex_class_joined ''s''
         @ [(''user-disconnected'', P_socket ''h''), (''host-disconnected'', P_none)]"
  by (simp add: disconnect_def s_disconnecting_def handleUserDisconnect_def w_disconnect_room_def
      s_disconnect_def hostRoomId_def ex_class_joined_fields prims delete_conv')

lemma fold_host_none:
  "\<forall>y \<in> set ys. ts_hostSocketId (snd y) \<noteq> h \<Longrightarrow>
   fold (\<lambda>(roomId, session) found. if ts_hostSocketId session = h then Some roomId else found)
     ys acc = acc"
  by (induction ys arbitrary: acc) (auto split: prod.splits)

lemma hostRoomId_last:
  assumes "teachingSessions st = xs @ (roomId, session) # ys" and "ts_hostSocketId session = h"
    and "\<forall>y \<in> set ys. ts_hostSocketId (snd y) \<noteq> h"
  shows "hostRoomId h st = Some roomId"
  using fold_host_none [OF assms(3)] assms(1,2) by (simp add: hostRoomId_def)

lemma map_of_middle:
  "distinct (map fst (xs @ (k, v) # ys)) \<Longrightarrow> map_of (xs @ (k, v) # ys) k = Some v"
  by (induction xs) auto

lemma update_middle:
  "distinct (map fst (xs @ (k, v) # ys)) \<Longrightarrow>
   AList.update k v' (xs @ (k, v) # ys) = xs @ (k, v') # ys"
  by (induction xs) auto

lemma ex_class_two_fields:
  "sids ex_class_two = [(''h'', [''h'', ''T1'', ''T2'']), (''s'', [''s'', ''T1''])]
   \<and> teachingSessions ex_class_two =
       [(''T1'', \<lparr> ts_host = ''Ms Hopper'', ts_hostSocketId = ''h'',
                   ts_students = [\<lparr> st_profile = ex_student, st_socketId = ''s'' \<rparr>],
                   ts_messages = [], ts_notes = [], ts_attendance = [], ts_feedback = [],
                   ts_createdAt = 1, ts_type = Teaching, ts_hostActive = None \<rparr>),
        (''T2'', \<lparr> ts_host = ''Ms Hopper'', ts_hostSocketId = ''h'', ts_students = [],
                   ts_messages = [], ts_notes = [], ts_attendance = [], ts_feedback = [],
                   ts_createdAt = 4, ts_type = Teaching, ts_hostActive = None \<rparr>)]
   \<and> rooms ex_class_two =
       [(''T1'', \<lparr> wr_hostId = ''h'', wr_hostName = ''Ms Hopper'', wr_students = [],
                   wr_connections = [] \<rparr>),
        (''T2'', \<lparr> wr_hostId = ''h'', wr_hostName = ''Ms Hopper'', wr_students = [],
                   wr_connections = [] \<rparr>)]"
  by (simp add: ex_class_two_def ex_class_joined_fields prims)

lemma ex_class_two_left_fields:
  "teachingSessions (disconnect ''h'' ex_class_two) =
       [(''T1'', \<lparr> ts_host = ''Ms Hopper'', ts_hostSocketId = ''h'',
                   ts_students = [\<lparr> st_profile = ex_student, st_socketId = ''s'' \<rparr>],
                   ts_messages = [], ts_notes = [], ts_attendance = [], ts_feedback = [],
                   ts_createdAt = 1, ts_type = Teaching, ts_hostActive = None \<rparr>),
        (''T2'', \<lparr> ts_host = ''Ms Hopper'', ts_hostSocketId = ''h'', ts_students = [],
                   ts_messages = [], ts_notes = [], ts_attendance = [], ts_feedback = [],
                   ts_createdAt = 4, ts_type = Teaching, ts_hostActive = Some False \<rparr>)]"
  by (simp add: disconnect_def s_disconnecting_def handleUserDisconnect_def w_disconnect_room_def
      s_disconnect_def hostRoomId_def ex_class_two_fields prims delete_conv')

lemma ex_class_empty_fields:
  "sids ex_class_empty = [(''h'', [''h'', []])]
   \<and> teachingSessions ex_class_empty =
       [([], \<lparr> ts_host = ''Ms Hopper'', ts_hostSocketId = ''h'', ts_students = [],
               ts_messages = [], ts_notes = [], ts_attendance = [], ts_feedback = [],
               ts_createdAt = 1, ts_type = Teaching, ts_hostActive = None \<rparr>)]
   \<and> rooms ex_class_empty =
       [([], \<lparr> wr_hostId = ''h'', wr_hostName = ''Ms Hopper'', wr_students = [],
               wr_connections = [] \<rparr>)]"
  by (simp add: ex_class_empty_def init_def prims)

lemma ex_class_empty_left_fields:
  "teachingSessions (disconnect ''h'' ex_class_empty) =
       [([], \<lparr> ts_host = ''Ms Hopper'', ts_hostSocketId = ''h'', ts_students = [],
               ts_messages = [], ts_notes = [], ts_attendance = [], ts_feedback = [],
               ts_createdAt = 1, ts_type = Teaching, ts_hostActive = None \<rparr>)]"
  by (simp add: disconnect_def s_disconnecting_def handleUserDisconnect_def w_disconnect_room_def
      s_disconnect_def hostRoomId_def student_left_def ex_class_empty_fields prims delete_conv')

section \<open>Lemmas: well-formed states\<close>

lemma list_all_update:
  "list_all P al \<Longrightarrow> P (k, v) \<Longrightarrow> list_all P (AList.update k v al)"
  by (induction al) auto

lemma list_all_delete: "list_all P al \<Longrightarrow> list_all P (AList.delete k al)"
  by (induction al) auto

lemma list_all_map_of: "list_all P al \<Longrightarrow> map_of al k = Some v \<Longrightarrow> P (k, v)"
  by (auto simp: list_all_iff dest: map_of_SomeD)

lemma distinct_splice1: "distinct (map f xs) \<Longrightarrow> distinct (map f (splice1 i xs))"
proof -
  assume d: "distinct (map f xs)"
  have "map f (splice1 i xs) = take i (map f xs) @ drop (Suc i) (map f xs)"
    by (simp add: splice1_def take_map drop_map)
  moreover have "distinct (take i (map f xs) @ drop (Suc i) (map f xs))"
    using d set_take_disj_set_drop_if_distinct [of "map f xs" i "Suc i"] by simp
  ultimately show ?thesis by simp
qed

lemma consistent_init: "consistent init"
  by (simp add: consistent_def keys_distinct_def names_distinct_def ids_distinct_def
      polls_stored_def init_def)

lemma consistent_inbox [simp]: "consistent (st\<lparr>inbox := i\<rparr>) = consistent st"
  by (simp add: consistent_def keys_distinct_def names_distinct_def ids_distinct_def
      polls_stored_def)

lemma consistent_deliver [simp]:
  "consistent (deliver d m st) = consistent st"
  "consistent (io_to g m st) = consistent st"
  "consistent (socket_to s g m st) = consistent st"
  "consistent (socket_emit s m st) = consistent st"
  by (simp_all add: deliver_def io_to_def socket_to_def socket_emit_def)

lemma consistent_timers [simp]: "consistent (st\<lparr>timers := t\<rparr>) = consistent st"
  by (simp add: consistent_def keys_distinct_def names_distinct_def ids_distinct_def
      polls_stored_def)

lemma consistent_socket_join: "consistent st \<Longrightarrow> consistent (socket_join s g st)"
  by (auto simp: socket_join_def consistent_def keys_distinct_def names_distinct_def
      ids_distinct_def polls_stored_def distinct_update split: option.splits)

lemma consistent_connect: "consistent st \<Longrightarrow> consistent (connect s st)"
  by (auto simp: connect_def consistent_def keys_distinct_def names_distinct_def
      ids_distinct_def polls_stored_def map_of_eq_None_iff)

lemma consistent_sessions:
  "consistent st \<Longrightarrow> distinct (map (\<lambda>x. pr_id (st_profile x)) (ts_students session)) \<Longrightarrow>
   consistent (st\<lparr>teachingSessions := AList.update roomId session (teachingSessions st)\<rparr>)"
  by (auto simp: consistent_def keys_distinct_def names_distinct_def ids_distinct_def
      polls_stored_def distinct_update intro!: list_all_update)

lemma consistent_gaming:
  "consistent st \<Longrightarrow> distinct (map pa_name (gr_participants room)) \<Longrightarrow>
   consistent (st\<lparr>gamingRooms := AList.update roomId room (gamingRooms st)\<rparr>)"
  by (auto simp: consistent_def keys_distinct_def names_distinct_def ids_distinct_def
      polls_stored_def distinct_update intro!: list_all_update)

lemma consistent_events:
  "consistent st \<Longrightarrow> consistent (st\<lparr>events := AList.update eventId ev (events st)\<rparr>)"
  by (auto simp: consistent_def keys_distinct_def names_distinct_def ids_distinct_def
      polls_stored_def distinct_update)

lemma consistent_rooms_update:
  "consistent st \<Longrightarrow> consistent (st\<lparr>rooms := AList.update roomId room (rooms st)\<rparr>)"
  by (auto simp: consistent_def keys_distinct_def names_distinct_def ids_distinct_def
      polls_stored_def distinct_update)

lemma consistent_rooms_delete:
  "consistent st \<Longrightarrow> consistent (st\<lparr>rooms := AList.delete roomId (rooms st)\<rparr>)"
  by (auto simp: consistent_def keys_distinct_def names_distinct_def ids_distinct_def
      polls_stored_def distinct_delete)

lemma consistent_sids_delete:
  "consistent st \<Longrightarrow> consistent (st\<lparr>sids := AList.delete s (sids st)\<rparr>)"
  by (auto simp: consistent_def keys_distinct_def names_distinct_def ids_distinct_def
      polls_stored_def distinct_delete)

lemma consistent_students:
  "consistent st \<Longrightarrow> map_of (teachingSessions st) roomId = Some session \<Longrightarrow>
   distinct (map (\<lambda>x. pr_id (st_profile x)) (ts_students session))"
  using list_all_map_of [of "\<lambda>(roomId, session).
      distinct (map (\<lambda>x. pr_id (st_profile x)) (ts_students session))" "teachingSessions st"
      roomId session]
  by (simp add: consistent_def ids_distinct_def)

lemma consistent_participants:
  "consistent st \<Longrightarrow> map_of (gamingRooms st) roomId = Some room \<Longrightarrow>
   distinct (map pa_name (gr_participants room))"
  using list_all_map_of [of "\<lambda>(roomId, room). distinct (map pa_name (gr_participants room))"
      "gamingRooms st" roomId room]
  by (simp add: consistent_def names_distinct_def)

lemma consistent_poll_update:
  "consistent st \<Longrightarrow> consistent (st\<lparr>pollObjs := (pollObjs st)[a := p]\<rparr>)"
  by (auto simp: consistent_def keys_distinct_def names_distinct_def ids_distinct_def
      polls_stored_def)

lemma consistent_poll_new:
  assumes "consistent st"
  shows "consistent (st\<lparr>pollObjs := pollObjs st @ [p],
                 eventPolls := AList.update pollId (length (pollObjs st)) (eventPolls st)\<rparr>)"
proof -
  let ?P = "\<lambda>(pollId, a). a < Suc (length (pollObjs st))"
  from assms have "list_all (\<lambda>(pollId, a). a < length (pollObjs st)) (eventPolls st)"
    by (simp add: consistent_def polls_stored_def)
  then have "list_all ?P (eventPolls st)" by (auto simp: list_all_iff)
  then have "list_all ?P (AList.update pollId (length (pollObjs st)) (eventPolls st))"
    by (rule list_all_update) simp
  with assms show ?thesis
    by (simp add: consistent_def keys_distinct_def names_distinct_def ids_distinct_def
        polls_stored_def distinct_update)
qed

lemma consistent_w_create_room: "consistent st \<Longrightarrow> consistent (w_create_room s r h st)"
  by (simp add: w_create_room_def consistent_socket_join consistent_rooms_update)

lemma consistent_s_create_room:
  assumes "consistent st"
  shows "consistent (s_create_room s r h now st)"
proof -
  let ?st = "socket_join s r st"
  have c: "consistent ?st" using assms by (rule consistent_socket_join)
  have g: "map_of (gamingRooms ?st) r = Some room \<Longrightarrow>
      consistent (?st\<lparr>gamingRooms := AList.update r (room\<lparr>gr_hostSocketId := s\<rparr>) (gamingRooms ?st)\<rparr>)"
    for room
    using consistent_gaming [OF c, of "room\<lparr>gr_hostSocketId := s\<rparr>" r]
      consistent_participants [OF c, of r room] by simp
  have n: "consistent (?st\<lparr>gamingRooms := AList.update r
        \<lparr> gr_host = h, gr_hostSocketId = s, gr_participants = [], gr_messages = [],
          gr_createdAt = now, gr_type = Gaming \<rparr> (gamingRooms ?st)\<rparr>)"
    using consistent_gaming [OF c] by simp
  have t: "consistent (?st\<lparr>teachingSessions := AList.update r
        \<lparr> ts_host = h, ts_hostSocketId = s, ts_students = [], ts_messages = [], ts_notes = [],
          ts_attendance = [], ts_feedback = [], ts_createdAt = now, ts_type = Teaching,
          ts_hostActive = None \<rparr> (teachingSessions ?st)\<rparr>)"
    using consistent_sessions [OF c] by simp
  show ?thesis
    using c g n t consistent_events [OF c]
    by (simp add: s_create_room_def Let_def split: option.splits)
qed

lemma consistent_create_room: "consistent st \<Longrightarrow> consistent (create_room s r h now st)"
  by (simp add: create_room_def consistent_s_create_room consistent_w_create_room)

lemma consistent_join_room_old:
  assumes "consistent st"
  shows "consistent (join_room_old s d now st)"
proof -
  let ?r = "join_roomId d" and ?p = "join_student d"
  let ?st = "socket_join s ?r st"
  have c: "consistent ?st" using assms by (rule consistent_socket_join)
  have e: "consistent (join_event s ?r ?p now st)"
    using assms consistent_events [OF c]
    by (simp add: join_event_def Let_def split: option.splits)
  have g: "consistent (join_gaming s ?r ?p now st)"
  proof (cases "map_of (gamingRooms st) ?r")
    case None
    with assms show ?thesis by (simp add: join_gaming_def)
  next
    case (Some room)
    let ?np = "new_participant s ?p now"
    have "pa_name ?np = pr_name ?p" by (simp add: new_participant_def)
    from put_participant_distinct [OF this consistent_participants [OF assms Some]]
    have "distinct (map pa_name (gr_participants
        (room\<lparr>gr_participants := put_participant (pr_name ?p) ?np (gr_participants room)\<rparr>)))"
      by simp
    from consistent_gaming [OF c this, of ?r] Some show ?thesis
      by (simp add: join_gaming_def Let_def)
  qed
  have t: "consistent (join_teaching s ?r ?p now st)"
    using assms by (simp add: join_teaching_def split: option.splits)
  from e g t show ?thesis by (simp add: join_room_old_def Let_def)
qed

lemma consistent_approve_join: "consistent st \<Longrightarrow> consistent (approve_join s q r st)"
  by (simp add: approve_join_def split: option.splits)

lemma consistent_reject_join: "consistent st \<Longrightarrow> consistent (reject_join s q r st)"
  by (simp add: reject_join_def)

lemma consistent_confirm_join:
  assumes "consistent st"
  shows "consistent (confirm_join s r p st)"
proof (cases "map_of (teachingSessions st) r")
  case None
  with assms show ?thesis by (simp add: confirm_join_def)
next
  case (Some session)
  let ?P = "\<lambda>x. pr_id (st_profile x) = pr_id p \<or> st_socketId x = s"
  let ?f = "\<lambda>x. pr_id (st_profile x)"
  from consistent_students [OF assms Some] have d: "distinct (map ?f (ts_students session))" .
  show ?thesis
  proof (cases "findIndex ?P (ts_students session)")
    case None
    then have "pr_id p \<notin> set (map ?f (ts_students session))" by (auto simp: findIndex_None)
    with d have "distinct (map ?f (ts_students
        (session\<lparr>ts_students := ts_students session @ [\<lparr> st_profile = p, st_socketId = s \<rparr>]\<rparr>)))"
      by simp
    from consistent_sessions [OF consistent_socket_join [OF assms, of s r] this, of r] Some None
    show ?thesis by (simp add: confirm_join_def Let_def)
  next
    case (Some i)
    from findIndex_Some [OF Some] have "i < length (ts_students session)" by blast
    with d have "distinct (map ?f (ts_students
        (session\<lparr>ts_students :=
            (ts_students session)[i := (ts_students session ! i)\<lparr>st_socketId := s\<rparr>]\<rparr>)))"
      by (simp add: ids_after_update)
    from consistent_socket_join [OF consistent_sessions [OF assms this, of r], of s r]
      \<open>map_of (teachingSessions st) r = Some session\<close> Some
    show ?thesis by (simp add: confirm_join_def Let_def)
  qed
qed

lemma consistent_w_disconnect_room:
  "consistent st \<Longrightarrow> consistent (w_disconnect_room h x st)"
  by (cases x)
     (auto simp: w_disconnect_room_def io_to_def deliver_def consistent_def keys_distinct_def
        names_distinct_def ids_distinct_def polls_stored_def distinct_update distinct_delete)

lemma consistent_handleUserDisconnect: "consistent st \<Longrightarrow> consistent (handleUserDisconnect h st)"
proof -
  have "consistent st \<Longrightarrow> consistent (fold (w_disconnect_room h) xs st)" for xs
    by (induction xs arbitrary: st) (simp_all add: consistent_w_disconnect_room)
  then show "consistent st \<Longrightarrow> consistent (handleUserDisconnect h st)"
    by (simp add: handleUserDisconnect_def)
qed

lemma consistent_student_left:
  assumes "consistent st" and "distinct (map (\<lambda>x. pr_id (st_profile x)) (ts_students (snd x)))"
  shows "consistent (student_left s x st)"
proof (cases x)
  case (Pair r session)
  show ?thesis
  proof (cases "findIndex (\<lambda>y. st_socketId y = s) (ts_students session)")
    case None
    with assms Pair show ?thesis by (simp add: student_left_def)
  next
    case (Some i)
    from assms(2) Pair have "distinct (map (\<lambda>x. pr_id (st_profile x)) (ts_students
        (session\<lparr>ts_students := splice1 i (ts_students session)\<rparr>)))"
      by (simp add: distinct_splice1)
    from consistent_sessions [OF assms(1) this, of r] Pair Some show ?thesis
      by (simp add: student_left_def)
  qed
qed

lemma consistent_fold_student_left:
  "consistent st \<Longrightarrow>
   \<forall>x \<in> set xs. distinct (map (\<lambda>y. pr_id (st_profile y)) (ts_students (snd x))) \<Longrightarrow>
   consistent (fold (student_left s) xs st)"
  by (induction xs arbitrary: st) (simp_all add: consistent_student_left)

lemma consistent_s_disconnect:
  assumes "consistent st"
  shows "consistent (s_disconnect s st)"
proof -
  have all: "\<forall>x \<in> set (teachingSessions st).
      distinct (map (\<lambda>y. pr_id (st_profile y)) (ts_students (snd x)))"
    using assms by (auto simp: consistent_def ids_distinct_def list_all_iff)
  have f: "consistent (fold (student_left s) (teachingSessions st) st)"
    by (rule consistent_fold_student_left [OF assms all])
  have h: "map_of (teachingSessions st) r = Some session \<Longrightarrow>
      consistent (st\<lparr>teachingSessions := AList.update r (session\<lparr>ts_hostActive := Some False\<rparr>)
                                           (teachingSessions st)\<rparr>)" for r session
    using consistent_sessions [OF assms, of "session\<lparr>ts_hostActive := Some False\<rparr>" r]
      consistent_students [OF assms, of r session] by simp
  from assms f h show ?thesis by (simp add: s_disconnect_def split: option.splits)
qed

lemma consistent_disconnect: "consistent st \<Longrightarrow> consistent (disconnect s st)"
proof -
  assume c: "consistent st"
  have "consistent (s_disconnecting s st)"
    using c by (simp add: s_disconnecting_def split: option.splits)
  from consistent_sids_delete [OF this, of s] show ?thesis
    by (simp add: disconnect_def Let_def consistent_s_disconnect consistent_handleUserDisconnect)
qed

lemma consistent_event_toggle_chat: "consistent st \<Longrightarrow> consistent (event_toggle_chat s e b st)"
  by (simp add: event_toggle_chat_def consistent_events split: option.splits)

lemma consistent_send_message: "consistent st \<Longrightarrow> consistent (send_message s r m st)"
proof -
  assume c: "consistent st"
  have g: "map_of (gamingRooms st) r = Some room \<Longrightarrow>
      consistent (st\<lparr>gamingRooms := AList.update r
          (room\<lparr>gr_messages := gr_messages room @ [m]\<rparr>) (gamingRooms st)\<rparr>)" for room
    using consistent_gaming [OF c, of "room\<lparr>gr_messages := gr_messages room @ [m]\<rparr>" r]
      consistent_participants [OF c, of r room] by simp
  have t: "map_of (teachingSessions st) r = Some session \<Longrightarrow>
      consistent (st\<lparr>teachingSessions := AList.update r
          (session\<lparr>ts_messages := ts_messages session @ [m]\<rparr>) (teachingSessions st)\<rparr>)" for session
    using consistent_sessions [OF c, of "session\<lparr>ts_messages := ts_messages session @ [m]\<rparr>" r]
      consistent_students [OF c, of r session] by simp
  show ?thesis using c g t by (simp add: send_message_def io_to_def split: option.splits)
qed

lemma consistent_event_send_message: "consistent st \<Longrightarrow> consistent (event_send_message s e m st)"
  by (simp add: event_send_message_def consistent_events split: option.splits)

lemma consistent_event_end: "consistent st \<Longrightarrow> consistent (event_end s e now st)"
  by (simp add: event_end_def consistent_events split: option.splits)

lemma consistent_createEvent:
  "consistent st \<Longrightarrow> consistent (snd (createEvent t d hn he rnd now st))"
  by (simp add: createEvent_def Let_def consistent_events)

lemma consistent_new_poll:
  assumes "consistent st"
  shows "consistent (st\<lparr> pollObjs := pollObjs st @ [p],
                         eventPolls := AList.update pollId (length (pollObjs st)) (eventPolls st),
                         events := AList.update e ev (events st) \<rparr>)"
proof -
  from consistent_events [OF consistent_poll_new [OF assms, where p = p and pollId = pollId],
      where eventId = e and ev = ev]
  show ?thesis by simp
qed

lemma consistent_createPoll:
  "consistent st \<Longrightarrow> consistent (snd (createPoll e q os d now st))"
  using consistent_timers
  by (auto simp: createPoll_def Let_def split: option.splits
      dest: consistent_new_poll)

lemma consistent_event_start_poll:
  "consistent st \<Longrightarrow> consistent (event_start_poll s e p now st)"
  by (auto simp: event_start_poll_def Let_def split: option.splits dest: consistent_new_poll)

lemma consistent_votePoll: "consistent st \<Longrightarrow> consistent (snd (votePoll pid i u st))"
  by (auto simp: votePoll_def Let_def consistent_poll_update split: option.splits)

lemma consistent_event_vote_poll:
  "consistent st \<Longrightarrow> event_vote_poll s pid i u st = Some st' \<Longrightarrow> consistent st'"
  by (auto simp: event_vote_poll_def Let_def consistent_poll_update
      split: option.splits if_splits)

lemma consistent_run_task: "consistent st \<Longrightarrow> consistent (run_task t st)"
  by (auto simp: run_task_def consistent_poll_update split: timer_task.splits option.splits)

lemma consistent_fire: "consistent st \<Longrightarrow> consistent (fire k st)"
  by (simp add: fire_def consistent_run_task)

lemma consistent_handle:
  assumes "consistent st" and "handle act st = Some st'"
  shows "consistent st'"
  using assms
  by (cases act)
     (auto simp: consistent_connect consistent_disconnect consistent_create_room
        consistent_join_room_old consistent_approve_join consistent_reject_join
        consistent_confirm_join consistent_event_toggle_chat consistent_event_send_message
        consistent_send_message
        consistent_event_start_poll consistent_event_end consistent_createEvent
        consistent_createPoll consistent_votePoll consistent_fire
        dest: consistent_event_vote_poll)

lemma consistent_step:
  assumes "consistent st" and "step act st = Some st'"
  shows "consistent st'"
proof (cases "handle act st = Some st'")
  case True
  with assms(1) show ?thesis by (rule consistent_handle)
next
  case False
  with assms(2) have "st' = st" by (auto simp: step_def split: option.splits if_splits)
  with assms(1) show ?thesis by simp
qed

lemma consistent_run: "consistent st \<Longrightarrow> run acts st = Some st' \<Longrightarrow> consistent st'"
proof (induction acts arbitrary: st)
  case Nil
  then show ?case by simp
next
  case (Cons act acts)
  from Cons.prems(2) obtain st1 where s1: "step act st = Some st1" and r: "run acts st1 = Some st'"
    by (auto split: option.splits)
  from Cons.IH [OF consistent_step [OF Cons.prems(1) s1] r] show ?case .
qed

lemma reachable_consistent: "run acts init = Some st \<Longrightarrow> consistent st"
  using consistent_run [OF consistent_init] .


lemma reachable_rooms_distinct: "run acts init = Some st \<Longrightarrow> distinct (map fst (rooms st))"
  using reachable_consistent [of acts st] by (simp add: consistent_def keys_distinct_def)

lemma reachable_students_distinct:
  "run acts init = Some st \<Longrightarrow> map_of (teachingSessions st) roomId = Some session \<Longrightarrow>
   distinct (map (\<lambda>x. pr_id (st_profile x)) (ts_students session))"
  using reachable_consistent [of acts st] consistent_students by blast



lemma connect_connected: "map_of (sids (connect s st)) s \<noteq> None"
  by (auto simp add: connect_def map_add_def)

lemma run_snoc:
  "run acts st = Some st' \<Longrightarrow> run (acts @ [act]) st = step act st'"
  by (induction acts arbitrary: st) (auto split: option.splits)


lemma ex_class_run: "run ex_class_actions init = Some ex_class_joined"
  by (simp add: ex_class_actions_def step_def ex_class_joined_def ex_class_created_def
      connect_connected)

lemma ex_game_run: "run ex_game_actions init = Some ex_game_joined"
  by (simp add: ex_game_actions_def step_def ex_game_joined_def ex_game_created_def
      connect_connected)

lemma ex_class_rejoin_run: "run (ex_class_actions @ [Connect ''s2'']) init = Some (connect ''s2'' ex_class_joined)"
  by (simp add: run_snoc [OF ex_class_run] step_def)


lemma ex_client_run: "run ex_client_actions init = Some ex_client_state"
  by (simp add: ex_client_actions_def step_def ex_client_state_def ex_event_state_def
      connect_connected)

lemma reachable_sessions_distinct:
  "run acts init = Some st \<Longrightarrow> distinct (map fst (teachingSessions st))"
  using reachable_consistent [of acts st] by (simp add: consistent_def keys_distinct_def)

lemma ex_class_two_run:
  "run (ex_class_actions @ [Create_room ''h'' ''T2'' ''Ms Hopper'' 4]) init = Some ex_class_two"
  by (simp add: run_snoc [OF ex_class_run] step_def ex_class_two_def ex_class_joined_fields)

section \<open>Lemmas: the message log of an event\<close>

lemma log_kept_same:
  "events st' = events st \<Longrightarrow> map_of (events st) e = Some ev \<Longrightarrow>
   \<exists>ev'. map_of (events st') e = Some ev' \<and> ev_messages ev' = ev_messages ev"
  by simp

lemma log_kept_update:
  assumes "map_of (events st) e = Some ev"
    and "events st' = AList.update k v (events st)"
    and "\<And>old. map_of (events st) k = Some old \<Longrightarrow> k = e \<Longrightarrow> ev_messages v = ev_messages old"
  shows "\<exists>ev'. map_of (events st') e = Some ev' \<and> ev_messages ev' = ev_messages ev"
  using assms by (cases "k = e") (simp_all add: update_conv')

lemma connect_events: "events (connect s st) = events st"
  by (simp add: connect_def)

lemma create_room_log:
  assumes "map_of (events st) e = Some ev"
  shows "\<exists>ev'. map_of (events (create_room s r h now st)) e = Some ev'
           \<and> ev_messages ev' = ev_messages ev"
  using assms
  by (cases "r = e")
     (auto simp: create_room_def s_create_room_def w_create_room_def Let_def update_conv'
        split: option.splits)

lemma join_room_old_log:
  assumes "map_of (events st) e = Some ev"
  shows "\<exists>ev'. map_of (events (join_room_old s d now st)) e = Some ev'
           \<and> ev_messages ev' = ev_messages ev"
  using assms
  by (cases "join_roomId d = e")
     (auto simp: join_room_old_def join_event_def join_gaming_def join_teaching_def Let_def
        update_conv' split: option.splits)

lemma teaching_events:
  "events (approve_join s q r st) = events st"
  "events (reject_join s q r st) = events st"
  "events (confirm_join s r p st) = events st"
  "events (send_message s r m st) = events st"
  by (simp_all add: approve_join_def reject_join_def confirm_join_def send_message_def Let_def
      split: option.splits)

lemma event_handlers_log:
  assumes "map_of (events st) e = Some ev"
  shows "\<exists>ev'. map_of (events (event_toggle_chat s k b st)) e = Some ev'
           \<and> ev_messages ev' = ev_messages ev"
    and "\<exists>ev'. map_of (events (event_start_poll s k p now st)) e = Some ev'
           \<and> ev_messages ev' = ev_messages ev"
    and "\<exists>ev'. map_of (events (event_end s k now st)) e = Some ev'
           \<and> ev_messages ev' = ev_messages ev"
    and "\<exists>ev'. map_of (events (snd (createPoll k q os d now st))) e = Some ev'
           \<and> ev_messages ev' = ev_messages ev"
    and "k \<noteq> e \<or> \<not> chatEnabled (ev_settings ev) \<Longrightarrow>
         \<exists>ev'. map_of (events (event_send_message s k m st)) e = Some ev'
           \<and> ev_messages ev' = ev_messages ev"
    and "e \<noteq> ''EVENT-'' @ rnd \<Longrightarrow>
         \<exists>ev'. map_of (events (snd (createEvent t de hn he rnd now st))) e = Some ev'
           \<and> ev_messages ev' = ev_messages ev"
  using assms
  by (cases "k = e";
      auto simp: event_toggle_chat_def event_start_poll_def event_end_def createPoll_def
        event_send_message_def createEvent_def Let_def update_conv' split: option.splits)+

lemma fire_events: "events (fire k st) = events st"
  using run_task_frame by (simp add: fire_def)


lemma handle_log:
  assumes h: "handle act st = Some st'" and e: "map_of (events st) e = Some ev"
    and g: "\<not> (\<exists>s m. act = Event_send_message s e m \<and> chatEnabled (ev_settings ev))"
    and c: "\<not> (\<exists>t d hn he rnd n. act = Post_event t d hn he rnd n \<and> e = ''EVENT-'' @ rnd)"
  shows "\<exists>ev'. map_of (events st') e = Some ev' \<and> ev_messages ev' = ev_messages ev"
proof (cases act)
  case (Connect s)
  with h e show ?thesis by (auto simp: connect_events)
next
  case (Disconnect s)
  with h e disconnect_effect [of s st] show ?thesis by auto
next
  case (Create_room s r hn n)
  with h create_room_log [OF e, of s r hn n] show ?thesis by auto
next
  case (Join_room_old s d n)
  with h join_room_old_log [OF e, of s d n] show ?thesis by auto
next
  case (Approve_join s q r)
  with h e show ?thesis by (auto simp: teaching_events)
next
  case (Reject_join s q r)
  with h e show ?thesis by (auto simp: teaching_events)
next
  case (Confirm_join s r p)
  with h e show ?thesis by (auto simp: teaching_events)
next
  case (Send_message s r m)
  with h e show ?thesis by (auto simp: teaching_events)
next
  case (Event_toggle_chat s k b)
  with h event_handlers_log(1) [OF e, of s k b] show ?thesis by auto
next
  case (Event_send_message s k m)
  with g have "k \<noteq> e \<or> \<not> chatEnabled (ev_settings ev)" by auto
  from event_handlers_log(5) [OF e this, of s m] h Event_send_message show ?thesis by auto
next
  case (Event_start_poll s k p n)
  with h event_handlers_log(2) [OF e, of s k p n] show ?thesis by auto
next
  case (Event_vote_poll s pid i u)
  with h have "event_vote_poll s pid i u st = Some st'" by simp
  from event_vote_poll_frame [OF this] e show ?thesis by auto
next
  case (Event_end s k n)
  with h event_handlers_log(3) [OF e, of s k n] show ?thesis by auto
next
  case (Post_event t d hn he rnd n)
  with c have "e \<noteq> ''EVENT-'' @ rnd" by auto
  from event_handlers_log(6) [OF e this, of t d hn he n] h Post_event show ?thesis by auto
next
  case (Post_poll k q os d n)
  with h event_handlers_log(4) [OF e, of k q os d n] show ?thesis by auto
next
  case (Post_vote pid i u)
  with h e votePoll_frame [of pid i u st] show ?thesis by auto
next
  case (Timer k)
  with h e show ?thesis by (auto simp: fire_events)
qed

lemma step_log:
  assumes "step act st = Some st'" and "map_of (events st) e = Some ev"
    and "\<not> (\<exists>s m. act = Event_send_message s e m \<and> chatEnabled (ev_settings ev))"
    and "\<not> (\<exists>t d hn he rnd n. act = Post_event t d hn he rnd n \<and> e = ''EVENT-'' @ rnd)"
  shows "\<exists>ev'. map_of (events st') e = Some ev' \<and> ev_messages ev' = ev_messages ev"
proof (cases "handle act st = Some st'")
  case True
  from handle_log [OF True assms(2,3,4)] show ?thesis .
next
  case False
  with assms(1) have "st' = st" by (auto simp: step_def split: option.splits if_splits)
  with assms(2) show ?thesis by simp
qed

section \<open>The claims\<close>



text \<open>
  Claim C1, as the code has it.  A poll that \<^verbatim>\<open>createPoll\<close> makes keeps two properties
  (\<^const>\<open>poll_inv\<close>): the vote counts of its options add up to its \<^verbatim>\<open>totalVotes\<close>, and no user
  is in the voter list of more than one option.  \<^verbatim>\<open>createPoll\<close> makes the poll with every
  count zero, every voter list empty and a total of zero, which has both properties;
  \<^verbatim>\<open>votePoll\<close> keeps them on every poll object that has them, whether the vote is counted or
  refused; and so does every run of the process, any sequence of requests, socket events and
  timers, so the poll has them in every state after its creation.  A poll that
  \<^verbatim>\<open>event-start-poll\<close> stores is the client's poll object: its options, their counts and voter
  lists and its \<^verbatim>\<open>totalVotes\<close> are as the client sent them, only \<^verbatim>\<open>id\<close>, \<^verbatim>\<open>eventId\<close>, \<^verbatim>\<open>status\<close> and
  \<^verbatim>\<open>votes\<close> are set.
\<close>

theorem poll_counts_invariant:
  "(map_of (events st) eventId = Some ev \<longrightarrow>
      length (pollObjs (snd (createPoll eventId question options duration now st)))
        = Suc (length (pollObjs st))
      \<and> fresh_poll (pollObjs (snd (createPoll eventId question options duration now st))
                      ! length (pollObjs st))
      \<and> poll_inv (pollObjs (snd (createPoll eventId question options duration now st))
                      ! length (pollObjs st)))
   \<and> (a < length (pollObjs st) \<and> poll_inv (pollObjs st ! a) \<longrightarrow>
        poll_inv (pollObjs (snd (votePoll pollId optionId userId st)) ! a))
   \<and> (a < length (pollObjs st) \<and> poll_inv (pollObjs st ! a) \<and> run acts st = Some st' \<longrightarrow>
        a < length (pollObjs st') \<and> poll_inv (pollObjs st' ! a))
   \<and> (map_of (events st) eventId = Some ev
        \<and> run acts (snd (createPoll eventId question options duration now st)) = Some st' \<longrightarrow>
        length (pollObjs st) < length (pollObjs st')
        \<and> poll_inv (pollObjs st' ! length (pollObjs st)))
   \<and> (map_of (events st) eventId = Some ev \<longrightarrow>
        pollObjs (event_start_poll s eventId p now st) ! length (pollObjs st)
          = p\<lparr> poll_id := ''POLL-'' @ showNat now, poll_eventId := eventId,
                poll_status := Active, poll_votes := Some [] \<rparr>)"
proof -
  have create: "map_of (events st) eventId = Some ev \<Longrightarrow>
      length (pollObjs (snd (createPoll eventId question options duration now st)))
        = Suc (length (pollObjs st))
      \<and> fresh_poll (pollObjs (snd (createPoll eventId question options duration now st))
                      ! length (pollObjs st))
      \<and> poll_inv (pollObjs (snd (createPoll eventId question options duration now st))
                      ! length (pollObjs st))"
    using createPoll_new [of st eventId ev question options duration now] fresh_poll_inv by blast
  have vote: "a < length (pollObjs st) \<Longrightarrow> poll_inv (pollObjs st ! a) \<Longrightarrow>
        poll_inv (pollObjs (snd (votePoll pollId optionId userId st)) ! a)"
    using votePoll_objs [of a st pollId optionId userId] by blast
  have runs: "a < length (pollObjs st) \<Longrightarrow> poll_inv (pollObjs st ! a) \<Longrightarrow> run acts st = Some st' \<Longrightarrow>
        a < length (pollObjs st') \<and> poll_inv (pollObjs st' ! a)"
    using run_objs [of acts st st' a] by blast
  have later: "length (pollObjs st) < length (pollObjs st')
        \<and> poll_inv (pollObjs st' ! length (pollObjs st))"
    if e: "map_of (events st) eventId = Some ev"
      and r: "run acts (snd (createPoll eventId question options duration now st)) = Some st'"
  proof -
    let ?st1 = "snd (createPoll eventId question options duration now st)"
    from create [OF e] have l: "length (pollObjs st) < length (pollObjs ?st1)"
      and i: "poll_inv (pollObjs ?st1 ! length (pollObjs st))" by simp_all
    from run_objs [OF r l] i show ?thesis by blast
  qed
  have client: "map_of (events st) eventId = Some ev \<Longrightarrow>
        pollObjs (event_start_poll s eventId p now st) ! length (pollObjs st)
          = p\<lparr> poll_id := ''POLL-'' @ showNat now, poll_eventId := eventId,
                poll_status := Active, poll_votes := Some [] \<rparr>"
    using event_start_poll_new [of st eventId ev s p now] by blast
  from create vote runs later client show ?thesis by blast
qed

theorem poll_counts_invariant_witness:
  "fresh_poll (pollObjs ex_poll_state ! 0)
   \<and> poll_inv (pollObjs ex_poll_state ! 0)
   \<and> poll_inv (pollObjs ex_voted_state ! 0)
   \<and> sum_list (map opt_votes (poll_options (pollObjs ex_voted_state ! 0))) = 1
   \<and> poll_totalVotes (pollObjs ex_voted_state ! 0) = 1
   \<and> poll_inv (pollObjs (the (run [Post_vote ''POLL-5'' 0 ''u2'', Timer 0,
                                     Post_vote ''POLL-5'' 0 ''u3''] ex_voted_state)) ! 0)
   \<and> run [Post_vote ''POLL-5'' 1 ''u1'', Timer 0] ex_poll_state = Some ex_closed_state
   \<and> poll_inv (pollObjs ex_closed_state ! 0)
   \<and> pollObjs ex_client_state ! 0
       = ex_client_poll\<lparr> poll_id := ''POLL-7'', poll_eventId := ''EVENT-ABC'',
                          poll_status := Active, poll_votes := Some [] \<rparr>"
proof -
  obtain ev where ev: "map_of (events ex_event_state) ''EVENT-ABC'' = Some ev"
    using ex_event_lookup by blast
  have len: "length (pollObjs ex_event_state) = 0"
    by (simp add: ex_event_state_def createEvent_def init_def Let_def)
  from ev len poll_counts_invariant [of ex_event_state "''EVENT-ABC''" ev "''Tea?''"
      "[''yes'', ''no'']" "Some 30" 5]
  have fresh: "fresh_poll (pollObjs ex_poll_state ! 0) \<and> poll_inv (pollObjs ex_poll_state ! 0)"
    by (simp add: ex_poll_state_def)
  have "0 < length (pollObjs ex_poll_state)" by (simp add: ex_poll_objs)
  with fresh poll_counts_invariant [of ex_poll_state _ _ _ _ _ _ 0 "''POLL-5''" 1 "''u1''"]
  have voted: "poll_inv (pollObjs ex_voted_state ! 0)"
    by (simp add: ex_voted_state_def)
  have r: "run [Post_vote ''POLL-5'' 0 ''u2'', Timer 0, Post_vote ''POLL-5'' 0 ''u3''] ex_voted_state
        = Some (the (run [Post_vote ''POLL-5'' 0 ''u2'', Timer 0, Post_vote ''POLL-5'' 0 ''u3'']
              ex_voted_state))"
    by (simp add: step_def)
  have "0 < length (pollObjs ex_voted_state)" by (simp add: ex_voted_objs)
  with voted r poll_counts_invariant [of ex_voted_state _ _ _ _ _ _ 0 _ _ _
      "[Post_vote ''POLL-5'' 0 ''u2'', Timer 0, Post_vote ''POLL-5'' 0 ''u3'']"
      "the (run [Post_vote ''POLL-5'' 0 ''u2'', Timer 0, Post_vote ''POLL-5'' 0 ''u3''] ex_voted_state)"]
  have later: "poll_inv (pollObjs (the (run [Post_vote ''POLL-5'' 0 ''u2'', Timer 0,
                                     Post_vote ''POLL-5'' 0 ''u3''] ex_voted_state)) ! 0)"
    by blast
  have counts: "sum_list (map opt_votes (poll_options (pollObjs ex_voted_state ! 0))) = 1
     \<and> poll_totalVotes (pollObjs ex_voted_state ! 0) = 1"
    by (simp add: ex_voted_objs)
  have r2: "run [Post_vote ''POLL-5'' 1 ''u1'', Timer 0]
              (snd (createPoll ''EVENT-ABC'' ''Tea?'' [''yes'', ''no''] (Some 30) 5 ex_event_state))
            = Some ex_closed_state"
    by (simp add: step_def ex_closed_state_def ex_voted_state_def ex_poll_state_def)
  from ev len r2 poll_counts_invariant [where st = ex_event_state and eventId = "''EVENT-ABC''"
      and ev = ev and question = "''Tea?''" and options = "[''yes'', ''no'']"
      and duration = "Some 30" and now = 5 and acts = "[Post_vote ''POLL-5'' 1 ''u1'', Timer 0]"
      and st' = ex_closed_state]
  have closed: "poll_inv (pollObjs ex_closed_state ! 0)"
    by simp
  obtain ev' where ev': "map_of (events (connect ''h'' ex_event_state)) ''EVENT-ABC'' = Some ev'"
    using ex_event_lookup ex_event_fields by auto
  have len': "length (pollObjs (connect ''h'' ex_event_state)) = 0"
    by (simp add: ex_event_fields)
  from ev' len' poll_counts_invariant [where st = "connect ''h'' ex_event_state"
      and eventId = "''EVENT-ABC''" and ev = ev' and s = "''h''" and p = ex_client_poll and now = 7]
  have client: "pollObjs ex_client_state ! 0
       = ex_client_poll\<lparr> poll_id := ''POLL-7'', poll_eventId := ''EVENT-ABC'',
                          poll_status := Active, poll_votes := Some [] \<rparr>"
    by (simp add: ex_client_state_def showNat_7)
  from r2 have r2': "run [Post_vote ''POLL-5'' 1 ''u1'', Timer 0] ex_poll_state = Some ex_closed_state"
    by (simp add: ex_poll_state_def)
  from fresh voted later counts r2' closed client show ?thesis by blast
qed

text \<open>
  Claim C1 as the spec states it, for every poll, fails on a poll of \<^verbatim>\<open>event-start-poll\<close>.  The
  requests \<^const>\<open>ex_client_actions\<close> lead from the start of the process to a state where
  \<^verbatim>\<open>eventPolls\<close> has, under \<^verbatim>\<open>POLL-7\<close>, a poll whose counts add up to 5 against a total of 0 and
  that has the user \<^verbatim>\<open>u1\<close> in the voter lists of both options.  A vote of \<^verbatim>\<open>u2\<close> on it with
  \<^verbatim>\<open>votePoll\<close> succeeds, and the poll it returns has the sum 6 against the total 1.
\<close>

theorem client_poll_counterexample:
  "run ex_client_actions init = Some ex_client_state
   \<and> get_poll ex_client_state ''POLL-7'' = Some (0, pollObjs ex_client_state ! 0)
   \<and> sum_list (map opt_votes (poll_options (pollObjs ex_client_state ! 0))) = 5
   \<and> poll_totalVotes (pollObjs ex_client_state ! 0) = 0
   \<and> map opt_id (voted_options ''u1'' (pollObjs ex_client_state ! 0)) = [0, 1]
   \<and> \<not> counts_add_up (pollObjs ex_client_state ! 0)
   \<and> \<not> one_option_per_voter (pollObjs ex_client_state ! 0)
   \<and> fst (votePoll ''POLL-7'' 0 ''u2'' ex_client_state)
       = Json_poll (pollObjs (snd (votePoll ''POLL-7'' 0 ''u2'' ex_client_state)) ! 0)
   \<and> sum_list (map opt_votes
        (poll_options (pollObjs (snd (votePoll ''POLL-7'' 0 ''u2'' ex_client_state)) ! 0))) = 6
   \<and> poll_totalVotes (pollObjs (snd (votePoll ''POLL-7'' 0 ''u2'' ex_client_state)) ! 0) = 1"
proof -
  have 1: "get_poll ex_client_state ''POLL-7'' = Some (0, pollObjs ex_client_state ! 0)
   \<and> sum_list (map opt_votes (poll_options (pollObjs ex_client_state ! 0))) = 5
   \<and> poll_totalVotes (pollObjs ex_client_state ! 0) = 0
   \<and> map opt_id (voted_options ''u1'' (pollObjs ex_client_state ! 0)) = [0, 1]
   \<and> \<not> counts_add_up (pollObjs ex_client_state ! 0)
   \<and> \<not> one_option_per_voter (pollObjs ex_client_state ! 0)"
    by (simp add: get_poll_def ex_client_objs voted_options_def counts_add_up_def
        one_option_per_voter_def)
  have 2: "fst (votePoll ''POLL-7'' 0 ''u2'' ex_client_state)
       = Json_poll (pollObjs (snd (votePoll ''POLL-7'' 0 ''u2'' ex_client_state)) ! 0)"
    using ex_client_voted_objs by (metis fst_conv)
  have 3: "sum_list (map opt_votes
        (poll_options (pollObjs (snd (votePoll ''POLL-7'' 0 ''u2'' ex_client_state)) ! 0))) = 6
   \<and> poll_totalVotes (pollObjs (snd (votePoll ''POLL-7'' 0 ''u2'' ex_client_state)) ! 0) = 1"
    by (simp add: ex_client_voted_objs [THEN conjunct2])
  from ex_client_run 1 2 3 show ?thesis by simp
qed

text \<open>
  Claim C3, as the code has it.  Creating a poll with a duration of \<open>D\<close> seconds, \<open>D\<close> not zero,
  hands \<^verbatim>\<open>setTimeout\<close> a task with a delay of \<open>D\<close> seconds; with no duration or a duration of
  zero the delay is the default of 60 seconds (\<^verbatim>\<open>duration || 60\<close>), in \<^verbatim>\<open>createPoll\<close> and in
  \<^verbatim>\<open>event-start-poll\<close> alike.  When the task runs, a poll that is registered under the poll id
  and still active becomes closed.  A closed poll object is never changed again by any run of
  the process: it is not reopened, and no vote is recorded on it; \<^verbatim>\<open>votePoll\<close> answers a vote on
  it with \<^verbatim>\<open>Poll is not active\<close> and \<^verbatim>\<open>event-vote-poll\<close> ignores it.
\<close>

theorem poll_closed_by_timer:
  "(map_of (events st) eventId = Some ev \<and> duration = Some D \<and> D \<noteq> 0 \<longrightarrow>
      timers (snd (createPoll eventId question options duration now st))
        = timers st @ [\<lparr> tm_armedAt = now, tm_delay = D * 1000,
                          tm_task = Close_poll (''POLL-'' @ showNat now) \<rparr>])
   \<and> (map_of (events st) eventId = Some ev \<and> (duration = None \<or> duration = Some 0) \<longrightarrow>
      timers (snd (createPoll eventId question options duration now st))
        = timers st @ [\<lparr> tm_armedAt = now, tm_delay = 60000,
                          tm_task = Close_poll (''POLL-'' @ showNat now) \<rparr>])
   \<and> (map_of (events st) eventId = Some ev \<and> poll_duration q = Some D \<and> D \<noteq> 0 \<longrightarrow>
      timers (event_start_poll s eventId q now st)
        = timers st @ [\<lparr> tm_armedAt = now, tm_delay = D * 1000,
                          tm_task = Close_event_poll s eventId (''POLL-'' @ showNat now) \<rparr>])
   \<and> (map_of (events st) eventId = Some ev
        \<and> (poll_duration q = None \<or> poll_duration q = Some 0) \<longrightarrow>
      timers (event_start_poll s eventId q now st)
        = timers st @ [\<lparr> tm_armedAt = now, tm_delay = 60000,
                          tm_task = Close_event_poll s eventId (''POLL-'' @ showNat now) \<rparr>])
   \<and> (k < length (timers st)
        \<and> (tm_task (timers st ! k) = Close_poll pollId
            \<or> tm_task (timers st ! k) = Close_event_poll s eventId pollId)
        \<and> get_poll st pollId = Some (a, p) \<and> poll_status p = Active \<longrightarrow>
      get_poll (fire k st) pollId = Some (a, p\<lparr>poll_status := Closed\<rparr>))
   \<and> (a < length (pollObjs st) \<and> poll_status (pollObjs st ! a) = Closed
        \<and> run acts st = Some st' \<longrightarrow>
      a < length (pollObjs st') \<and> pollObjs st' ! a = pollObjs st ! a)
   \<and> (get_poll st pollId = Some (a, p) \<and> poll_status p = Closed \<longrightarrow>
      votePoll pollId optionId userId st = (Json_failure 400 ''Poll is not active'', st)
      \<and> event_vote_poll s pollId optionId userId st = Some st)"
proof -
  have c1: "map_of (events st) eventId = Some ev \<Longrightarrow> duration = Some D \<Longrightarrow> D \<noteq> 0 \<Longrightarrow>
      timers (snd (createPoll eventId question options duration now st))
        = timers st @ [\<lparr> tm_armedAt = now, tm_delay = D * 1000,
                          tm_task = Close_poll (''POLL-'' @ showNat now) \<rparr>]"
    using createPoll_new [of st eventId ev question options duration now] or_60_cases [of D]
    by simp
  have c2: "map_of (events st) eventId = Some ev \<Longrightarrow> duration = None \<or> duration = Some 0 \<Longrightarrow>
      timers (snd (createPoll eventId question options duration now st))
        = timers st @ [\<lparr> tm_armedAt = now, tm_delay = 60000,
                          tm_task = Close_poll (''POLL-'' @ showNat now) \<rparr>]"
    using createPoll_new [of st eventId ev question options duration now] or_60_cases [of 0]
    by auto
  have e1: "map_of (events st) eventId = Some ev \<Longrightarrow> poll_duration q = Some D \<Longrightarrow> D \<noteq> 0 \<Longrightarrow>
      timers (event_start_poll s eventId q now st)
        = timers st @ [\<lparr> tm_armedAt = now, tm_delay = D * 1000,
                          tm_task = Close_event_poll s eventId (''POLL-'' @ showNat now) \<rparr>]"
    using event_start_poll_new [of st eventId ev s q now] or_60_cases [of D]
    by simp
  have e2: "map_of (events st) eventId = Some ev \<Longrightarrow>
      poll_duration q = None \<or> poll_duration q = Some 0 \<Longrightarrow>
      timers (event_start_poll s eventId q now st)
        = timers st @ [\<lparr> tm_armedAt = now, tm_delay = 60000,
                          tm_task = Close_event_poll s eventId (''POLL-'' @ showNat now) \<rparr>]"
    using event_start_poll_new [of st eventId ev s q now] or_60_cases [of 0]
    by auto
  have f: "k < length (timers st) \<Longrightarrow>
        tm_task (timers st ! k) = Close_poll pollId
            \<or> tm_task (timers st ! k) = Close_event_poll s eventId pollId \<Longrightarrow>
        get_poll st pollId = Some (a, p) \<Longrightarrow> poll_status p = Active \<Longrightarrow>
      get_poll (fire k st) pollId = Some (a, p\<lparr>poll_status := Closed\<rparr>)"
    using fire_closes by blast
  have r: "a < length (pollObjs st) \<Longrightarrow> poll_status (pollObjs st ! a) = Closed \<Longrightarrow>
        run acts st = Some st' \<Longrightarrow>
      a < length (pollObjs st') \<and> pollObjs st' ! a = pollObjs st ! a"
    using run_objs [of acts st st' a] by blast
  have v: "get_poll st pollId = Some (a, p) \<Longrightarrow> poll_status p = Closed \<Longrightarrow>
      votePoll pollId optionId userId st = (Json_failure 400 ''Poll is not active'', st)
      \<and> event_vote_poll s pollId optionId userId st = Some st"
    using votePoll_closed [of st pollId a p optionId userId]
      event_vote_poll_closed [of st pollId a p s optionId userId] by simp
  from c1 c2 e1 e2 f r v show ?thesis by blast
qed

theorem poll_closed_by_timer_witness:
  "timers ex_poll_state
     = [\<lparr> tm_armedAt = 5, tm_delay = 30000, tm_task = Close_poll ''POLL-5'' \<rparr>]
   \<and> timers (snd (createPoll ''EVENT-ABC'' ''Tea?'' [''yes'', ''no''] None 5 ex_event_state))
     = [\<lparr> tm_armedAt = 5, tm_delay = 60000, tm_task = Close_poll ''POLL-5'' \<rparr>]
   \<and> timers (event_start_poll ''h'' ''EVENT-ABC'' (ex_zero_poll\<lparr>poll_duration := Some 45\<rparr>) 7
               (connect ''h'' ex_event_state))
     = [\<lparr> tm_armedAt = 7, tm_delay = 45000,
          tm_task = Close_event_poll ''h'' ''EVENT-ABC'' ''POLL-7'' \<rparr>]
   \<and> timers ex_zero_state
     = [\<lparr> tm_armedAt = 7, tm_delay = 60000,
          tm_task = Close_event_poll ''h'' ''EVENT-ABC'' ''POLL-7'' \<rparr>]
   \<and> get_poll ex_closed_state ''POLL-5''
     = Some (0, (pollObjs ex_voted_state ! 0)\<lparr>poll_status := Closed\<rparr>)
   \<and> pollObjs (the (run [Post_vote ''POLL-5'' 0 ''u2'', Post_poll ''EVENT-ABC'' ''Again?'' [''a''] None 5]
                     ex_closed_state)) ! 0
     = pollObjs ex_closed_state ! 0
   \<and> votePoll ''POLL-5'' 0 ''u2'' ex_closed_state
     = (Json_failure 400 ''Poll is not active'', ex_closed_state)
   \<and> event_vote_poll ''h'' ''POLL-5'' 0 ''u2'' ex_closed_state = Some ex_closed_state"
proof -
  obtain ev where ev: "map_of (events ex_event_state) ''EVENT-ABC'' = Some ev"
    using ex_event_lookup by blast
  then have ev': "map_of (events (connect ''h'' ex_event_state)) ''EVENT-ABC'' = Some ev"
    by (simp add: ex_event_fields)
  from ev poll_closed_by_timer [of ex_event_state "''EVENT-ABC''" ev "Some 30" 30 "''Tea?''"
      "[''yes'', ''no'']" 5]
  have 1: "timers ex_poll_state
     = [\<lparr> tm_armedAt = 5, tm_delay = 30000, tm_task = Close_poll ''POLL-5'' \<rparr>]"
    by (simp add: ex_poll_state_def ex_event_fields showNat_5)
  from ev poll_closed_by_timer [of ex_event_state "''EVENT-ABC''" ev None _ "''Tea?''"
      "[''yes'', ''no'']" 5]
  have 2: "timers (snd (createPoll ''EVENT-ABC'' ''Tea?'' [''yes'', ''no''] None 5 ex_event_state))
     = [\<lparr> tm_armedAt = 5, tm_delay = 60000, tm_task = Close_poll ''POLL-5'' \<rparr>]"
    by (simp add: ex_event_fields showNat_5)
  from ev' poll_closed_by_timer [of "connect ''h'' ex_event_state" "''EVENT-ABC''" ev _ 45 _ _ 7
      "ex_zero_poll\<lparr>poll_duration := Some 45\<rparr>" "''h''"]
  have 3: "timers (event_start_poll ''h'' ''EVENT-ABC'' (ex_zero_poll\<lparr>poll_duration := Some 45\<rparr>) 7
               (connect ''h'' ex_event_state))
     = [\<lparr> tm_armedAt = 7, tm_delay = 45000,
          tm_task = Close_event_poll ''h'' ''EVENT-ABC'' ''POLL-7'' \<rparr>]"
    by (simp add: ex_event_fields showNat_7)
  from ev' poll_closed_by_timer [of "connect ''h'' ex_event_state" "''EVENT-ABC''" ev _ _ _ _ 7
      ex_zero_poll "''h''"]
  have 4: "timers ex_zero_state
     = [\<lparr> tm_armedAt = 7, tm_delay = 60000,
          tm_task = Close_event_poll ''h'' ''EVENT-ABC'' ''POLL-7'' \<rparr>]"
    by (simp add: ex_zero_state_def ex_zero_poll_def ex_event_fields showNat_7)
  have g: "0 < length (timers ex_voted_state)
        \<and> tm_task (timers ex_voted_state ! 0) = Close_poll ''POLL-5''
        \<and> get_poll ex_voted_state ''POLL-5'' = Some (0, pollObjs ex_voted_state ! 0)
        \<and> poll_status (pollObjs ex_voted_state ! 0) = Active"
    by (simp add: ex_voted_objs get_poll_def)
  with poll_closed_by_timer [of ex_voted_state _ _ _ _ _ _ _ _ _ 0 "''POLL-5''" 0
      "pollObjs ex_voted_state ! 0"]
  have 5: "get_poll ex_closed_state ''POLL-5''
     = Some (0, (pollObjs ex_voted_state ! 0)\<lparr>poll_status := Closed\<rparr>)"
    by (simp add: ex_closed_state_def)
  have c: "0 < length (pollObjs ex_closed_state) \<and> poll_status (pollObjs ex_closed_state ! 0) = Closed"
    by (simp add: ex_closed_objs)
  have r: "run [Post_vote ''POLL-5'' 0 ''u2'', Post_poll ''EVENT-ABC'' ''Again?'' [''a''] None 5]
             ex_closed_state
        = Some (the (run [Post_vote ''POLL-5'' 0 ''u2'', Post_poll ''EVENT-ABC'' ''Again?'' [''a''] None 5]
             ex_closed_state))"
    by (simp add: step_def)
  from c r poll_closed_by_timer [of ex_closed_state _ _ _ _ _ _ _ _ _ _ _ 0 _
      "[Post_vote ''POLL-5'' 0 ''u2'', Post_poll ''EVENT-ABC'' ''Again?'' [''a''] None 5]"
      "the (run [Post_vote ''POLL-5'' 0 ''u2'', Post_poll ''EVENT-ABC'' ''Again?'' [''a''] None 5]
             ex_closed_state)"]
  have 6: "pollObjs (the (run [Post_vote ''POLL-5'' 0 ''u2'', Post_poll ''EVENT-ABC'' ''Again?'' [''a''] None 5]
                     ex_closed_state)) ! 0
     = pollObjs ex_closed_state ! 0"
    by blast
  have "get_poll ex_closed_state ''POLL-5'' = Some (0, pollObjs ex_closed_state ! 0)"
    by (simp add: get_poll_def ex_closed_objs)
  with c poll_closed_by_timer [of ex_closed_state _ _ _ _ _ _ _ _ "''h''" _ "''POLL-5''" 0
      "pollObjs ex_closed_state ! 0" _ _ 0 "''u2''"]
  have 7: "votePoll ''POLL-5'' 0 ''u2'' ex_closed_state
       = (Json_failure 400 ''Poll is not active'', ex_closed_state)
     \<and> event_vote_poll ''h'' ''POLL-5'' 0 ''u2'' ex_closed_state = Some ex_closed_state"
    by blast
  from 1 2 3 4 5 6 7 show ?thesis by blast
qed

text \<open>
  Claim C3 as the spec states it fails for a duration of zero: the poll that
  \<^verbatim>\<open>event-start-poll\<close> stores has the duration \<^verbatim>\<open>0\<close>, and its task is scheduled 60 seconds after
  the creation, not zero seconds after it.
\<close>

theorem zero_duration_counterexample:
  "poll_duration (pollObjs ex_zero_state ! 0) = Some 0
   \<and> map tm_armedAt (timers ex_zero_state) = [7]
   \<and> map tm_delay (timers ex_zero_state) = [60000]"
  using ex_event_lookup
  by (auto simp: ex_zero_state_def ex_zero_poll_def event_start_poll_def Let_def ex_event_fields
      or_60_def split: option.splits)




text \<open>
  Claim C9, as the code has it.  For an event that exists, \<^verbatim>\<open>event-send-message\<close> appends the
  message to \<^verbatim>\<open>event.messages\<close> and delivers \<^verbatim>\<open>event-message\<close> to every socket of the event's
  group exactly when \<^verbatim>\<open>settings.chatEnabled\<close> is true.  When it is false, and when there is no
  such event, the handler does nothing at all: the state is the same, no socket gets anything,
  the sender gets no error.  No other step of the process changes the message log of an
  event (\<^verbatim>\<open>createEvent\<close> can put a new event under the id).  The other chat listener,
  \<^verbatim>\<open>send-message\<close>, is not gated: given the id of an event room it leaves \<^verbatim>\<open>events\<close> as it is
  and delivers \<^verbatim>\<open>message\<close> to every socket of the event's group, whatever the event's settings
  are.
\<close>

theorem event_chat_gated:
  "(map_of (events st) eventId = Some ev \<longrightarrow>
     (chatEnabled (ev_settings ev) \<longrightarrow>
        map_of (events (event_send_message s eventId message st)) eventId
          = Some (ev\<lparr>ev_messages := ev_messages ev @ [message]\<rparr>)
        \<and> (\<forall>r. inbox (event_send_message s eventId message st) r
              = (if in_group st eventId r
                 then inbox st r @ [(''event-message'', P_message message)] else inbox st r)))
     \<and> (\<not> chatEnabled (ev_settings ev) \<longrightarrow> event_send_message s eventId message st = st))
   \<and> (map_of (events st) eventId = None \<longrightarrow> event_send_message s eventId message st = st)
   \<and> events (send_message s eventId message st) = events st
   \<and> (\<forall>r. inbox (send_message s eventId message st) r
          = (if in_group st eventId r
             then inbox st r @ [(''message'', P_message message)] else inbox st r))
   \<and> (step act st = Some st' \<and> map_of (events st) eventId = Some ev
        \<and> \<not> (\<exists>sender m. act = Event_send_message sender eventId m \<and> chatEnabled (ev_settings ev))
        \<and> \<not> (\<exists>title description hostName hostEmail rnd now.
                 act = Post_event title description hostName hostEmail rnd now
                 \<and> eventId = ''EVENT-'' @ rnd) \<longrightarrow>
        (\<exists>ev'. map_of (events st') eventId = Some ev' \<and> ev_messages ev' = ev_messages ev))"
proof (intro conjI)
  show "step act st = Some st' \<and> map_of (events st) eventId = Some ev
        \<and> \<not> (\<exists>sender m. act = Event_send_message sender eventId m \<and> chatEnabled (ev_settings ev))
        \<and> \<not> (\<exists>title description hostName hostEmail rnd now.
                 act = Post_event title description hostName hostEmail rnd now
                 \<and> eventId = ''EVENT-'' @ rnd) \<longrightarrow>
        (\<exists>ev'. map_of (events st') eventId = Some ev' \<and> ev_messages ev' = ev_messages ev)"
    using step_log [of act st st' eventId ev] by blast
  show "map_of (events st) eventId = Some ev \<longrightarrow>
     (chatEnabled (ev_settings ev) \<longrightarrow>
        map_of (events (event_send_message s eventId message st)) eventId
          = Some (ev\<lparr>ev_messages := ev_messages ev @ [message]\<rparr>)
        \<and> (\<forall>r. inbox (event_send_message s eventId message st) r
              = (if in_group st eventId r
                 then inbox st r @ [(''event-message'', P_message message)] else inbox st r)))
     \<and> (\<not> chatEnabled (ev_settings ev) \<longrightarrow> event_send_message s eventId message st = st)"
    by (simp add: event_send_message_def io_to_def inbox_deliver update_conv' in_group_def)
  show "map_of (events st) eventId = None \<longrightarrow> event_send_message s eventId message st = st"
    by (simp add: event_send_message_def)
  show "events (send_message s eventId message st) = events st"
    by (simp add: send_message_def io_to_def split: option.splits)
  show "\<forall>r. inbox (send_message s eventId message st) r
          = (if in_group st eventId r
             then inbox st r @ [(''message'', P_message message)] else inbox st r)"
    by (simp add: send_message_def io_to_def inbox_deliver in_group_def split: option.splits)
qed

theorem event_chat_gated_witness:
  "ev_messages (the (map_of (events (event_send_message ''a'' ''EVENT-ABC'' ''hello'' ex_attended_state))
                      ''EVENT-ABC'')) = [''hello'']
   \<and> inbox (event_send_message ''a'' ''EVENT-ABC'' ''hello'' ex_attended_state) ''h''
       = inbox ex_attended_state ''h'' @ [(''event-message'', P_message ''hello'')]
   \<and> inbox (event_send_message ''a'' ''EVENT-ABC'' ''hello'' ex_attended_state) ''a''
       = inbox ex_attended_state ''a'' @ [(''event-message'', P_message ''hello'')]
   \<and> event_send_message ''a'' ''EVENT-ABC'' ''hello'' ex_muted_state = ex_muted_state
   \<and> event_send_message ''a'' ''EVENT-XYZ'' ''hello'' ex_attended_state = ex_attended_state
   \<and> inbox (send_message ''a'' ''EVENT-ABC'' ''hello'' ex_attended_state) ''h''
       = inbox ex_attended_state ''h'' @ [(''message'', P_message ''hello'')]
   \<and> events (send_message ''a'' ''EVENT-ABC'' ''hello'' ex_attended_state) = events ex_attended_state
   \<and> step (Event_toggle_chat ''h'' ''EVENT-ABC'' False) ex_attended_state = Some ex_muted_state
   \<and> ev_messages (the (map_of (events ex_muted_state) ''EVENT-ABC'')) = []"
proof -
  let ?ev = "the (map_of (events ex_attended_state) ''EVENT-ABC'')"
  have e: "map_of (events ex_attended_state) ''EVENT-ABC'' = Some ?ev
        \<and> chatEnabled (ev_settings ?ev) \<and> ev_messages ?ev = []
        \<and> in_group ex_attended_state ''EVENT-ABC'' ''h''
        \<and> in_group ex_attended_state ''EVENT-ABC'' ''a''"
    by (simp add: ex_attended_fields in_group_def)
  from e event_chat_gated [of ex_attended_state "''EVENT-ABC''" ?ev "''a''" "''hello''"]
  have 1: "ev_messages (the (map_of (events (event_send_message ''a'' ''EVENT-ABC'' ''hello'' ex_attended_state))
                      ''EVENT-ABC'')) = [''hello'']
   \<and> inbox (event_send_message ''a'' ''EVENT-ABC'' ''hello'' ex_attended_state) ''h''
       = inbox ex_attended_state ''h'' @ [(''event-message'', P_message ''hello'')]
   \<and> inbox (event_send_message ''a'' ''EVENT-ABC'' ''hello'' ex_attended_state) ''a''
       = inbox ex_attended_state ''a'' @ [(''event-message'', P_message ''hello'')]
   \<and> inbox (send_message ''a'' ''EVENT-ABC'' ''hello'' ex_attended_state) ''h''
       = inbox ex_attended_state ''h'' @ [(''message'', P_message ''hello'')]
   \<and> events (send_message ''a'' ''EVENT-ABC'' ''hello'' ex_attended_state) = events ex_attended_state"
    by simp
  let ?ev' = "the (map_of (events ex_muted_state) ''EVENT-ABC'')"
  have m: "map_of (events ex_muted_state) ''EVENT-ABC'' = Some ?ev'
        \<and> \<not> chatEnabled (ev_settings ?ev')"
    by (simp add: ex_muted_fields)
  from m event_chat_gated [of ex_muted_state "''EVENT-ABC''" ?ev' "''a''" "''hello''"]
  have 2: "event_send_message ''a'' ''EVENT-ABC'' ''hello'' ex_muted_state = ex_muted_state"
    by blast
  have n: "map_of (events ex_attended_state) ''EVENT-XYZ'' = None"
    by (simp add: ex_attended_state_def join_room_old_def join_event_def join_roomId_def
        join_student_def ex_live_fields prims update_conv')
  from n event_chat_gated [of ex_attended_state "''EVENT-XYZ''" _ "''a''" "''hello''"]
  have 3: "event_send_message ''a'' ''EVENT-XYZ'' ''hello'' ex_attended_state = ex_attended_state"
    by blast
  have t: "step (Event_toggle_chat ''h'' ''EVENT-ABC'' False) ex_attended_state = Some ex_muted_state"
    by (simp add: step_def ex_muted_state_def ex_attended_fields)
  from t e have pre: "step (Event_toggle_chat ''h'' ''EVENT-ABC'' False) ex_attended_state
          = Some ex_muted_state
        \<and> map_of (events ex_attended_state) ''EVENT-ABC'' = Some ?ev
        \<and> \<not> (\<exists>sender m. Event_toggle_chat ''h'' ''EVENT-ABC'' False
                            = Event_send_message sender ''EVENT-ABC'' m
                          \<and> chatEnabled (ev_settings ?ev))
        \<and> \<not> (\<exists>title description hostName hostEmail rnd now.
                 Event_toggle_chat ''h'' ''EVENT-ABC'' False
                   = Post_event title description hostName hostEmail rnd now
                 \<and> ''EVENT-ABC'' = ''EVENT-'' @ rnd)"
    by simp
  from event_chat_gated [where st = ex_attended_state and eventId = "''EVENT-ABC''" and ev = ?ev
      and act = "Event_toggle_chat ''h'' ''EVENT-ABC'' False" and st' = ex_muted_state,
      THEN conjunct2, THEN conjunct2, THEN conjunct2, THEN conjunct2, THEN mp, OF pre]
  obtain ev' where "map_of (events ex_muted_state) ''EVENT-ABC'' = Some ev'"
    and "ev_messages ev' = ev_messages ?ev" by blast
  with e have 4: "ev_messages (the (map_of (events ex_muted_state) ''EVENT-ABC'')) = []"
    by simp
  from 1 2 3 4 t show ?thesis by blast
qed

text \<open>
  Claim C9 as the spec states it, for every chat message sent to an event room, fails on
  \<^verbatim>\<open>send-message\<close>: the event \<^verbatim>\<open>EVENT-ABC\<close> has \<^verbatim>\<open>chatEnabled\<close> false, and the message that the
  attendee sends to the room with \<^verbatim>\<open>send-message\<close> is delivered to the host's socket, which is
  in the event's group.
\<close>

theorem chat_not_gated_counterexample:
  "map_option (\<lambda>ev. chatEnabled (ev_settings ev)) (map_of (events ex_muted_state) ''EVENT-ABC'')
     = Some False
   \<and> in_group ex_muted_state ''EVENT-ABC'' ''h''
   \<and> inbox (send_message ''a'' ''EVENT-ABC'' ''hello'' ex_muted_state) ''h''
       = inbox ex_muted_state ''h'' @ [(''message'', P_message ''hello'')]"
  by (simp add: ex_muted_fields ex_attended_fields send_message_def io_to_def inbox_deliver
      in_group_def split: option.splits)

text \<open>
  Claim C10.  \<^verbatim>\<open>create-room\<close> with a room id that starts neither with \<^verbatim>\<open>GAME-\<close> nor with
  \<^verbatim>\<open>EVENT-\<close> puts a fresh session under that id in \<^verbatim>\<open>teachingSessions\<close>, whatever was there:
  the host and host socket are the caller's, students, messages, notes, attendance and
  feedback are empty.  The other sessions, and the order of the map's keys, stay.
\<close>

theorem create_room_teaching_fresh:
  "\<not> startsWith roomId ''GAME-'' \<and> \<not> startsWith roomId ''EVENT-'' \<longrightarrow>
     map_of (teachingSessions (create_room s roomId host now st)) roomId
       = Some \<lparr> ts_host = host, ts_hostSocketId = s, ts_students = [], ts_messages = [],
                ts_notes = [], ts_attendance = [], ts_feedback = [], ts_createdAt = now,
                ts_type = Teaching, ts_hostActive = None \<rparr>
     \<and> (\<forall>other. other \<noteq> roomId \<longrightarrow>
           map_of (teachingSessions (create_room s roomId host now st)) other
             = map_of (teachingSessions st) other)
     \<and> map fst (teachingSessions (create_room s roomId host now st))
         = (if roomId \<in> fst ` set (teachingSessions st) then map fst (teachingSessions st)
            else map fst (teachingSessions st) @ [roomId])"
  by (simp add: create_room_def s_create_room_def w_create_room_def Let_def update_conv'
      update_keys)

theorem create_room_teaching_fresh_witness:
  "map ts_students (map snd (teachingSessions ex_class_joined))
     = [[\<lparr> st_profile = ex_student, st_socketId = ''s'' \<rparr>]]
   \<and> map_of (teachingSessions (create_room ''k'' ''T1'' ''Mr Kay'' 9 (connect ''k'' ex_class_joined)))
        ''T1''
     = Some \<lparr> ts_host = ''Mr Kay'', ts_hostSocketId = ''k'', ts_students = [], ts_messages = [],
              ts_notes = [], ts_attendance = [], ts_feedback = [], ts_createdAt = 9,
              ts_type = Teaching, ts_hostActive = None \<rparr>
   \<and> map fst (teachingSessions (create_room ''k'' ''T1'' ''Mr Kay'' 9 (connect ''k'' ex_class_joined)))
     = [''T1'']"
proof -
  have p: "\<not> startsWith ''T1'' ''GAME-'' \<and> \<not> startsWith ''T1'' ''EVENT-''"
    by (simp add: startsWith_def)
  have t: "teachingSessions (connect ''k'' ex_class_joined) = teachingSessions ex_class_joined"
    by (simp add: connect_def)
  from p create_room_teaching_fresh [of "''T1''" "''k''" "''Mr Kay''" 9 "connect ''k'' ex_class_joined"]
  show ?thesis
    by (simp add: t ex_class_joined_fields)
qed



text \<open>
  Claim C5.  In a teaching session that exists, \<^verbatim>\<open>approve-join\<close> changes neither the session
  nor any socket's groups: it only delivers \<^verbatim>\<open>join-approved\<close>, with the room id and the host's
  socket id, to the group named by the request id, which for a requester's socket id is that
  socket.  \<^verbatim>\<open>confirm-join\<close>, arriving on a connected socket, looks for the first student with
  the same \<^verbatim>\<open>id\<close> or the same socket id.  If there is one, only its socket id is overwritten:
  the list keeps its length and no other socket is told.  If there is none, the student is
  appended with the socket id and the other sockets of the room's group get
  \<^verbatim>\<open>student-joined\<close>.  Either way the sender gets \<^verbatim>\<open>room-joined\<close> with the list.  If the ids in
  the list were distinct before, they are distinct after, and exactly one entry has the
  student's id whenever the student was appended or an entry with that id was there.  In a
  state that the process can reach the ids are distinct.
\<close>

theorem teaching_join_two_phase:
  "map_of (teachingSessions st) roomId = Some session \<longrightarrow>
     teachingSessions (approve_join h requestId roomId st) = teachingSessions st
     \<and> sids (approve_join h requestId roomId st) = sids st
     \<and> (\<forall>r. inbox (approve_join h requestId roomId st) r
            = (if in_group st requestId r
               then inbox st r @ [(''join-approved'',
                                   P_join_approved roomId (ts_hostSocketId session))]
               else inbox st r))
     \<and> (map_of (sids st) s = Some gs \<longrightarrow>
          (\<forall>i. findIndex (\<lambda>x. pr_id (st_profile x) = pr_id student \<or> st_socketId x = s)
                 (ts_students session) = Some i \<longrightarrow>
             map_of (teachingSessions (confirm_join s roomId student st)) roomId
               = Some (session\<lparr>ts_students :=
                     (ts_students session)[i := (ts_students session ! i)\<lparr>st_socketId := s\<rparr>]\<rparr>)
             \<and> length (ts_students (the (map_of
                   (teachingSessions (confirm_join s roomId student st)) roomId)))
                 = length (ts_students session)
             \<and> (\<forall>r. r \<noteq> s \<longrightarrow> inbox (confirm_join s roomId student st) r = inbox st r))
          \<and> (findIndex (\<lambda>x. pr_id (st_profile x) = pr_id student \<or> st_socketId x = s)
                 (ts_students session) = None \<longrightarrow>
             map_of (teachingSessions (confirm_join s roomId student st)) roomId
               = Some (session\<lparr>ts_students :=
                     ts_students session @ [\<lparr> st_profile = student, st_socketId = s \<rparr>]\<rparr>)
             \<and> (\<forall>r. r \<noteq> s \<longrightarrow> inbox (confirm_join s roomId student st) r
                  = (if in_group st roomId r
                     then inbox st r @ [(''student-joined'',
                                         P_student \<lparr> st_profile = student, st_socketId = s \<rparr>)]
                     else inbox st r)))
          \<and> inbox (confirm_join s roomId student st) s
              = inbox st s
                @ [(''room-joined'',
                    P_room_joined_teaching roomId (ts_hostSocketId session)
                      (ts_students (the (map_of
                         (teachingSessions (confirm_join s roomId student st)) roomId))))]
          \<and> (distinct (map (\<lambda>x. pr_id (st_profile x)) (ts_students session)) \<longrightarrow>
               distinct (map (\<lambda>x. pr_id (st_profile x))
                 (ts_students (the (map_of
                    (teachingSessions (confirm_join s roomId student st)) roomId))))
               \<and> (pr_id student \<in> (\<lambda>x. pr_id (st_profile x)) ` set (ts_students session)
                    \<or> findIndex (\<lambda>x. pr_id (st_profile x) = pr_id student \<or> st_socketId x = s)
                         (ts_students session) = None \<longrightarrow>
                  length (filter (\<lambda>x. pr_id (st_profile x) = pr_id student)
                    (ts_students (the (map_of
                       (teachingSessions (confirm_join s roomId student st)) roomId))))
                  = 1)))
     \<and> (run acts init = Some st \<longrightarrow>
          distinct (map (\<lambda>x. pr_id (st_profile x)) (ts_students session)))"
proof (intro impI conjI allI)
  assume se: "map_of (teachingSessions st) roomId = Some session"
  note a = approve_join_effect [OF se, of h requestId]
  show "teachingSessions (approve_join h requestId roomId st) = teachingSessions st"
    by (simp add: a)
  show "sids (approve_join h requestId roomId st) = sids st" by (simp add: a)
  show "inbox (approve_join h requestId roomId st) r
            = (if in_group st requestId r
               then inbox st r @ [(''join-approved'',
                                   P_join_approved roomId (ts_hostSocketId session))]
               else inbox st r)" for r
    by (simp add: a)
  assume co: "map_of (sids st) s = Some gs"
  let ?P = "\<lambda>x. pr_id (st_profile x) = pr_id student \<or> st_socketId x = s"
  let ?ys = "ts_students (the (map_of (teachingSessions (confirm_join s roomId student st)) roomId))"
  {
    fix i assume f: "findIndex ?P (ts_students session) = Some i"
    note c = confirm_join_found [OF se co f]
    show "map_of (teachingSessions (confirm_join s roomId student st)) roomId
               = Some (session\<lparr>ts_students :=
                     (ts_students session)[i := (ts_students session ! i)\<lparr>st_socketId := s\<rparr>]\<rparr>)"
      by (rule c(1))
    show "length ?ys = length (ts_students session)" by (simp add: c(1))
    show "r \<noteq> s \<Longrightarrow> inbox (confirm_join s roomId student st) r = inbox st r" for r
      by (rule c(3))
  }
  {
    assume n: "findIndex ?P (ts_students session) = None"
    note c = confirm_join_new [OF se co n]
    show "map_of (teachingSessions (confirm_join s roomId student st)) roomId
               = Some (session\<lparr>ts_students :=
                     ts_students session @ [\<lparr> st_profile = student, st_socketId = s \<rparr>]\<rparr>)"
      by (rule c(1))
    show "r \<noteq> s \<Longrightarrow> inbox (confirm_join s roomId student st) r
                  = (if in_group st roomId r
                     then inbox st r @ [(''student-joined'',
                                         P_student \<lparr> st_profile = student, st_socketId = s \<rparr>)]
                     else inbox st r)" for r
      by (rule c(3))
  }
  show "inbox (confirm_join s roomId student st) s
              = inbox st s
                @ [(''room-joined'', P_room_joined_teaching roomId (ts_hostSocketId session) ?ys)]"
  proof (cases "findIndex ?P (ts_students session)")
    case None
    from confirm_join_new(1,2) [OF se co None] show ?thesis by simp
  next
    case (Some i)
    from confirm_join_found(1,2) [OF se co Some] show ?thesis by simp
  qed
  {
    assume d: "distinct (map (\<lambda>x. pr_id (st_profile x)) (ts_students session))"
    show "distinct (map (\<lambda>x. pr_id (st_profile x)) ?ys)"
      by (rule confirm_join_ids(1) [OF se co d])
    assume "pr_id student \<in> (\<lambda>x. pr_id (st_profile x)) ` set (ts_students session)
            \<or> findIndex ?P (ts_students session) = None"
    then show "length (filter (\<lambda>x. pr_id (st_profile x) = pr_id student) ?ys) = 1"
      by (rule confirm_join_ids(2) [OF se co d])
  }
next
  assume se: "map_of (teachingSessions st) roomId = Some session"
    and "run acts init = Some st"
  then show "distinct (map (\<lambda>x. pr_id (st_profile x)) (ts_students session))"
    using reachable_students_distinct by blast
qed

theorem teaching_join_two_phase_witness:
  "ts_students (the (map_of (teachingSessions
       (approve_join ''h'' ''s'' ''T1'' (connect ''s'' ex_class_created))) ''T1'')) = []
   \<and> inbox (approve_join ''h'' ''s'' ''T1'' (connect ''s'' ex_class_created)) ''s''
       = [(''join-approved'', P_join_approved ''T1'' ''h'')]
   \<and> inbox (approve_join ''h'' ''s'' ''T1'' (connect ''s'' ex_class_created)) ''h''
       = inbox ex_class_created ''h''
   \<and> ts_students (the (map_of (teachingSessions ex_class_joined) ''T1''))
       = [\<lparr> st_profile = ex_student, st_socketId = ''s'' \<rparr>]
   \<and> ts_students (the (map_of (teachingSessions
         (confirm_join ''s2'' ''T1'' ex_student (connect ''s2'' ex_class_joined))) ''T1''))
       = [\<lparr> st_profile = ex_student, st_socketId = ''s2'' \<rparr>]
   \<and> length (filter (\<lambda>x. pr_id (st_profile x) = pr_id ex_student)
         (ts_students (the (map_of (teachingSessions
            (confirm_join ''s2'' ''T1'' ex_student (connect ''s2'' ex_class_joined))) ''T1''))))
       = 1
   \<and> run (ex_class_actions @ [Connect ''s2'']) init = Some (connect ''s2'' ex_class_joined)
   \<and> distinct (map (\<lambda>x. pr_id (st_profile x))
         (ts_students (the (map_of (teachingSessions ex_class_joined) ''T1''))))"
proof -
  let ?st0 = "connect ''s'' ex_class_created"
  let ?se0 = "the (map_of (teachingSessions ex_class_created) ''T1'')"
  have s0: "map_of (teachingSessions ?st0) ''T1'' = Some ?se0 \<and> ts_students ?se0 = []
      \<and> ts_hostSocketId ?se0 = ''h''
      \<and> map_of (sids ?st0) ''s'' = Some [''s''] \<and> in_group ?st0 ''s'' ''s''
      \<and> \<not> in_group ?st0 ''s'' ''h'' \<and> inbox ?st0 = inbox ex_class_created
      \<and> inbox ex_class_created ''s'' = []"
    by (simp add: connect_def ex_class_created_fields in_group_def)
  from s0 teaching_join_two_phase [of ?st0 "''T1''" ?se0 "''h''" "''s''" "''s''" "[''s'']" ex_student]
  have 1: "ts_students (the (map_of (teachingSessions (approve_join ''h'' ''s'' ''T1'' ?st0)) ''T1'')) = []
   \<and> inbox (approve_join ''h'' ''s'' ''T1'' ?st0) ''s'' = [(''join-approved'', P_join_approved ''T1'' ''h'')]
   \<and> inbox (approve_join ''h'' ''s'' ''T1'' ?st0) ''h'' = inbox ex_class_created ''h''
   \<and> ts_students (the (map_of (teachingSessions ex_class_joined) ''T1''))
       = [\<lparr> st_profile = ex_student, st_socketId = ''s'' \<rparr>]"
    by (simp add: ex_class_joined_def)
  let ?st1 = "connect ''s2'' ex_class_joined"
  let ?se1 = "the (map_of (teachingSessions ex_class_joined) ''T1'')"
  have s1: "map_of (teachingSessions ?st1) ''T1'' = Some ?se1
      \<and> ts_students ?se1 = [\<lparr> st_profile = ex_student, st_socketId = ''s'' \<rparr>]
      \<and> map_of (sids ?st1) ''s2'' = Some [''s2'']"
    by (simp add: connect_def ex_class_joined_fields)
  then have f: "findIndex (\<lambda>x. pr_id (st_profile x) = pr_id ex_student \<or> st_socketId x = ''s2'')
                  (ts_students ?se1) = Some 0
      \<and> distinct (map (\<lambda>x. pr_id (st_profile x)) (ts_students ?se1))
      \<and> pr_id ex_student \<in> (\<lambda>x. pr_id (st_profile x)) ` set (ts_students ?se1)"
    by simp
  from s1 f teaching_join_two_phase [of ?st1 "''T1''" ?se1 "''h''" "''s''" "''s2''" "[''s2'']" ex_student]
  have 2: "ts_students (the (map_of (teachingSessions
         (confirm_join ''s2'' ''T1'' ex_student ?st1)) ''T1''))
       = [\<lparr> st_profile = ex_student, st_socketId = ''s2'' \<rparr>]
   \<and> length (filter (\<lambda>x. pr_id (st_profile x) = pr_id ex_student)
         (ts_students (the (map_of (teachingSessions
            (confirm_join ''s2'' ''T1'' ex_student ?st1)) ''T1''))))
       = 1"
    by simp
  from s1 ex_class_rejoin_run
    teaching_join_two_phase [where st = ?st1 and roomId = "''T1''" and session = ?se1
      and acts = "ex_class_actions @ [Connect ''s2'']"]
  have 3: "distinct (map (\<lambda>x. pr_id (st_profile x)) (ts_students ?se1))"
    by blast
  from 1 2 3 ex_class_rejoin_run show ?thesis by simp
qed

text \<open>
  Claim C4, as the code has it.  The rooms that a host's disconnect deletes are those of the
  signaling handler's store (\<^verbatim>\<open>WebRTCHandler.rooms\<close>), where every \<^verbatim>\<open>create-room\<close> registers the
  room with the caller as host.  When the connection that is the host of a room of that store
  is lost, the entry is deleted (the keys of the store are distinct in every state that the
  process can reach), a lookup of the room id in that store finds nothing, and
  \<^verbatim>\<open>gamingRooms\<close> is left as it was.  Every socket gets one \<^verbatim>\<open>host-disconnected\<close> for each room
  of that host whose group it is in, the lost socket none; so a socket that is in the group
  of this room and of no other room of that host gets exactly one.
\<close>

theorem host_disconnect_signaling_room:
  "(run acts init = Some st \<longrightarrow> distinct (map fst (rooms st)))
   \<and> (distinct (map fst (rooms st)) \<and> map_of (rooms st) roomId = Some room \<and> wr_hostId room = h \<longrightarrow>
     map_of (rooms (disconnect h st)) roomId = None
     \<and> gamingRooms (disconnect h st) = gamingRooms st
     \<and> (\<forall>m. host_disconnected_count (disconnect h st) m
            = host_disconnected_count st m
              + length (filter (\<lambda>x. wr_hostId (snd x) = h \<and> m \<noteq> h \<and> in_group st (fst x) m)
                          (rooms st)))
     \<and> (\<forall>m. m \<noteq> h \<and> in_group st roomId m
             \<and> (\<forall>x \<in> set (rooms st). wr_hostId (snd x) = h \<and> in_group st (fst x) m
                    \<longrightarrow> fst x = roomId) \<longrightarrow>
           host_disconnected_count (disconnect h st) m = host_disconnected_count st m + 1))"
proof (intro impI conjI allI)
  assume "run acts init = Some st"
  then show "distinct (map fst (rooms st))" by (rule reachable_rooms_distinct)
next
  assume pre: "distinct (map fst (rooms st)) \<and> map_of (rooms st) roomId = Some room
      \<and> wr_hostId room = h"
  then have d: "distinct (map fst (rooms st))" and r: "(roomId, room) \<in> set (rooms st)"
    and w: "wr_hostId room = h"
    by (auto dest: map_of_SomeD)
  show "map_of (rooms (disconnect h st)) roomId = None"
    using disconnect_effect [of h st] fold_w_disconnect_room_deleted [OF d r w] by simp
  show "gamingRooms (disconnect h st) = gamingRooms st"
    using disconnect_effect [of h st] by simp
  show c: "host_disconnected_count (disconnect h st) m
            = host_disconnected_count st m
              + length (filter (\<lambda>x. wr_hostId (snd x) = h \<and> m \<noteq> h \<and> in_group st (fst x) m)
                          (rooms st))" for m
    using disconnect_effect [of h st m] by simp
  fix m
  assume one: "m \<noteq> h \<and> in_group st roomId m
             \<and> (\<forall>x \<in> set (rooms st). wr_hostId (snd x) = h \<and> in_group st (fst x) m
                    \<longrightarrow> fst x = roomId)"
  let ?P = "\<lambda>x. wr_hostId (snd x) = h \<and> m \<noteq> h \<and> in_group st (fst x) m"
  have "?P (roomId, room)" using one w by simp
  moreover have "\<forall>x \<in> set (rooms st). ?P x \<longrightarrow> fst x = roomId" using one by blast
  ultimately have "length (filter ?P (rooms st)) = 1"
    using count_unique_key [OF d r, of ?P] by blast
  with c [of m] show "host_disconnected_count (disconnect h st) m = host_disconnected_count st m + 1"
    by simp
qed

theorem host_disconnect_signaling_room_witness:
  "map_of (rooms (disconnect ''h'' ex_game_joined)) ''GAME-1'' = None
   \<and> gamingRooms (disconnect ''h'' ex_game_joined) = gamingRooms ex_game_joined
   \<and> host_disconnected_count ex_game_joined ''b'' = 0
   \<and> host_disconnected_count (disconnect ''h'' ex_game_joined) ''b'' = 1
   \<and> host_disconnected_count (disconnect ''h'' ex_game_joined) ''h'' = 0
   \<and> run ex_game_actions init = Some ex_game_joined"
proof -
  let ?room = "\<lparr> wr_hostId = ''h'', wr_hostName = ''Hal'', wr_students = [], wr_connections = [] \<rparr>"
  note R = host_disconnect_signaling_room [where st = ex_game_joined and acts = ex_game_actions,
      THEN conjunct1, THEN mp, OF ex_game_run]
  have "map_of (rooms ex_game_joined) ''GAME-1'' = Some ?room \<and> wr_hostId ?room = ''h''"
    by (simp add: ex_game_joined_fields)
  with R have pre: "distinct (map fst (rooms ex_game_joined))
      \<and> map_of (rooms ex_game_joined) ''GAME-1'' = Some ?room \<and> wr_hostId ?room = ''h''"
    by simp
  have b: "''b'' \<noteq> ''h'' \<and> in_group ex_game_joined ''GAME-1'' ''b''
      \<and> (\<forall>x \<in> set (rooms ex_game_joined).
            wr_hostId (snd x) = ''h'' \<and> in_group ex_game_joined (fst x) ''b'' \<longrightarrow> fst x = ''GAME-1'')"
    by (simp add: ex_game_joined_fields in_group_def)
  have z: "host_disconnected_count ex_game_joined ''b'' = 0
      \<and> host_disconnected_count ex_game_joined ''h'' = 0"
    by (simp add: host_disconnected_count_def ex_game_joined_fields ex_game_joined_def
        join_room_old_def join_gaming_def join_roomId_def join_student_def ex_game_created_def
        init_def prims)
  note T = host_disconnect_signaling_room [where st = ex_game_joined and roomId = "''GAME-1''"
      and room = ?room and h = "''h''", THEN conjunct2, THEN mp, OF pre]
  note A = T [THEN conjunct1]
  note B = T [THEN conjunct2, THEN conjunct1]
  note C = T [THEN conjunct2, THEN conjunct2, THEN conjunct1, THEN spec, of "''h''"]
  note D = T [THEN conjunct2, THEN conjunct2, THEN conjunct2, THEN spec, of "''b''", THEN mp, OF b]
  from C z have C': "host_disconnected_count (disconnect ''h'' ex_game_joined) ''h'' = 0" by simp
  from D z have D': "host_disconnected_count (disconnect ''h'' ex_game_joined) ''b'' = 1" by simp
  from A B z C' D' ex_game_run show ?thesis by simp
qed

text \<open>
  Claim C4 as the spec states it fails on the gaming-room store: after the host of the gaming
  room \<^verbatim>\<open>GAME-1\<close> is gone the room is still in \<^verbatim>\<open>gamingRooms\<close>, with its host socket id and its
  participants, and a later \<^verbatim>\<open>join-room-old\<close> finds it and is answered with \<^verbatim>\<open>room-joined\<close>.
\<close>

theorem gaming_room_survives_counterexample:
  "map_of (gamingRooms (disconnect ''h'' ex_game_joined)) ''GAME-1''
     = Some \<lparr> gr_host = ''Hal'', gr_hostSocketId = ''h'',
              gr_participants = [new_participant ''b'' ex_player 2],
              gr_messages = [], gr_createdAt = 1, gr_type = Gaming \<rparr>
   \<and> inbox (join_room_old ''c'' (Join_id ''GAME-1'') 9
              (connect ''c'' (disconnect ''h'' ex_game_joined))) ''c''
       = [(''room-joined'',
           P_room_joined_gaming ''GAME-1'' ''h'' [new_participant ''b'' ex_player 2])]"
  by (simp add: ex_game_left_fields ex_game_joined_fields join_room_old_def join_gaming_def
      join_roomId_def join_student_def put_participant_def new_participant_def ex_player_def
      disconnect_effect prims)

text \<open>
  Claim C8, as the code has it.  Take a teaching session with a room id that is not the empty
  string, hosted by the socket \<^verbatim>\<open>h\<close>, and the last one in the order of \<^verbatim>\<open>teachingSessions\<close> that
  this socket hosts (the only one, for instance).  When the connection is lost, the
  \<^verbatim>\<open>disconnect\<close> listener of server.js finds this room id, sets \<^verbatim>\<open>hostActive\<close> to \<^verbatim>\<open>false\<close> in that
  session and emits nothing: the session stays in the store, at its place, with its students
  and every other field, and the other sessions, those of the same host too, stay as they
  were.  The keys of the store are distinct in every state that the process can reach.  The
  members are notified all the same, by the other listeners of the same connection loss: the
  signaling handler, where \<^verbatim>\<open>create-room\<close> registered the room with the same host, sends
  \<^verbatim>\<open>host-disconnected\<close> to the room's group, and the \<^verbatim>\<open>disconnecting\<close> listener of server.js
  sends \<^verbatim>\<open>user-disconnected\<close> to the first group the socket had joined.
\<close>

theorem teaching_host_disconnect:
  "(run acts init = Some st \<longrightarrow> distinct (map fst (teachingSessions st)))
   \<and> (teachingSessions st = xs @ (roomId, session) # ys
       \<and> distinct (map fst (teachingSessions st))
       \<and> ts_hostSocketId session = h
       \<and> (\<forall>y \<in> set ys. ts_hostSocketId (snd y) \<noteq> h)
       \<and> roomId \<noteq> [] \<longrightarrow>
     hostRoomId h st = Some roomId
     \<and> s_disconnect h st
         = st\<lparr>teachingSessions := xs @ (roomId, session\<lparr>ts_hostActive := Some False\<rparr>) # ys\<rparr>
     \<and> teachingSessions (disconnect h st)
         = xs @ (roomId, session\<lparr>ts_hostActive := Some False\<rparr>) # ys
     \<and> map_of (teachingSessions (disconnect h st)) roomId
         = Some (session\<lparr>ts_hostActive := Some False\<rparr>)
     \<and> (\<forall>other. other \<noteq> roomId \<longrightarrow>
           map_of (teachingSessions (disconnect h st)) other = map_of (teachingSessions st) other)
     \<and> (\<forall>m room. map_of (rooms st) roomId = Some room \<and> wr_hostId room = h \<and> m \<noteq> h
             \<and> in_group st roomId m \<longrightarrow>
           host_disconnected_count st m < host_disconnected_count (disconnect h st) m)
     \<and> (\<forall>m gs. map_of (sids st) h = Some gs \<and> 1 < length gs \<and> m \<noteq> h
             \<and> in_group st (gs ! 1) m \<longrightarrow>
           (\<exists>rest. inbox (disconnect h st) m
                     = inbox st m @ (''user-disconnected'', P_socket h) # rest)))"
proof (intro impI conjI allI)
  assume "run acts init = Some st"
  then show "distinct (map fst (teachingSessions st))" by (rule reachable_sessions_distinct)
next
  assume pre: "teachingSessions st = xs @ (roomId, session) # ys
       \<and> distinct (map fst (teachingSessions st))
       \<and> ts_hostSocketId session = h
       \<and> (\<forall>y \<in> set ys. ts_hostSocketId (snd y) \<noteq> h)
       \<and> roomId \<noteq> []"
  then have ts: "teachingSessions st = xs @ (roomId, session) # ys"
    and di: "distinct (map fst (teachingSessions st))"
    and ho: "ts_hostSocketId session = h" and ne: "roomId \<noteq> []"
    and la: "\<forall>y \<in> set ys. ts_hostSocketId (snd y) \<noteq> h"
    by blast+
  from di have di': "distinct (map fst (xs @ (roomId, session) # ys))" by (simp only: ts)
  have se: "map_of (teachingSessions st) roomId = Some session"
    using map_of_middle [OF di'] by (simp only: ts)
  have up: "AList.update roomId (session\<lparr>ts_hostActive := Some False\<rparr>) (teachingSessions st)
      = xs @ (roomId, session\<lparr>ts_hostActive := Some False\<rparr>) # ys"
    using update_middle [OF di'] by (simp only: ts)
  show hr: "hostRoomId h st = Some roomId" by (rule hostRoomId_last [OF ts ho la])
  show "s_disconnect h st
         = st\<lparr>teachingSessions := xs @ (roomId, session\<lparr>ts_hostActive := Some False\<rparr>) # ys\<rparr>"
    using s_disconnect_host [OF hr ne se] by (simp only: up)
  have t: "teachingSessions (disconnect h st)
         = AList.update roomId (session\<lparr>ts_hostActive := Some False\<rparr>) (teachingSessions st)"
    by (rule disconnect_host_sessions [OF hr ne se])
  show "teachingSessions (disconnect h st)
         = xs @ (roomId, session\<lparr>ts_hostActive := Some False\<rparr>) # ys"
    using t by (simp only: up)
  show "map_of (teachingSessions (disconnect h st)) roomId
         = Some (session\<lparr>ts_hostActive := Some False\<rparr>)"
    by (simp add: t update_conv')
  show "other \<noteq> roomId \<Longrightarrow>
           map_of (teachingSessions (disconnect h st)) other = map_of (teachingSessions st) other"
    for other
    by (simp add: t update_conv')
  {
    fix m room
    assume a: "map_of (rooms st) roomId = Some room \<and> wr_hostId room = h \<and> m \<noteq> h
             \<and> in_group st roomId m"
    let ?P = "\<lambda>x. wr_hostId (snd x) = h \<and> m \<noteq> h \<and> in_group st (fst x) m"
    from a have "(roomId, room) \<in> set (rooms st)" by (auto dest: map_of_SomeD)
    moreover from a have "?P (roomId, room)" by simp
    ultimately have "(roomId, room) \<in> set (filter ?P (rooms st))" by simp
    then have "0 < length (filter ?P (rooms st))" by (rule length_pos_if_in_set)
    with disconnect_effect [of h st m]
    show "host_disconnected_count st m < host_disconnected_count (disconnect h st) m" by simp
  }
  {
    fix m gs
    assume a: "map_of (sids st) h = Some gs \<and> 1 < length gs \<and> m \<noteq> h
             \<and> in_group st (gs ! 1) m"
    then have "inbox (s_disconnecting h st) m = inbox st m @ [(''user-disconnected'', P_socket h)]"
      using s_disconnecting_inbox [of st h gs m] by blast
    with disconnect_inbox [of h st m]
    show "\<exists>rest. inbox (disconnect h st) m
                     = inbox st m @ (''user-disconnected'', P_socket h) # rest"
      by auto
  }
qed

theorem teaching_host_disconnect_witness:
  "run ex_class_actions init = Some ex_class_joined
   \<and> map_of (teachingSessions (disconnect ''h'' ex_class_joined)) ''T1''
     = Some \<lparr> ts_host = ''Ms Hopper'', ts_hostSocketId = ''h'',
              ts_students = [\<lparr> st_profile = ex_student, st_socketId = ''s'' \<rparr>],
              ts_messages = [], ts_notes = [], ts_attendance = [], ts_feedback = [],
              ts_createdAt = 1, ts_type = Teaching, ts_hostActive = Some False \<rparr>
   \<and> host_disconnected_count ex_class_joined ''s''
       < host_disconnected_count (disconnect ''h'' ex_class_joined) ''s''
   \<and> (\<exists>rest. inbox (disconnect ''h'' ex_class_joined) ''s''
                = inbox ex_class_joined ''s'' @ (''user-disconnected'', P_socket ''h'') # rest)
   \<and> teachingSessions (disconnect ''h'' ex_class_two)
       = [(''T1'', \<lparr> ts_host = ''Ms Hopper'', ts_hostSocketId = ''h'',
                     ts_students = [\<lparr> st_profile = ex_student, st_socketId = ''s'' \<rparr>],
                     ts_messages = [], ts_notes = [], ts_attendance = [], ts_feedback = [],
                     ts_createdAt = 1, ts_type = Teaching, ts_hostActive = None \<rparr>),
          (''T2'', \<lparr> ts_host = ''Ms Hopper'', ts_hostSocketId = ''h'', ts_students = [],
                     ts_messages = [], ts_notes = [], ts_attendance = [], ts_feedback = [],
                     ts_createdAt = 4, ts_type = Teaching, ts_hostActive = Some False \<rparr>)]
   \<and> run (ex_class_actions @ [Create_room ''h'' ''T2'' ''Ms Hopper'' 4]) init = Some ex_class_two"
proof -
  let ?session = "\<lparr> ts_host = ''Ms Hopper'', ts_hostSocketId = ''h'',
              ts_students = [\<lparr> st_profile = ex_student, st_socketId = ''s'' \<rparr>],
              ts_messages = [], ts_notes = [], ts_attendance = [], ts_feedback = [],
              ts_createdAt = 1, ts_type = Teaching, ts_hostActive = None \<rparr>"
  let ?second = "\<lparr> ts_host = ''Ms Hopper'', ts_hostSocketId = ''h'', ts_students = [],
              ts_messages = [], ts_notes = [], ts_attendance = [], ts_feedback = [],
              ts_createdAt = 4, ts_type = Teaching, ts_hostActive = None \<rparr>"
  let ?room = "\<lparr> wr_hostId = ''h'', wr_hostName = ''Ms Hopper'', wr_students = [],
                wr_connections = [] \<rparr>"
  note R = teaching_host_disconnect [where st = ex_class_joined and acts = ex_class_actions,
      THEN conjunct1, THEN mp, OF ex_class_run]
  have "teachingSessions ex_class_joined = [] @ (''T1'', ?session) # []
      \<and> ts_hostSocketId ?session = ''h''
      \<and> (\<forall>y \<in> set []. ts_hostSocketId (snd y) \<noteq> ''h'')
      \<and> ''T1'' \<noteq> []"
    by (simp add: ex_class_joined_fields)
  with R have pre: "teachingSessions ex_class_joined = [] @ (''T1'', ?session) # []
      \<and> distinct (map fst (teachingSessions ex_class_joined))
      \<and> ts_hostSocketId ?session = ''h''
      \<and> (\<forall>y \<in> set []. ts_hostSocketId (snd y) \<noteq> ''h'')
      \<and> ''T1'' \<noteq> []"
    by simp
  have w: "map_of (rooms ex_class_joined) ''T1'' = Some ?room \<and> wr_hostId ?room = ''h''
      \<and> ''s'' \<noteq> ''h'' \<and> in_group ex_class_joined ''T1'' ''s''"
    by (simp add: ex_class_joined_fields in_group_def)
  have g: "map_of (sids ex_class_joined) ''h'' = Some [''h'', ''T1''] \<and> 1 < length [''h'', ''T1'']
      \<and> ''s'' \<noteq> ''h'' \<and> in_group ex_class_joined ([''h'', ''T1''] ! 1) ''s''"
    by (simp add: ex_class_joined_fields in_group_def)
  note T = teaching_host_disconnect [where st = ex_class_joined and roomId = "''T1''"
      and session = ?session and h = "''h''" and xs = "[]" and ys = "[]",
      THEN conjunct2, THEN mp, OF pre]
  note A = T [THEN conjunct2, THEN conjunct2, THEN conjunct2, THEN conjunct1]
  note B = T [THEN conjunct2, THEN conjunct2, THEN conjunct2, THEN conjunct2, THEN conjunct2,
      THEN conjunct1, THEN spec, THEN spec, of ?room "''s''", THEN mp, OF w]
  note C = T [THEN conjunct2, THEN conjunct2, THEN conjunct2, THEN conjunct2, THEN conjunct2,
      THEN conjunct2, THEN spec, THEN spec, of "[''h'', ''T1'']" "''s''", THEN mp, OF g]
  have pre2: "teachingSessions ex_class_two = [(''T1'', ?session)] @ (''T2'', ?second) # []
      \<and> distinct (map fst (teachingSessions ex_class_two))
      \<and> ts_hostSocketId ?second = ''h''
      \<and> (\<forall>y \<in> set []. ts_hostSocketId (snd y) \<noteq> ''h'')
      \<and> ''T2'' \<noteq> []"
    by (simp add: ex_class_two_fields)
  note D = teaching_host_disconnect [where st = ex_class_two and roomId = "''T2''"
      and session = ?second and h = "''h''" and xs = "[(''T1'', ?session)]" and ys = "[]",
      THEN conjunct2, THEN mp, OF pre2, THEN conjunct2, THEN conjunct2, THEN conjunct1]
  from A B C D ex_class_run ex_class_two_run show ?thesis by simp
qed

text \<open>
  Claim C8 as the spec states it fails.  When the host of the teaching room \<^verbatim>\<open>T1\<close> is gone,
  the student's socket has received \<^verbatim>\<open>user-disconnected\<close> and \<^verbatim>\<open>host-disconnected\<close>.  When the
  host of the two teaching rooms \<^verbatim>\<open>T1\<close> and \<^verbatim>\<open>T2\<close> is gone, only \<^verbatim>\<open>T2\<close>, the later one, has
  \<^verbatim>\<open>hostActive\<close> false.  When the host of the teaching room with the empty room id is gone, no
  session has \<^verbatim>\<open>hostActive\<close> false.
\<close>

theorem teaching_members_notified_counterexample:
  "inbox (disconnect ''h'' ex_class_joined) ''s''
     = inbox ex_class_joined ''s''
       @ [(''user-disconnected'', P_socket ''h''), (''host-disconnected'', P_none)]
   \<and> map_of (teachingSessions ex_class_joined) ''T1''
       = Some \<lparr> ts_host = ''Ms Hopper'', ts_hostSocketId = ''h'',
                ts_students = [\<lparr> st_profile = ex_student, st_socketId = ''s'' \<rparr>],
                ts_messages = [], ts_notes = [], ts_attendance = [], ts_feedback = [],
                ts_createdAt = 1, ts_type = Teaching, ts_hostActive = None \<rparr>
   \<and> map (\<lambda>x. (fst x, ts_hostSocketId (snd x), ts_hostActive (snd x)))
         (teachingSessions ex_class_two)
       = [(''T1'', ''h'', None), (''T2'', ''h'', None)]
   \<and> map (\<lambda>x. (fst x, ts_hostSocketId (snd x), ts_hostActive (snd x)))
         (teachingSessions (disconnect ''h'' ex_class_two))
       = [(''T1'', ''h'', None), (''T2'', ''h'', Some False)]
   \<and> map (\<lambda>x. (fst x, ts_hostSocketId (snd x), ts_hostActive (snd x)))
         (teachingSessions ex_class_empty)
       = [([], ''h'', None)]
   \<and> map (\<lambda>x. (fst x, ts_hostSocketId (snd x), ts_hostActive (snd x)))
         (teachingSessions (disconnect ''h'' ex_class_empty))
       = [([], ''h'', None)]"
  by (simp add: ex_class_left_fields ex_class_joined_fields ex_class_two_fields
      ex_class_two_left_fields ex_class_empty_fields ex_class_empty_left_fields)

end
